theory Spec2Isabelle
  imports Main "HOL-Library.Word"
begin

unbundle bit_operations_syntax

section \<open>Data model of cgpu.c\<close>

text \<open>
  The development embeds the handle-based GPU layer of \<^verbatim>\<open>src/cgpu/src/cgpu.c\<close>.
  Machine integers keep their width (\<open>32 word\<close>, \<open>64 word\<close>); handles of the resource
  stores and native Vulkan object handles are opaque and are modelled as natural numbers.
  The global stores of the C file become one explicit state record that every operation
  takes and returns. Native calls that change or record something are appended to a trace
  kept in the state; the result of a fallible native call is an argument of the operation.
\<close>

type_synonym u32 = "32 word"
type_synonym u64 = "64 word"
type_synonym handle = nat
type_synonym vk_object = nat
type_synonym VkResult = int
type_synonym VkAccessFlags = u32

definition VK_SUCCESS :: VkResult where
  "VK_SUCCESS = 0"

subsection \<open>Result codes\<close>

text \<open>
  The enumeration \<^verbatim>\<open>CgpuResult\<close> is declared in cgpu.h; the constructors below are the
  enumerators that cgpu.c returns.
\<close>

datatype CgpuResult =
    CGPU_OK
  | CGPU_FAIL_INVALID_HANDLE
  | CGPU_FAIL_UNABLE_TO_INITIALIZE_VOLK
  | CGPU_FAIL_UNABLE_TO_INITIALIZE_VULKAN
  | CGPU_FAIL_MAX_PHYSICAL_DEVICES_REACHED
  | CGPU_FAIL_NO_DEVICE_AT_INDEX
  | CGPU_FAIL_VK_VERSION_NOT_SUPPORTED
  | CGPU_FAIL_FEATURE_REQUIREMENTS_NOT_MET
  | CGPU_FAIL_MAX_DEVICE_EXTENSIONS_REACHED
  | CGPU_FAIL_MAX_QUEUE_FAMILIES_REACHED
  | CGPU_FAIL_DEVICE_HAS_NO_COMPUTE_QUEUE_FAMILY
  | CGPU_FAIL_CAN_NOT_CREATE_LOGICAL_DEVICE
  | CGPU_FAIL_CAN_NOT_CREATE_COMMAND_POOL
  | CGPU_FAIL_UNABLE_TO_CREATE_QUERY_POOL
  | CGPU_FAIL_UNABLE_TO_INITIALIZE_VMA
  | CGPU_FAIL_UNABLE_TO_CREATE_SHADER_MODULE
  | CGPU_FAIL_UNABLE_TO_REFLECT_SHADER
  | CGPU_FAIL_UNABLE_TO_CREATE_BUFFER
  | CGPU_FAIL_UNABLE_TO_CREATE_IMAGE
  | CGPU_FAIL_UNABLE_TO_CREATE_SAMPLER
  | CGPU_FAIL_UNABLE_TO_CREATE_DESCRIPTOR_LAYOUT
  | CGPU_FAIL_UNABLE_TO_CREATE_PIPELINE_LAYOUT
  | CGPU_FAIL_UNABLE_TO_CREATE_COMPUTE_PIPELINE
  | CGPU_FAIL_UNABLE_TO_CREATE_DESCRIPTOR_POOL
  | CGPU_FAIL_UNABLE_TO_ALLOCATE_DESCRIPTOR_SET
  | CGPU_FAIL_UNABLE_TO_ALLOCATE_COMMAND_BUFFER
  | CGPU_FAIL_UNABLE_TO_BEGIN_COMMAND_BUFFER
  | CGPU_FAIL_UNABLE_TO_CREATE_FENCE
  | CGPU_FAIL_BUFFER_OFFSET_NOT_ALIGNED
  | CGPU_FAIL_DESCRIPTOR_SET_BINDING_MISMATCH

subsection \<open>Vulkan enumerations and bits used by cgpu.c\<close>

datatype VkImageLayout =
    VK_IMAGE_LAYOUT_UNDEFINED
  | VK_IMAGE_LAYOUT_GENERAL
  | VK_IMAGE_LAYOUT_COLOR_ATTACHMENT_OPTIMAL
  | VK_IMAGE_LAYOUT_DEPTH_STENCIL_ATTACHMENT_OPTIMAL
  | VK_IMAGE_LAYOUT_DEPTH_STENCIL_READ_ONLY_OPTIMAL
  | VK_IMAGE_LAYOUT_SHADER_READ_ONLY_OPTIMAL
  | VK_IMAGE_LAYOUT_TRANSFER_SRC_OPTIMAL
  | VK_IMAGE_LAYOUT_TRANSFER_DST_OPTIMAL
  | VK_IMAGE_LAYOUT_PREINITIALIZED

datatype VkDescriptorType =
    VK_DESCRIPTOR_TYPE_SAMPLER
  | VK_DESCRIPTOR_TYPE_COMBINED_IMAGE_SAMPLER
  | VK_DESCRIPTOR_TYPE_SAMPLED_IMAGE
  | VK_DESCRIPTOR_TYPE_STORAGE_IMAGE
  | VK_DESCRIPTOR_TYPE_UNIFORM_TEXEL_BUFFER
  | VK_DESCRIPTOR_TYPE_STORAGE_TEXEL_BUFFER
  | VK_DESCRIPTOR_TYPE_UNIFORM_BUFFER
  | VK_DESCRIPTOR_TYPE_STORAGE_BUFFER
  | VK_DESCRIPTOR_TYPE_UNIFORM_BUFFER_DYNAMIC
  | VK_DESCRIPTOR_TYPE_STORAGE_BUFFER_DYNAMIC
  | VK_DESCRIPTOR_TYPE_INPUT_ATTACHMENT

datatype VkImageTiling = VK_IMAGE_TILING_OPTIMAL | VK_IMAGE_TILING_LINEAR

definition VK_ACCESS_UNIFORM_READ_BIT :: VkAccessFlags where
  "VK_ACCESS_UNIFORM_READ_BIT = 0x8"
definition VK_ACCESS_SHADER_READ_BIT :: VkAccessFlags where
  "VK_ACCESS_SHADER_READ_BIT = 0x20"
definition VK_ACCESS_SHADER_WRITE_BIT :: VkAccessFlags where
  "VK_ACCESS_SHADER_WRITE_BIT = 0x40"
definition VK_ACCESS_TRANSFER_READ_BIT :: VkAccessFlags where
  "VK_ACCESS_TRANSFER_READ_BIT = 0x800"
definition VK_ACCESS_TRANSFER_WRITE_BIT :: VkAccessFlags where
  "VK_ACCESS_TRANSFER_WRITE_BIT = 0x1000"
definition VK_ACCESS_HOST_READ_BIT :: VkAccessFlags where
  "VK_ACCESS_HOST_READ_BIT = 0x2000"
definition VK_ACCESS_HOST_WRITE_BIT :: VkAccessFlags where
  "VK_ACCESS_HOST_WRITE_BIT = 0x4000"
definition VK_ACCESS_MEMORY_READ_BIT :: VkAccessFlags where
  "VK_ACCESS_MEMORY_READ_BIT = 0x8000"
definition VK_ACCESS_MEMORY_WRITE_BIT :: VkAccessFlags where
  "VK_ACCESS_MEMORY_WRITE_BIT = 0x10000"

definition VK_MEMORY_PROPERTY_DEVICE_LOCAL_BIT :: u32 where
  "VK_MEMORY_PROPERTY_DEVICE_LOCAL_BIT = 0x1"
definition VK_MEMORY_PROPERTY_HOST_VISIBLE_BIT :: u32 where
  "VK_MEMORY_PROPERTY_HOST_VISIBLE_BIT = 0x2"
definition VK_MEMORY_PROPERTY_HOST_COHERENT_BIT :: u32 where
  "VK_MEMORY_PROPERTY_HOST_COHERENT_BIT = 0x4"
definition VK_MEMORY_PROPERTY_HOST_CACHED_BIT :: u32 where
  "VK_MEMORY_PROPERTY_HOST_CACHED_BIT = 0x8"

definition VK_API_VERSION_1_1 :: u32 where
  "VK_API_VERSION_1_1 = 0x401000"
definition MIN_VK_API_VERSION :: u32 where
  "MIN_VK_API_VERSION = VK_API_VERSION_1_1"
definition VK_QUEUE_COMPUTE_BIT :: u32 where
  "VK_QUEUE_COMPUTE_BIT = 0x2"
definition VK_QUEUE_TRANSFER_BIT :: u32 where
  "VK_QUEUE_TRANSFER_BIT = 0x4"
definition VK_SUBGROUP_FEATURE_BASIC_BIT :: u32 where
  "VK_SUBGROUP_FEATURE_BASIC_BIT = 0x1"
definition VK_SUBGROUP_FEATURE_BALLOT_BIT :: u32 where
  "VK_SUBGROUP_FEATURE_BALLOT_BIT = 0x8"
definition VK_SHADER_STAGE_COMPUTE_BIT :: u32 where
  "VK_SHADER_STAGE_COMPUTE_BIT = 0x20"
definition VK_EXT_DESCRIPTOR_INDEXING_EXTENSION_NAME :: string where
  "VK_EXT_DESCRIPTOR_INDEXING_EXTENSION_NAME = ''VK_EXT_descriptor_indexing''"
definition VK_KHR_PORTABILITY_SUBSET_EXTENSION_NAME :: string where
  "VK_KHR_PORTABILITY_SUBSET_EXTENSION_NAME = ''VK_KHR_portability_subset''"
definition VK_KHR_SHADER_NON_SEMANTIC_INFO_EXTENSION_NAME :: string where
  "VK_KHR_SHADER_NON_SEMANTIC_INFO_EXTENSION_NAME = ''VK_KHR_shader_non_semantic_info''"

definition VK_BUFFER_USAGE_TRANSFER_SRC_BIT :: u32 where
  "VK_BUFFER_USAGE_TRANSFER_SRC_BIT = 0x1"
definition VK_BUFFER_USAGE_TRANSFER_DST_BIT :: u32 where
  "VK_BUFFER_USAGE_TRANSFER_DST_BIT = 0x2"
definition VK_BUFFER_USAGE_UNIFORM_TEXEL_BUFFER_BIT :: u32 where
  "VK_BUFFER_USAGE_UNIFORM_TEXEL_BUFFER_BIT = 0x4"
definition VK_BUFFER_USAGE_STORAGE_TEXEL_BUFFER_BIT :: u32 where
  "VK_BUFFER_USAGE_STORAGE_TEXEL_BUFFER_BIT = 0x8"
definition VK_BUFFER_USAGE_UNIFORM_BUFFER_BIT :: u32 where
  "VK_BUFFER_USAGE_UNIFORM_BUFFER_BIT = 0x10"
definition VK_BUFFER_USAGE_STORAGE_BUFFER_BIT :: u32 where
  "VK_BUFFER_USAGE_STORAGE_BUFFER_BIT = 0x20"

datatype VkSamplerAddressMode =
    VK_SAMPLER_ADDRESS_MODE_REPEAT
  | VK_SAMPLER_ADDRESS_MODE_MIRRORED_REPEAT
  | VK_SAMPLER_ADDRESS_MODE_CLAMP_TO_EDGE
  | VK_SAMPLER_ADDRESS_MODE_CLAMP_TO_BORDER
  | VK_SAMPLER_ADDRESS_MODE_MAX_ENUM

datatype VkBorderColor =
    VK_BORDER_COLOR_FLOAT_TRANSPARENT_BLACK
  | VK_BORDER_COLOR_INT_TRANSPARENT_BLACK
  | VK_BORDER_COLOR_FLOAT_OPAQUE_BLACK

definition VK_PIPELINE_STAGE_COMPUTE_SHADER_BIT :: u32 where
  "VK_PIPELINE_STAGE_COMPUTE_SHADER_BIT = 0x800"
definition VK_PIPELINE_STAGE_TRANSFER_BIT :: u32 where
  "VK_PIPELINE_STAGE_TRANSFER_BIT = 0x1000"
definition VK_WHOLE_SIZE :: u64 where
  "VK_WHOLE_SIZE = - 1"

definition VK_IMAGE_USAGE_TRANSFER_SRC_BIT :: u32 where
  "VK_IMAGE_USAGE_TRANSFER_SRC_BIT = 0x1"
definition VK_IMAGE_USAGE_TRANSFER_DST_BIT :: u32 where
  "VK_IMAGE_USAGE_TRANSFER_DST_BIT = 0x2"
definition VK_IMAGE_USAGE_SAMPLED_BIT :: u32 where
  "VK_IMAGE_USAGE_SAMPLED_BIT = 0x4"
definition VK_IMAGE_USAGE_STORAGE_BIT :: u32 where
  "VK_IMAGE_USAGE_STORAGE_BIT = 0x8"

subsection \<open>Constants of cgpu.h\<close>

text \<open>
  Modelled from the spec: the header cgpu.h, which declares the abstract flag sets, is not
  among the sources. The specification describes them as flag enumerations that are
  translated to the native bit flags by fixed tables, so each flag is one bit of its own.
  The general theorems below do not depend on the particular bit chosen for a flag.
\<close>

definition CGPU_IMAGE_USAGE_FLAG_TRANSFER_SRC :: u32 where
  "CGPU_IMAGE_USAGE_FLAG_TRANSFER_SRC = 0x01"
definition CGPU_IMAGE_USAGE_FLAG_TRANSFER_DST :: u32 where
  "CGPU_IMAGE_USAGE_FLAG_TRANSFER_DST = 0x02"
definition CGPU_IMAGE_USAGE_FLAG_SAMPLED :: u32 where
  "CGPU_IMAGE_USAGE_FLAG_SAMPLED = 0x04"
definition CGPU_IMAGE_USAGE_FLAG_STORAGE :: u32 where
  "CGPU_IMAGE_USAGE_FLAG_STORAGE = 0x08"

definition CGPU_MEMORY_PROPERTY_FLAG_DEVICE_LOCAL :: u32 where
  "CGPU_MEMORY_PROPERTY_FLAG_DEVICE_LOCAL = 0x01"
definition CGPU_MEMORY_PROPERTY_FLAG_HOST_VISIBLE :: u32 where
  "CGPU_MEMORY_PROPERTY_FLAG_HOST_VISIBLE = 0x02"
definition CGPU_MEMORY_PROPERTY_FLAG_HOST_COHERENT :: u32 where
  "CGPU_MEMORY_PROPERTY_FLAG_HOST_COHERENT = 0x04"
definition CGPU_MEMORY_PROPERTY_FLAG_HOST_CACHED :: u32 where
  "CGPU_MEMORY_PROPERTY_FLAG_HOST_CACHED = 0x08"

definition CGPU_MEMORY_ACCESS_FLAG_UNIFORM_READ :: u32 where
  "CGPU_MEMORY_ACCESS_FLAG_UNIFORM_READ = 0x001"
definition CGPU_MEMORY_ACCESS_FLAG_SHADER_READ :: u32 where
  "CGPU_MEMORY_ACCESS_FLAG_SHADER_READ = 0x002"
definition CGPU_MEMORY_ACCESS_FLAG_SHADER_WRITE :: u32 where
  "CGPU_MEMORY_ACCESS_FLAG_SHADER_WRITE = 0x004"
definition CGPU_MEMORY_ACCESS_FLAG_TRANSFER_READ :: u32 where
  "CGPU_MEMORY_ACCESS_FLAG_TRANSFER_READ = 0x008"
definition CGPU_MEMORY_ACCESS_FLAG_TRANSFER_WRITE :: u32 where
  "CGPU_MEMORY_ACCESS_FLAG_TRANSFER_WRITE = 0x010"
definition CGPU_MEMORY_ACCESS_FLAG_HOST_READ :: u32 where
  "CGPU_MEMORY_ACCESS_FLAG_HOST_READ = 0x020"
definition CGPU_MEMORY_ACCESS_FLAG_HOST_WRITE :: u32 where
  "CGPU_MEMORY_ACCESS_FLAG_HOST_WRITE = 0x040"
definition CGPU_MEMORY_ACCESS_FLAG_MEMORY_READ :: u32 where
  "CGPU_MEMORY_ACCESS_FLAG_MEMORY_READ = 0x080"
definition CGPU_MEMORY_ACCESS_FLAG_MEMORY_WRITE :: u32 where
  "CGPU_MEMORY_ACCESS_FLAG_MEMORY_WRITE = 0x100"

definition CGPU_BUFFER_USAGE_FLAG_TRANSFER_SRC :: u32 where
  "CGPU_BUFFER_USAGE_FLAG_TRANSFER_SRC = 0x01"
definition CGPU_BUFFER_USAGE_FLAG_TRANSFER_DST :: u32 where
  "CGPU_BUFFER_USAGE_FLAG_TRANSFER_DST = 0x02"
definition CGPU_BUFFER_USAGE_FLAG_UNIFORM_BUFFER :: u32 where
  "CGPU_BUFFER_USAGE_FLAG_UNIFORM_BUFFER = 0x04"
definition CGPU_BUFFER_USAGE_FLAG_STORAGE_BUFFER :: u32 where
  "CGPU_BUFFER_USAGE_FLAG_STORAGE_BUFFER = 0x08"
definition CGPU_BUFFER_USAGE_FLAG_UNIFORM_TEXEL_BUFFER :: u32 where
  "CGPU_BUFFER_USAGE_FLAG_UNIFORM_TEXEL_BUFFER = 0x10"
definition CGPU_BUFFER_USAGE_FLAG_STORAGE_TEXEL_BUFFER :: u32 where
  "CGPU_BUFFER_USAGE_FLAG_STORAGE_TEXEL_BUFFER = 0x20"

datatype CgpuSamplerAddressMode =
    CGPU_SAMPLER_ADDRESS_MODE_CLAMP_TO_EDGE
  | CGPU_SAMPLER_ADDRESS_MODE_REPEAT
  | CGPU_SAMPLER_ADDRESS_MODE_MIRRORED_REPEAT
  | CGPU_SAMPLER_ADDRESS_MODE_CLAMP_TO_BLACK

definition CGPU_INVALID_HANDLE :: handle where
  "CGPU_INVALID_HANDLE = 0"

definition CGPU_WHOLE_SIZE :: u64 where
  "CGPU_WHOLE_SIZE = - 1"

subsection \<open>Array limits\<close>

definition MAX_PHYSICAL_DEVICES :: nat where "MAX_PHYSICAL_DEVICES = 32"
definition MAX_DEVICE_EXTENSIONS :: nat where "MAX_DEVICE_EXTENSIONS = 1024"
definition MAX_QUEUE_FAMILIES :: nat where "MAX_QUEUE_FAMILIES = 64"
definition MAX_TIMESTAMP_QUERIES :: nat where "MAX_TIMESTAMP_QUERIES = 32"
definition MAX_DESCRIPTOR_SET_LAYOUT_BINDINGS :: nat where
  "MAX_DESCRIPTOR_SET_LAYOUT_BINDINGS = 128"
definition MAX_DESCRIPTOR_BUFFER_INFOS :: nat where "MAX_DESCRIPTOR_BUFFER_INFOS = 64"
definition MAX_DESCRIPTOR_IMAGE_INFOS :: nat where "MAX_DESCRIPTOR_IMAGE_INFOS = 64"
definition MAX_WRITE_DESCRIPTOR_SETS :: nat where "MAX_WRITE_DESCRIPTOR_SETS = 128"
definition MAX_BUFFER_MEMORY_BARRIERS :: nat where "MAX_BUFFER_MEMORY_BARRIERS = 64"
definition MAX_IMAGE_MEMORY_BARRIERS :: nat where "MAX_IMAGE_MEMORY_BARRIERS = 64"
definition MAX_MEMORY_BARRIERS :: nat where "MAX_MEMORY_BARRIERS = 128"

subsection \<open>Resource store\<close>

text \<open>
  Modelled from the spec: resource_store.h and resource_store.c are not among the sources.
  Following section 4.1 of the specification, a store is an array of slots with a free
  list used as a stack. A handle is the number of its slot, counted from one, so that
  zero is the invalid handle. Allocation reuses the top of the free list if there is one
  and otherwise grows the store by one slot; resolution fails for handle zero, for a
  handle beyond the high-water mark and for a handle on the free list; freeing pushes
  the handle onto the free list. Slot memory is never cleared: a slot keeps whatever was
  last written to it.
\<close>

record 'a resource_store =
  slot :: "handle \<Rightarrow> 'a"
  high_water :: nat
  free_list :: "handle list"

definition resource_store_create_handle :: "'a resource_store \<Rightarrow> handle \<times> 'a resource_store" where
  "resource_store_create_handle st =
     (case free_list st of
        [] \<Rightarrow> (Suc (high_water st), st\<lparr>high_water := Suc (high_water st)\<rparr>)
      | h # hs \<Rightarrow> (h, st\<lparr>free_list := hs\<rparr>))"

definition resource_store_get :: "'a resource_store \<Rightarrow> handle \<Rightarrow> 'a option" where
  "resource_store_get st h =
     (if h = 0 \<or> high_water st < h \<or> h \<in> set (free_list st) then None
      else Some (slot st h))"

definition resource_store_free_handle :: "'a resource_store \<Rightarrow> handle \<Rightarrow> 'a resource_store" where
  "resource_store_free_handle st h = st\<lparr>free_list := h # free_list st\<rparr>"

text \<open>A write through the pointer that a successful resolution returned.\<close>

definition slot_write :: "'a resource_store \<Rightarrow> handle \<Rightarrow> 'a \<Rightarrow> 'a resource_store" where
  "slot_write st h v = st\<lparr>slot := (slot st)(h := v)\<rparr>"

subsection \<open>Internal structures\<close>

record cgpu_physical_device_limits =
  minStorageBufferOffsetAlignment :: u64

record cgpu_idevice =
  logical_device :: vk_object
  physical_device :: vk_object
  compute_queue :: vk_object
  command_pool :: vk_object
  timestamp_pool :: vk_object
  sampler :: vk_object
  limits :: cgpu_physical_device_limits
  allocator :: vk_object

record cgpu_ibuffer =
  buffer :: vk_object
  buffer_size :: u64
  allocation :: vk_object

record cgpu_iimage =
  image_vk :: vk_object
  image_view :: vk_object
  image_allocation :: vk_object
  image_size :: u64
  width :: u32
  height :: u32
  layout :: VkImageLayout
  access_mask :: VkAccessFlags

record cgpu_shader_resource_buffer =
  sr_buffer_binding :: u32
  sr_buffer :: handle
  sr_offset :: u64
  sr_size :: u64

record cgpu_shader_resource_image =
  binding :: u32
  sr_image :: handle

record cgpu_ipipeline =
  pipeline :: vk_object
  pipeline_layout :: vk_object
  descriptor_pool :: vk_object
  descriptor_set :: vk_object
  descriptor_set_layout :: vk_object
  image_resources :: "cgpu_shader_resource_image list"
  image_resource_count :: u32
  shader :: handle

record cgpu_shader_reflection_resource =
  refl_binding :: u32
  descriptor_type :: VkDescriptorType
  write_access :: bool
  read_access :: bool

record cgpu_shader_reflection =
  resources :: "cgpu_shader_reflection_resource list"
  push_constants_size :: u32

record cgpu_ishader =
  module :: vk_object
  reflection :: cgpu_shader_reflection

record cgpu_ifence =
  fence :: vk_object

record cgpu_icommand_buffer =
  command_buffer :: vk_object
  cb_device :: handle
  cb_pipeline :: handle

record cgpu_isampler =
  isampler :: vk_object

text \<open>
  Field names that clash with a constant of HOL or with a field of another structure
  carry a qualifier: \<open>buffer_size\<close> is \<^verbatim>\<open>cgpu_ibuffer.size\<close>, \<open>image_vk\<close> is
  \<^verbatim>\<open>cgpu_iimage.image\<close>, \<open>sr_image\<close> is \<^verbatim>\<open>cgpu_shader_resource_image.image\<close>,
  \<open>cb_device\<close> and \<open>cb_pipeline\<close> are the fields of \<^verbatim>\<open>cgpu_icommand_buffer\<close>.
  Of \<^verbatim>\<open>cgpu_physical_device_limits\<close> only the field read by the operations below is kept,
  and the table of device functions is left out.
\<close>


subsection \<open>Native calls and the global state\<close>

record VkImageCreateInfo =
  ici_format :: nat
  extent_width :: u32
  extent_height :: u32
  extent_depth :: u32
  mipLevels :: u32
  arrayLayers :: u32
  tiling :: VkImageTiling
  ici_usage :: u32
  initialLayout :: VkImageLayout

text \<open>
  \<open>ici_format\<close> holds the \<^verbatim>\<open>CgpuImageFormat\<close> argument: the format table
  \<^verbatim>\<open>cgpu_translate_image_format\<close> is not part of this development.
\<close>

record VkImageMemoryBarrier =
  srcAccessMask :: VkAccessFlags
  dstAccessMask :: VkAccessFlags
  oldLayout :: VkImageLayout
  newLayout :: VkImageLayout
  barrier_image :: vk_object

record VkMemoryBarrier =
  mb_srcAccessMask :: VkAccessFlags
  mb_dstAccessMask :: VkAccessFlags

record VkBufferMemoryBarrier =
  bb_srcAccessMask :: VkAccessFlags
  bb_dstAccessMask :: VkAccessFlags
  bb_buffer :: vk_object
  bb_offset :: u64
  bb_size :: u64

text \<open>
  Of the native barrier structures the fields that cgpu.c fills with a constant (structure
  type, queue family indices, subresource range) are left out. A descriptor write carries
  either a buffer info or an image info.
\<close>

datatype descriptor_info =
    BufferInfo vk_object u64 u64
  | ImageInfo vk_object vk_object VkImageLayout

record VkWriteDescriptorSet =
  dstSet :: vk_object
  dstBinding :: u32
  dstArrayElement :: u32
  descriptorCount :: u32
  descriptorType :: VkDescriptorType
  pInfo :: descriptor_info

record VkSamplerCreateInfo =
  addressModeU :: VkSamplerAddressMode
  addressModeV :: VkSamplerAddressMode
  addressModeW :: VkSamplerAddressMode
  anisotropyEnable :: bool
  borderColor :: VkBorderColor

record VkDescriptorSetLayoutBinding =
  lb_binding :: u32
  lb_descriptorType :: VkDescriptorType
  lb_descriptorCount :: u32
  lb_stageFlags :: u32

record VkPushConstantRange =
  pcr_stageFlags :: u32
  pcr_offset :: u32
  pcr_size :: u32

text \<open>
  \<open>pPushConstantRanges\<close> is the one range the pointer of that name points to;
  \<open>pushConstantRangeCount\<close> says how many ranges, none or one, the native call reads.
\<close>

record VkPipelineLayoutCreateInfo =
  setLayoutCount :: u32
  pSetLayouts :: vk_object
  pushConstantRangeCount :: u32
  pPushConstantRanges :: VkPushConstantRange

record VkComputePipelineCreateInfo =
  cp_module :: vk_object
  cp_pName :: string
  cp_layout :: vk_object

record VkDescriptorPoolSize =
  ps_type :: VkDescriptorType
  ps_descriptorCount :: u32

text \<open>
  \<open>pPoolSizes\<close> holds the entries of the array \<^verbatim>\<open>pool_sizes\<close> that have been filled, which
  are the first \<open>poolSizeCount\<close> ones.
\<close>

record VkDescriptorPoolCreateInfo =
  maxSets :: u32
  poolSizeCount :: u32
  pPoolSizes :: "VkDescriptorPoolSize list"

datatype vk_call =
    VkCreateDevice vk_object "string list" nat
  | VkDestroyDevice vk_object
  | VkCreateCommandPool vk_object nat
  | VkDestroyCommandPool vk_object vk_object
  | VkCreateSampler vk_object VkSamplerCreateInfo
  | VkDestroySampler vk_object vk_object
  | VkCreateQueryPool vk_object nat
  | VkDestroyQueryPool vk_object vk_object
  | VmaCreateAllocator vk_object vk_object
  | VkCreateShaderModule vk_object u64
  | VkDestroyShaderModule vk_object vk_object
  | VmaCreateBuffer vk_object u64 u32 u32
  | VmaCreateImage vk_object VkImageCreateInfo u32
  | VmaDestroyImage vk_object vk_object vk_object
  | VkCreateImageView vk_object vk_object
  | VkCreateDescriptorSetLayout vk_object "VkDescriptorSetLayoutBinding list"
  | VkDestroyDescriptorSetLayout vk_object vk_object
  | VkCreatePipelineLayout vk_object VkPipelineLayoutCreateInfo
  | VkDestroyPipelineLayout vk_object vk_object
  | VkCreateComputePipelines vk_object VkComputePipelineCreateInfo
  | VkDestroyPipeline vk_object vk_object
  | VkCreateDescriptorPool vk_object VkDescriptorPoolCreateInfo
  | VkDestroyDescriptorPool vk_object vk_object
  | VkAllocateDescriptorSets vk_object vk_object vk_object
  | VkAllocateCommandBuffers vk_object vk_object
  | VkCreateFence vk_object bool
  | VkUpdateDescriptorSets vk_object "VkWriteDescriptorSet list"
  | VkCmdPipelineBarrier vk_object u32 u32
      "VkMemoryBarrier list" "VkBufferMemoryBarrier list" "VkImageMemoryBarrier list"
  | VkCmdDispatch vk_object u32 u32 u32
  | VkCmdCopyBufferToImage vk_object vk_object vk_object VkImageLayout u32 u32

record cgpu_state =
  idevice_store :: "cgpu_idevice resource_store"
  ibuffer_store :: "cgpu_ibuffer resource_store"
  iimage_store :: "cgpu_iimage resource_store"
  ishader_store :: "cgpu_ishader resource_store"
  ipipeline_store :: "cgpu_ipipeline resource_store"
  ifence_store :: "cgpu_ifence resource_store"
  icommand_buffer_store :: "cgpu_icommand_buffer resource_store"
  isampler_store :: "cgpu_isampler resource_store"
  vk_trace :: "vk_call list"

definition emit :: "vk_call \<Rightarrow> cgpu_state \<Rightarrow> cgpu_state" where
  "emit c s = s\<lparr>vk_trace := vk_trace s @ [c]\<rparr>"

text \<open>The native calls issued between two states.\<close>

definition new_calls :: "cgpu_state \<Rightarrow> cgpu_state \<Rightarrow> vk_call list" where
  "new_calls s s' = drop (length (vk_trace s)) (vk_trace s')"

definition cgpu_resolve_device :: "cgpu_state \<Rightarrow> handle \<Rightarrow> cgpu_idevice option" where
  "cgpu_resolve_device s h = resource_store_get (idevice_store s) h"
definition cgpu_resolve_buffer :: "cgpu_state \<Rightarrow> handle \<Rightarrow> cgpu_ibuffer option" where
  "cgpu_resolve_buffer s h = resource_store_get (ibuffer_store s) h"
definition cgpu_resolve_image :: "cgpu_state \<Rightarrow> handle \<Rightarrow> cgpu_iimage option" where
  "cgpu_resolve_image s h = resource_store_get (iimage_store s) h"
definition cgpu_resolve_shader :: "cgpu_state \<Rightarrow> handle \<Rightarrow> cgpu_ishader option" where
  "cgpu_resolve_shader s h = resource_store_get (ishader_store s) h"
definition cgpu_resolve_pipeline :: "cgpu_state \<Rightarrow> handle \<Rightarrow> cgpu_ipipeline option" where
  "cgpu_resolve_pipeline s h = resource_store_get (ipipeline_store s) h"
definition cgpu_resolve_fence :: "cgpu_state \<Rightarrow> handle \<Rightarrow> cgpu_ifence option" where
  "cgpu_resolve_fence s h = resource_store_get (ifence_store s) h"
definition cgpu_resolve_command_buffer :: "cgpu_state \<Rightarrow> handle \<Rightarrow> cgpu_icommand_buffer option" where
  "cgpu_resolve_command_buffer s h = resource_store_get (icommand_buffer_store s) h"
definition cgpu_resolve_sampler :: "cgpu_state \<Rightarrow> handle \<Rightarrow> cgpu_isampler option" where
  "cgpu_resolve_sampler s h = resource_store_get (isampler_store s) h"

definition write_device :: "handle \<Rightarrow> cgpu_idevice \<Rightarrow> cgpu_state \<Rightarrow> cgpu_state" where
  "write_device h v s = s\<lparr>idevice_store := slot_write (idevice_store s) h v\<rparr>"
definition free_device :: "handle \<Rightarrow> cgpu_state \<Rightarrow> cgpu_state" where
  "free_device h s = s\<lparr>idevice_store := resource_store_free_handle (idevice_store s) h\<rparr>"

definition write_shader :: "handle \<Rightarrow> cgpu_ishader \<Rightarrow> cgpu_state \<Rightarrow> cgpu_state" where
  "write_shader h v s = s\<lparr>ishader_store := slot_write (ishader_store s) h v\<rparr>"
definition free_shader :: "handle \<Rightarrow> cgpu_state \<Rightarrow> cgpu_state" where
  "free_shader h s = s\<lparr>ishader_store := resource_store_free_handle (ishader_store s) h\<rparr>"

definition write_buffer :: "handle \<Rightarrow> cgpu_ibuffer \<Rightarrow> cgpu_state \<Rightarrow> cgpu_state" where
  "write_buffer h v s = s\<lparr>ibuffer_store := slot_write (ibuffer_store s) h v\<rparr>"
definition free_buffer :: "handle \<Rightarrow> cgpu_state \<Rightarrow> cgpu_state" where
  "free_buffer h s = s\<lparr>ibuffer_store := resource_store_free_handle (ibuffer_store s) h\<rparr>"

definition write_sampler :: "handle \<Rightarrow> cgpu_isampler \<Rightarrow> cgpu_state \<Rightarrow> cgpu_state" where
  "write_sampler h v s = s\<lparr>isampler_store := slot_write (isampler_store s) h v\<rparr>"
definition free_sampler :: "handle \<Rightarrow> cgpu_state \<Rightarrow> cgpu_state" where
  "free_sampler h s = s\<lparr>isampler_store := resource_store_free_handle (isampler_store s) h\<rparr>"

definition write_pipeline :: "handle \<Rightarrow> cgpu_ipipeline \<Rightarrow> cgpu_state \<Rightarrow> cgpu_state" where
  "write_pipeline h v s = s\<lparr>ipipeline_store := slot_write (ipipeline_store s) h v\<rparr>"
definition free_pipeline :: "handle \<Rightarrow> cgpu_state \<Rightarrow> cgpu_state" where
  "free_pipeline h s = s\<lparr>ipipeline_store := resource_store_free_handle (ipipeline_store s) h\<rparr>"

definition write_command_buffer :: "handle \<Rightarrow> cgpu_icommand_buffer \<Rightarrow> cgpu_state \<Rightarrow> cgpu_state" where
  "write_command_buffer h v s =
     s\<lparr>icommand_buffer_store := slot_write (icommand_buffer_store s) h v\<rparr>"

definition write_fence :: "handle \<Rightarrow> cgpu_ifence \<Rightarrow> cgpu_state \<Rightarrow> cgpu_state" where
  "write_fence h v s = s\<lparr>ifence_store := slot_write (ifence_store s) h v\<rparr>"
definition free_fence :: "handle \<Rightarrow> cgpu_state \<Rightarrow> cgpu_state" where
  "free_fence h s = s\<lparr>ifence_store := resource_store_free_handle (ifence_store s) h\<rparr>"

definition write_image :: "handle \<Rightarrow> cgpu_iimage \<Rightarrow> cgpu_state \<Rightarrow> cgpu_state" where
  "write_image h v s = s\<lparr>iimage_store := slot_write (iimage_store s) h v\<rparr>"

definition free_image :: "handle \<Rightarrow> cgpu_state \<Rightarrow> cgpu_state" where
  "free_image h s = s\<lparr>iimage_store := resource_store_free_handle (iimage_store s) h\<rparr>"

section \<open>Translation of flags\<close>

definition cgpu_translate_memory_properties :: "u32 \<Rightarrow> u32" where
  "cgpu_translate_memory_properties memory_properties =
     (let f0 = 0;
          f1 = (if memory_properties AND CGPU_MEMORY_PROPERTY_FLAG_DEVICE_LOCAL
                     = CGPU_MEMORY_PROPERTY_FLAG_DEVICE_LOCAL
                then f0 OR VK_MEMORY_PROPERTY_DEVICE_LOCAL_BIT else f0);
          f2 = (if memory_properties AND CGPU_MEMORY_PROPERTY_FLAG_HOST_VISIBLE
                     = CGPU_MEMORY_PROPERTY_FLAG_HOST_VISIBLE
                then f1 OR VK_MEMORY_PROPERTY_HOST_VISIBLE_BIT else f1);
          f3 = (if memory_properties AND CGPU_MEMORY_PROPERTY_FLAG_HOST_COHERENT
                     = CGPU_MEMORY_PROPERTY_FLAG_HOST_COHERENT
                then f2 OR VK_MEMORY_PROPERTY_HOST_COHERENT_BIT else f2);
          f4 = (if memory_properties AND CGPU_MEMORY_PROPERTY_FLAG_HOST_CACHED
                     = CGPU_MEMORY_PROPERTY_FLAG_HOST_CACHED
                then f3 OR VK_MEMORY_PROPERTY_HOST_CACHED_BIT else f3)
      in f4)"

definition cgpu_translate_access_flags :: "u32 \<Rightarrow> VkAccessFlags" where
  "cgpu_translate_access_flags flags =
     (let f0 = 0;
          f1 = (if flags AND CGPU_MEMORY_ACCESS_FLAG_UNIFORM_READ = CGPU_MEMORY_ACCESS_FLAG_UNIFORM_READ
                then f0 OR VK_ACCESS_UNIFORM_READ_BIT else f0);
          f2 = (if flags AND CGPU_MEMORY_ACCESS_FLAG_SHADER_READ = CGPU_MEMORY_ACCESS_FLAG_SHADER_READ
                then f1 OR VK_ACCESS_SHADER_READ_BIT else f1);
          f3 = (if flags AND CGPU_MEMORY_ACCESS_FLAG_SHADER_WRITE = CGPU_MEMORY_ACCESS_FLAG_SHADER_WRITE
                then f2 OR VK_ACCESS_SHADER_WRITE_BIT else f2);
          f4 = (if flags AND CGPU_MEMORY_ACCESS_FLAG_TRANSFER_READ = CGPU_MEMORY_ACCESS_FLAG_TRANSFER_READ
                then f3 OR VK_ACCESS_TRANSFER_READ_BIT else f3);
          f5 = (if flags AND CGPU_MEMORY_ACCESS_FLAG_TRANSFER_WRITE = CGPU_MEMORY_ACCESS_FLAG_TRANSFER_WRITE
                then f4 OR VK_ACCESS_TRANSFER_WRITE_BIT else f4);
          f6 = (if flags AND CGPU_MEMORY_ACCESS_FLAG_HOST_READ = CGPU_MEMORY_ACCESS_FLAG_HOST_READ
                then f5 OR VK_ACCESS_HOST_READ_BIT else f5);
          f7 = (if flags AND CGPU_MEMORY_ACCESS_FLAG_HOST_WRITE = CGPU_MEMORY_ACCESS_FLAG_HOST_WRITE
                then f6 OR VK_ACCESS_HOST_WRITE_BIT else f6);
          f8 = (if flags AND CGPU_MEMORY_ACCESS_FLAG_MEMORY_READ = CGPU_MEMORY_ACCESS_FLAG_MEMORY_READ
                then f7 OR VK_ACCESS_MEMORY_READ_BIT else f7);
          f9 = (if flags AND CGPU_MEMORY_ACCESS_FLAG_MEMORY_WRITE = CGPU_MEMORY_ACCESS_FLAG_MEMORY_WRITE
                then f8 OR VK_ACCESS_MEMORY_WRITE_BIT else f8)
      in f9)"

section \<open>cgpu\_create\_device\<close>

text \<open>
  What the instance reports about one physical device, as far as \<^verbatim>\<open>cgpu_create_device\<close> reads
  it: the object itself, the API version, the subgroup properties, the limits, the names of
  the device extensions and the flags of the queue families.
\<close>

record physical_device_info =
  pd_object :: vk_object
  apiVersion :: u32
  supportedStages :: u32
  supportedOperations :: u32
  pd_limits :: cgpu_physical_device_limits
  device_extensions :: "string list"
  queue_families :: "u32 list"

text \<open>
  The environment of \<^verbatim>\<open>cgpu_create_device\<close>: the physical devices of the instance, whether
  the build is a debug build for a platform other than Apple's, and the replies of the
  fallible native calls with the objects they hand back.
\<close>

record create_device_env =
  phys_devices :: "physical_device_info list"
  debug_build :: bool
  vkCreateDevice_result :: VkResult
  vk_device :: vk_object
  vk_queue :: vk_object
  vkCreateCommandPool_result :: VkResult
  vk_command_pool :: vk_object
  vkCreateSampler_result :: VkResult
  vk_sampler :: vk_object
  vkCreateQueryPool_result :: VkResult
  vk_query_pool :: vk_object
  vmaCreateAllocator_result :: VkResult
  vma_allocator :: vk_object

fun cgpu_find_device_extension :: "string \<Rightarrow> string list \<Rightarrow> bool" where
  "cgpu_find_device_extension extension_name [] = False"
| "cgpu_find_device_extension extension_name (extension # extensions) =
     (if extension = extension_name then True
      else cgpu_find_device_extension extension_name extensions)"

text \<open>
  The search for a queue family with compute and transfer support; \<open>i\<close> is the loop index
  and the last argument the value of \<^verbatim>\<open>queue_family_index\<close>, which starts at \<open>-1\<close>.
\<close>

fun find_queue_family :: "nat \<Rightarrow> u32 list \<Rightarrow> int \<Rightarrow> int" where
  "find_queue_family i [] queue_family_index = queue_family_index"
| "find_queue_family i (queueFlags # rest) queue_family_index =
     find_queue_family (Suc i) rest
       (if queueFlags AND VK_QUEUE_COMPUTE_BIT \<noteq> 0 \<and> queueFlags AND VK_QUEUE_TRANSFER_BIT \<noteq> 0
        then int i else queue_family_index)"

definition default_sampler_info :: VkSamplerCreateInfo where
  "default_sampler_info =
     \<lparr>addressModeU = VK_SAMPLER_ADDRESS_MODE_REPEAT, addressModeV = VK_SAMPLER_ADDRESS_MODE_REPEAT,
      addressModeW = VK_SAMPLER_ADDRESS_MODE_REPEAT, anisotropyEnable = True,
      borderColor = VK_BORDER_COLOR_INT_TRANSPARENT_BLACK\<rparr>"

definition cgpu_create_device ::
  "create_device_env \<Rightarrow> cgpu_state \<Rightarrow> u32 \<Rightarrow> CgpuResult \<times> handle option \<times> cgpu_state" where
  "cgpu_create_device env s index =
     (let (p_device, st) = resource_store_create_handle (idevice_store s);
          s1 = s\<lparr>idevice_store := st\<rparr>
      in case cgpu_resolve_device s1 p_device of
        None \<Rightarrow> (CGPU_FAIL_INVALID_HANDLE, Some p_device, s1)
      | Some idevice \<Rightarrow>
          let phys_device_count = length (phys_devices env) in
          if MAX_PHYSICAL_DEVICES < phys_device_count then
            (CGPU_FAIL_MAX_PHYSICAL_DEVICES_REACHED, Some p_device, free_device p_device s1)
          else if phys_device_count = 0 \<or> phys_device_count \<le> unat index then
            (CGPU_FAIL_NO_DEVICE_AT_INDEX, Some p_device, free_device p_device s1)
          else
            let pd = phys_devices env ! unat index;
                idevice1 = idevice\<lparr>physical_device := pd_object pd\<rparr>;
                s2 = write_device p_device idevice1 s1
            in
            if apiVersion pd < MIN_VK_API_VERSION then
              (CGPU_FAIL_VK_VERSION_NOT_SUPPORTED, Some p_device, free_device p_device s2)
            else if supportedStages pd AND VK_QUEUE_COMPUTE_BIT \<noteq> VK_QUEUE_COMPUTE_BIT
                  \<or> supportedOperations pd AND VK_SUBGROUP_FEATURE_BASIC_BIT
                       \<noteq> VK_SUBGROUP_FEATURE_BASIC_BIT
                  \<or> supportedOperations pd AND VK_SUBGROUP_FEATURE_BALLOT_BIT
                       \<noteq> VK_SUBGROUP_FEATURE_BALLOT_BIT then
              (CGPU_FAIL_FEATURE_REQUIREMENTS_NOT_MET, Some p_device, free_device p_device s2)
            else
              let idevice2 = idevice1\<lparr>limits := pd_limits pd\<rparr>;
                  s3 = write_device p_device idevice2 s2
              in
              if MAX_DEVICE_EXTENSIONS < length (device_extensions pd) then
                (CGPU_FAIL_MAX_DEVICE_EXTENSIONS_REACHED, Some p_device, free_device p_device s3)
              else if \<not> cgpu_find_device_extension VK_EXT_DESCRIPTOR_INDEXING_EXTENSION_NAME
                         (device_extensions pd) then
                (CGPU_FAIL_FEATURE_REQUIREMENTS_NOT_MET, Some p_device, free_device p_device s3)
              else
                let e1 = [VK_EXT_DESCRIPTOR_INDEXING_EXTENSION_NAME];
                    e2 = (if cgpu_find_device_extension VK_KHR_PORTABILITY_SUBSET_EXTENSION_NAME
                               (device_extensions pd)
                          then e1 @ [VK_KHR_PORTABILITY_SUBSET_EXTENSION_NAME] else e1);
                    enabled_device_extensions =
                      (if debug_build env
                          \<and> cgpu_find_device_extension VK_KHR_SHADER_NON_SEMANTIC_INFO_EXTENSION_NAME
                               (device_extensions pd)
                       then e2 @ [VK_KHR_SHADER_NON_SEMANTIC_INFO_EXTENSION_NAME] else e2)
                in
                if MAX_QUEUE_FAMILIES < length (queue_families pd) then
                  (CGPU_FAIL_MAX_QUEUE_FAMILIES_REACHED, Some p_device, free_device p_device s3)
                else
                  let queue_family_index = find_queue_family 0 (queue_families pd) (- 1) in
                  if queue_family_index = - 1 then
                    (CGPU_FAIL_DEVICE_HAS_NO_COMPUTE_QUEUE_FAMILY, Some p_device,
                     free_device p_device s3)
                  else
                    let s4 = emit (VkCreateDevice (physical_device idevice2)
                                     enabled_device_extensions (nat queue_family_index)) s3
                    in
                    if vkCreateDevice_result env \<noteq> VK_SUCCESS then
                      (CGPU_FAIL_CAN_NOT_CREATE_LOGICAL_DEVICE, Some p_device,
                       free_device p_device s4)
                    else
                      let idevice3 = idevice2\<lparr>logical_device := vk_device env,
                                               compute_queue := vk_queue env\<rparr>;
                          s5 = emit (VkCreateCommandPool (logical_device idevice3)
                                       (nat queue_family_index))
                                 (write_device p_device idevice3 s4)
                      in
                      if vkCreateCommandPool_result env \<noteq> VK_SUCCESS then
                        (CGPU_FAIL_CAN_NOT_CREATE_COMMAND_POOL, Some p_device,
                         emit (VkDestroyDevice (logical_device idevice3))
                           (free_device p_device s5))
                      else
                        let idevice4 = idevice3\<lparr>command_pool := vk_command_pool env\<rparr>;
                            s6 = emit (VkCreateSampler (logical_device idevice4) default_sampler_info)
                                   (write_device p_device idevice4 s5)
                        in
                        if vkCreateSampler_result env \<noteq> VK_SUCCESS then
                          (CGPU_FAIL_CAN_NOT_CREATE_COMMAND_POOL, Some p_device,
                           emit (VkDestroyDevice (logical_device idevice4))
                             (emit (VkDestroyCommandPool (logical_device idevice4)
                                      (command_pool idevice4))
                                (free_device p_device s6)))
                        else
                          let idevice5 = idevice4\<lparr>sampler := vk_sampler env\<rparr>;
                              s7 = emit (VkCreateQueryPool (logical_device idevice5)
                                           MAX_TIMESTAMP_QUERIES)
                                     (write_device p_device idevice5 s6)
                          in
                          if vkCreateQueryPool_result env \<noteq> VK_SUCCESS then
                            (CGPU_FAIL_UNABLE_TO_CREATE_QUERY_POOL, Some p_device,
                             emit (VkDestroyDevice (logical_device idevice5))
                               (emit (VkDestroyCommandPool (logical_device idevice5)
                                        (command_pool idevice5))
                                  (emit (VkDestroySampler (logical_device idevice5)
                                           (sampler idevice5))
                                     (free_device p_device s7))))
                          else
                            let idevice6 = idevice5\<lparr>timestamp_pool := vk_query_pool env\<rparr>;
                                s8 = emit (VmaCreateAllocator (physical_device idevice6)
                                             (logical_device idevice6))
                                       (write_device p_device idevice6 s7)
                            in
                            if vmaCreateAllocator_result env \<noteq> VK_SUCCESS then
                              (CGPU_FAIL_UNABLE_TO_INITIALIZE_VMA, Some p_device,
                               emit (VkDestroyDevice (logical_device idevice6))
                                 (emit (VkDestroyCommandPool (logical_device idevice6)
                                          (command_pool idevice6))
                                    (emit (VkDestroySampler (logical_device idevice6)
                                             (sampler idevice6))
                                       (emit (VkDestroyQueryPool (logical_device idevice6)
                                                (timestamp_pool idevice6))
                                          (free_device p_device s8)))))
                            else
                              (CGPU_OK, Some p_device,
                               write_device p_device
                                 (idevice6\<lparr>allocator := vma_allocator env\<rparr>) s8))"

section \<open>cgpu\_create\_shader\<close>

text \<open>
  The reflection of the shader code is the work of \<^verbatim>\<open>cgpu_perform_shader_reflection\<close>, which
  is outside cgpu.c; its outcome, \<open>None\<close> for a failure, is part of the environment.
\<close>

record create_shader_env =
  vkCreateShaderModule_result :: VkResult
  vk_shader_module :: vk_object
  shader_reflection_result :: "cgpu_shader_reflection option"

definition cgpu_create_shader ::
  "create_shader_env \<Rightarrow> cgpu_state \<Rightarrow> handle \<Rightarrow> u64 \<Rightarrow> CgpuResult \<times> handle option \<times> cgpu_state" where
  "cgpu_create_shader env s device size' =
     (case cgpu_resolve_device s device of
        None \<Rightarrow> (CGPU_FAIL_INVALID_HANDLE, None, s)
      | Some idevice \<Rightarrow>
          let (p_shader, st) = resource_store_create_handle (ishader_store s);
              s1 = s\<lparr>ishader_store := st\<rparr>
          in (case cgpu_resolve_shader s1 p_shader of
                None \<Rightarrow> (CGPU_FAIL_INVALID_HANDLE, Some p_shader, s1)
              | Some ishader \<Rightarrow>
                  let s2 = emit (VkCreateShaderModule (logical_device idevice) size') s1 in
                  if vkCreateShaderModule_result env \<noteq> VK_SUCCESS then
                    (CGPU_FAIL_UNABLE_TO_CREATE_SHADER_MODULE, Some p_shader, free_shader p_shader s2)
                  else
                    let ishader1 = ishader\<lparr>module := vk_shader_module env\<rparr>;
                        s3 = write_shader p_shader ishader1 s2
                    in (case shader_reflection_result env of
                          None \<Rightarrow>
                            (CGPU_FAIL_UNABLE_TO_REFLECT_SHADER, Some p_shader,
                             free_shader p_shader
                               (emit (VkDestroyShaderModule (logical_device idevice)
                                        (module ishader1)) s3))
                        | Some reflected \<Rightarrow>
                            (CGPU_OK, Some p_shader,
                             write_shader p_shader (ishader1\<lparr>reflection := reflected\<rparr>) s3))))"

section \<open>cgpu\_create\_buffer\<close>

record create_buffer_env =
  vmaCreateBuffer_result :: VkResult
  vma_buffer :: vk_object
  vma_buffer_allocation :: vk_object

definition buffer_usage_for :: "u32 \<Rightarrow> u32" where
  "buffer_usage_for usage =
     (let u0 = 0;
          u1 = (if usage AND CGPU_BUFFER_USAGE_FLAG_TRANSFER_SRC = CGPU_BUFFER_USAGE_FLAG_TRANSFER_SRC
                then u0 OR VK_BUFFER_USAGE_TRANSFER_SRC_BIT else u0);
          u2 = (if usage AND CGPU_BUFFER_USAGE_FLAG_TRANSFER_DST = CGPU_BUFFER_USAGE_FLAG_TRANSFER_DST
                then u1 OR VK_BUFFER_USAGE_TRANSFER_DST_BIT else u1);
          u3 = (if usage AND CGPU_BUFFER_USAGE_FLAG_UNIFORM_BUFFER = CGPU_BUFFER_USAGE_FLAG_UNIFORM_BUFFER
                then u2 OR VK_BUFFER_USAGE_UNIFORM_BUFFER_BIT else u2);
          u4 = (if usage AND CGPU_BUFFER_USAGE_FLAG_STORAGE_BUFFER = CGPU_BUFFER_USAGE_FLAG_STORAGE_BUFFER
                then u3 OR VK_BUFFER_USAGE_STORAGE_BUFFER_BIT else u3);
          u5 = (if usage AND CGPU_BUFFER_USAGE_FLAG_UNIFORM_TEXEL_BUFFER
                     = CGPU_BUFFER_USAGE_FLAG_UNIFORM_TEXEL_BUFFER
                then u4 OR VK_BUFFER_USAGE_UNIFORM_TEXEL_BUFFER_BIT else u4);
          u6 = (if usage AND CGPU_BUFFER_USAGE_FLAG_STORAGE_TEXEL_BUFFER
                     = CGPU_BUFFER_USAGE_FLAG_STORAGE_TEXEL_BUFFER
                then u5 OR VK_BUFFER_USAGE_STORAGE_TEXEL_BUFFER_BIT else u5)
      in u6)"

definition cgpu_create_buffer ::
  "create_buffer_env \<Rightarrow> cgpu_state \<Rightarrow> handle \<Rightarrow> u32 \<Rightarrow> u32 \<Rightarrow> u64
     \<Rightarrow> CgpuResult \<times> handle option \<times> cgpu_state" where
  "cgpu_create_buffer env s device usage memory_properties size' =
     (case cgpu_resolve_device s device of
        None \<Rightarrow> (CGPU_FAIL_INVALID_HANDLE, None, s)
      | Some idevice \<Rightarrow>
          let (p_buffer, st) = resource_store_create_handle (ibuffer_store s);
              s1 = s\<lparr>ibuffer_store := st\<rparr>
          in (case cgpu_resolve_buffer s1 p_buffer of
                None \<Rightarrow> (CGPU_FAIL_INVALID_HANDLE, Some p_buffer, s1)
              | Some ibuffer \<Rightarrow>
                  let vk_buffer_usage = buffer_usage_for usage;
                      s2 = emit (VmaCreateBuffer (allocator idevice) size' vk_buffer_usage
                                   (cgpu_translate_memory_properties memory_properties)) s1
                  in if vmaCreateBuffer_result env \<noteq> VK_SUCCESS then
                       (CGPU_FAIL_UNABLE_TO_CREATE_BUFFER, Some p_buffer, free_buffer p_buffer s2)
                     else
                       (CGPU_OK, Some p_buffer,
                        write_buffer p_buffer
                          (ibuffer\<lparr>buffer := vma_buffer env,
                                    allocation := vma_buffer_allocation env,
                                    buffer_size := size'\<rparr>) s2)))"

section \<open>cgpu\_create\_image\<close>

text \<open>
  The replies of the two fallible native calls of \<^verbatim>\<open>cgpu_create_image\<close>, with the objects
  and the allocation size they hand back.
\<close>

record create_image_env =
  vmaCreateImage_result :: VkResult
  vma_image :: vk_object
  vma_allocation :: vk_object
  vma_allocation_size :: u64
  vkCreateImageView_result :: VkResult
  vk_image_view :: vk_object

definition image_tiling_for :: "u32 \<Rightarrow> VkImageTiling" where
  "image_tiling_for usage =
     (if usage = CGPU_IMAGE_USAGE_FLAG_TRANSFER_SRC \<or> usage = CGPU_IMAGE_USAGE_FLAG_TRANSFER_DST
      then VK_IMAGE_TILING_LINEAR else VK_IMAGE_TILING_OPTIMAL)"

definition image_usage_for :: "u32 \<Rightarrow> u32" where
  "image_usage_for usage =
     (let u0 = 0;
          u1 = (if usage AND CGPU_IMAGE_USAGE_FLAG_TRANSFER_SRC = CGPU_IMAGE_USAGE_FLAG_TRANSFER_SRC
                then u0 OR VK_IMAGE_USAGE_TRANSFER_SRC_BIT else u0);
          u2 = (if usage AND CGPU_IMAGE_USAGE_FLAG_TRANSFER_DST = CGPU_IMAGE_USAGE_FLAG_TRANSFER_DST
                then u1 OR VK_IMAGE_USAGE_TRANSFER_DST_BIT else u1);
          u3 = (if usage AND CGPU_IMAGE_USAGE_FLAG_SAMPLED = CGPU_IMAGE_USAGE_FLAG_SAMPLED
                then u2 OR VK_IMAGE_USAGE_SAMPLED_BIT else u2);
          u4 = (if usage AND CGPU_IMAGE_USAGE_FLAG_STORAGE = CGPU_IMAGE_USAGE_FLAG_STORAGE
                then u3 OR VK_IMAGE_USAGE_STORAGE_BIT else u3)
      in u4)"

text \<open>
  The result is the result code, the value written to \<^verbatim>\<open>p_image->handle\<close> (\<open>None\<close> when
  the function returns before writing it) and the new state.
\<close>

definition cgpu_create_image ::
  "create_image_env \<Rightarrow> cgpu_state \<Rightarrow> handle \<Rightarrow> u32 \<Rightarrow> u32 \<Rightarrow> nat \<Rightarrow> u32 \<Rightarrow> u32
     \<Rightarrow> CgpuResult \<times> handle option \<times> cgpu_state" where
  "cgpu_create_image env s device w h format usage memory_properties =
     (case cgpu_resolve_device s device of
        None \<Rightarrow> (CGPU_FAIL_INVALID_HANDLE, None, s)
      | Some idevice \<Rightarrow>
          let (p_image, st) = resource_store_create_handle (iimage_store s);
              s1 = s\<lparr>iimage_store := st\<rparr>
          in (case cgpu_resolve_image s1 p_image of
                None \<Rightarrow> (CGPU_FAIL_INVALID_HANDLE, Some p_image, s1)
              | Some iimage \<Rightarrow>
                  let vk_image_tiling = image_tiling_for usage;
                      vk_image_usage = image_usage_for usage;
                      image_info = \<lparr>ici_format = format, extent_width = w, extent_height = h,
                                    extent_depth = 1, mipLevels = 1, arrayLayers = 1,
                                    tiling = vk_image_tiling, ici_usage = vk_image_usage,
                                    initialLayout = VK_IMAGE_LAYOUT_UNDEFINED\<rparr>;
                      s2 = emit (VmaCreateImage (allocator idevice) image_info
                                   (cgpu_translate_memory_properties memory_properties)) s1
                  in if vmaCreateImage_result env \<noteq> VK_SUCCESS then
                       (CGPU_FAIL_UNABLE_TO_CREATE_IMAGE, Some p_image, free_image p_image s2)
                     else
                       let iimage1 = iimage\<lparr>image_vk := vma_image env,
                                             image_allocation := vma_allocation env,
                                             image_size := vma_allocation_size env\<rparr>;
                           s3 = emit (VkCreateImageView (logical_device idevice) (image_vk iimage1))
                                  (write_image p_image iimage1 s2)
                       in if vkCreateImageView_result env \<noteq> VK_SUCCESS then
                            (CGPU_FAIL_UNABLE_TO_CREATE_IMAGE, Some p_image,
                             emit (VmaDestroyImage (allocator idevice) (image_vk iimage1)
                                     (image_allocation iimage1))
                               (free_image p_image s3))
                          else
                            let iimage2 = iimage1\<lparr>image_view := vk_image_view env,
                                                   width := w, height := h,
                                                   layout := VK_IMAGE_LAYOUT_UNDEFINED,
                                                   access_mask := 0\<rparr>
                            in (CGPU_OK, Some p_image, write_image p_image iimage2 s3)))"


section \<open>cgpu\_create\_sampler\<close>

fun cgpu_translate_address_mode :: "CgpuSamplerAddressMode \<Rightarrow> VkSamplerAddressMode" where
  "cgpu_translate_address_mode CGPU_SAMPLER_ADDRESS_MODE_CLAMP_TO_EDGE = VK_SAMPLER_ADDRESS_MODE_CLAMP_TO_EDGE"
| "cgpu_translate_address_mode CGPU_SAMPLER_ADDRESS_MODE_REPEAT = VK_SAMPLER_ADDRESS_MODE_REPEAT"
| "cgpu_translate_address_mode CGPU_SAMPLER_ADDRESS_MODE_MIRRORED_REPEAT = VK_SAMPLER_ADDRESS_MODE_MIRRORED_REPEAT"
| "cgpu_translate_address_mode CGPU_SAMPLER_ADDRESS_MODE_CLAMP_TO_BLACK = VK_SAMPLER_ADDRESS_MODE_CLAMP_TO_BORDER"

record create_sampler_env =
  cs_vkCreateSampler_result :: VkResult
  cs_vk_sampler :: vk_object

definition cgpu_create_sampler ::
  "create_sampler_env \<Rightarrow> cgpu_state \<Rightarrow> handle \<Rightarrow> CgpuSamplerAddressMode \<Rightarrow> CgpuSamplerAddressMode
     \<Rightarrow> CgpuSamplerAddressMode \<Rightarrow> CgpuResult \<times> handle option \<times> cgpu_state" where
  "cgpu_create_sampler env s device address_mode_u address_mode_v address_mode_w =
     (case cgpu_resolve_device s device of
        None \<Rightarrow> (CGPU_FAIL_INVALID_HANDLE, None, s)
      | Some idevice \<Rightarrow>
          let (p_sampler, st) = resource_store_create_handle (isampler_store s);
              s1 = s\<lparr>isampler_store := st\<rparr>
          in (case cgpu_resolve_sampler s1 p_sampler of
                None \<Rightarrow> (CGPU_FAIL_INVALID_HANDLE, Some p_sampler, s1)
              | Some isampler' \<Rightarrow>
                  let clampToBlack = (address_mode_u = CGPU_SAMPLER_ADDRESS_MODE_CLAMP_TO_BLACK
                                      \<or> address_mode_v = CGPU_SAMPLER_ADDRESS_MODE_CLAMP_TO_BLACK
                                      \<or> address_mode_w = CGPU_SAMPLER_ADDRESS_MODE_CLAMP_TO_BLACK);
                      create_info =
                        \<lparr>addressModeU = cgpu_translate_address_mode address_mode_u,
                         addressModeV = cgpu_translate_address_mode address_mode_v,
                         addressModeW = cgpu_translate_address_mode address_mode_w,
                         anisotropyEnable = False,
                         borderColor = (if clampToBlack then VK_BORDER_COLOR_FLOAT_OPAQUE_BLACK
                                        else VK_BORDER_COLOR_FLOAT_TRANSPARENT_BLACK)\<rparr>;
                      s2 = emit (VkCreateSampler (logical_device idevice) create_info) s1
                  in if cs_vkCreateSampler_result env \<noteq> VK_SUCCESS then
                       (CGPU_FAIL_UNABLE_TO_CREATE_SAMPLER, Some p_sampler, free_sampler p_sampler s2)
                     else
                       (CGPU_OK, Some p_sampler,
                        write_sampler p_sampler (isampler'\<lparr>isampler := cs_vk_sampler env\<rparr>) s2)))"

section \<open>cgpu\_create\_pipeline\<close>

record create_pipeline_env =
  vkCreateDescriptorSetLayout_result :: VkResult
  vk_descriptor_set_layout :: vk_object
  vkCreatePipelineLayout_result :: VkResult
  vk_pipeline_layout :: vk_object
  vkCreateComputePipelines_result :: VkResult
  vk_pipeline :: vk_object
  vkCreateDescriptorPool_result :: VkResult
  vk_descriptor_pool :: vk_object
  vkAllocateDescriptorSets_result :: VkResult
  vk_descriptor_set :: vk_object

definition layout_binding_of :: "cgpu_shader_reflection_resource \<Rightarrow> VkDescriptorSetLayoutBinding" where
  "layout_binding_of resource =
     \<lparr>lb_binding = refl_binding resource, lb_descriptorType = descriptor_type resource,
      lb_descriptorCount = 1, lb_stageFlags = VK_SHADER_STAGE_COMPUTE_BIT\<rparr>"

text \<open>The five counters of the tally loop.\<close>

record descriptor_counts =
  buffer_count :: u32
  storage_image_count :: u32
  sampled_image_count :: u32
  combined_image_sampler_count :: u32
  sampler_count :: u32

definition no_descriptors :: descriptor_counts where
  "no_descriptors =
     \<lparr>buffer_count = 0, storage_image_count = 0, sampled_image_count = 0,
      combined_image_sampler_count = 0, sampler_count = 0\<rparr>"

text \<open>
  The tally loop over the reflected resources; \<open>None\<close> is the \<^verbatim>\<open>default\<close> branch of the
  switch, taken at the first resource of any other descriptor type.
\<close>

fun tally_descriptor_types ::
  "cgpu_shader_reflection_resource list \<Rightarrow> descriptor_counts \<Rightarrow> descriptor_counts option" where
  "tally_descriptor_types [] c = Some c"
| "tally_descriptor_types (resource # rest) c =
     (case descriptor_type resource of
        VK_DESCRIPTOR_TYPE_STORAGE_BUFFER \<Rightarrow>
          tally_descriptor_types rest (c\<lparr>buffer_count := buffer_count c + 1\<rparr>)
      | VK_DESCRIPTOR_TYPE_STORAGE_IMAGE \<Rightarrow>
          tally_descriptor_types rest (c\<lparr>storage_image_count := storage_image_count c + 1\<rparr>)
      | VK_DESCRIPTOR_TYPE_SAMPLED_IMAGE \<Rightarrow>
          tally_descriptor_types rest (c\<lparr>sampled_image_count := sampled_image_count c + 1\<rparr>)
      | VK_DESCRIPTOR_TYPE_COMBINED_IMAGE_SAMPLER \<Rightarrow>
          tally_descriptor_types rest
            (c\<lparr>combined_image_sampler_count := combined_image_sampler_count c + 1\<rparr>)
      | VK_DESCRIPTOR_TYPE_SAMPLER \<Rightarrow>
          tally_descriptor_types rest (c\<lparr>sampler_count := sampler_count c + 1\<rparr>)
      | _ \<Rightarrow> None)"

definition pool_sizes_of :: "descriptor_counts \<Rightarrow> VkDescriptorPoolSize list" where
  "pool_sizes_of c =
     (let p0 = [];
          p1 = (if 0 < buffer_count c
                then p0 @ [\<lparr>ps_type = VK_DESCRIPTOR_TYPE_STORAGE_BUFFER,
                             ps_descriptorCount = buffer_count c\<rparr>] else p0);
          p2 = (if 0 < storage_image_count c
                then p1 @ [\<lparr>ps_type = VK_DESCRIPTOR_TYPE_STORAGE_IMAGE,
                             ps_descriptorCount = storage_image_count c\<rparr>] else p1);
          p3 = (if 0 < sampled_image_count c
                then p2 @ [\<lparr>ps_type = VK_DESCRIPTOR_TYPE_SAMPLED_IMAGE,
                             ps_descriptorCount = sampled_image_count c\<rparr>] else p2);
          p4 = (if 0 < combined_image_sampler_count c
                then p3 @ [\<lparr>ps_type = VK_DESCRIPTOR_TYPE_COMBINED_IMAGE_SAMPLER,
                             ps_descriptorCount = combined_image_sampler_count c\<rparr>] else p3);
          p5 = (if 0 < sampler_count c
                then p4 @ [\<lparr>ps_type = VK_DESCRIPTOR_TYPE_SAMPLER,
                             ps_descriptorCount = sampler_count c\<rparr>] else p4)
      in p5)"

definition cgpu_create_pipeline ::
  "create_pipeline_env \<Rightarrow> cgpu_state \<Rightarrow> handle \<Rightarrow> handle \<Rightarrow> string
     \<Rightarrow> CgpuResult \<times> handle option \<times> cgpu_state" where
  "cgpu_create_pipeline env s device shader' p_shader_entry_point =
     (case cgpu_resolve_device s device of
        None \<Rightarrow> (CGPU_FAIL_INVALID_HANDLE, None, s)
      | Some idevice \<Rightarrow>
     (case cgpu_resolve_shader s shader' of
        None \<Rightarrow> (CGPU_FAIL_INVALID_HANDLE, None, s)
      | Some ishader \<Rightarrow>
          let (p_pipeline, st) = resource_store_create_handle (ipipeline_store s);
              s1 = s\<lparr>ipipeline_store := st\<rparr>
          in (case cgpu_resolve_pipeline s1 p_pipeline of
                None \<Rightarrow> (CGPU_FAIL_INVALID_HANDLE, Some p_pipeline, s1)
              | Some ipipeline \<Rightarrow>
          let shader_reflection = reflection ishader in
          if MAX_DESCRIPTOR_SET_LAYOUT_BINDINGS \<le> length (resources shader_reflection) then
            (CGPU_FAIL_UNABLE_TO_CREATE_DESCRIPTOR_LAYOUT, Some p_pipeline, s1)
          else
            let descriptor_set_layout_bindings = map layout_binding_of (resources shader_reflection);
                s2 = emit (VkCreateDescriptorSetLayout (logical_device idevice)
                             descriptor_set_layout_bindings) s1
            in
            if vkCreateDescriptorSetLayout_result env \<noteq> VK_SUCCESS then
              (CGPU_FAIL_UNABLE_TO_CREATE_DESCRIPTOR_LAYOUT, Some p_pipeline,
               free_pipeline p_pipeline s2)
            else
              let ipipeline1 = ipipeline\<lparr>descriptor_set_layout := vk_descriptor_set_layout env\<rparr>;
                  push_const_range =
                    \<lparr>pcr_stageFlags = VK_SHADER_STAGE_COMPUTE_BIT, pcr_offset = 0,
                     pcr_size = push_constants_size (reflection ishader)\<rparr>;
                  pipeline_layout_create_info =
                    \<lparr>setLayoutCount = 1, pSetLayouts = descriptor_set_layout ipipeline1,
                     pushConstantRangeCount = (if pcr_size push_const_range \<noteq> 0 then 1 else 0),
                     pPushConstantRanges = push_const_range\<rparr>;
                  s3 = emit (VkCreatePipelineLayout (logical_device idevice)
                               pipeline_layout_create_info)
                         (write_pipeline p_pipeline ipipeline1 s2)
              in
              if vkCreatePipelineLayout_result env \<noteq> VK_SUCCESS then
                (CGPU_FAIL_UNABLE_TO_CREATE_PIPELINE_LAYOUT, Some p_pipeline,
                 emit (VkDestroyDescriptorSetLayout (logical_device idevice)
                         (descriptor_set_layout ipipeline1))
                   (free_pipeline p_pipeline s3))
              else
                let ipipeline2 = ipipeline1\<lparr>pipeline_layout := vk_pipeline_layout env\<rparr>;
                    pipeline_create_info =
                      \<lparr>cp_module = module ishader, cp_pName = p_shader_entry_point,
                       cp_layout = pipeline_layout ipipeline2\<rparr>;
                    s4 = emit (VkCreateComputePipelines (logical_device idevice) pipeline_create_info)
                           (write_pipeline p_pipeline ipipeline2 s3)
                in
                if vkCreateComputePipelines_result env \<noteq> VK_SUCCESS then
                  (CGPU_FAIL_UNABLE_TO_CREATE_COMPUTE_PIPELINE, Some p_pipeline,
                   emit (VkDestroyDescriptorSetLayout (logical_device idevice)
                           (descriptor_set_layout ipipeline2))
                     (emit (VkDestroyPipelineLayout (logical_device idevice)
                              (pipeline_layout ipipeline2))
                        (free_pipeline p_pipeline s4)))
                else
                  let ipipeline3 = ipipeline2\<lparr>pipeline := vk_pipeline env\<rparr>;
                      s5 = write_pipeline p_pipeline ipipeline3 s4
                  in
                  (case tally_descriptor_types (resources shader_reflection) no_descriptors of
                     None \<Rightarrow>
                       (CGPU_FAIL_UNABLE_TO_CREATE_COMPUTE_PIPELINE, Some p_pipeline,
                        emit (VkDestroyDescriptorSetLayout (logical_device idevice)
                                (descriptor_set_layout ipipeline3))
                          (emit (VkDestroyPipelineLayout (logical_device idevice)
                                   (pipeline_layout ipipeline3))
                             (free_pipeline p_pipeline s5)))
                   | Some counts \<Rightarrow>
                       let pool_sizes = pool_sizes_of counts;
                           descriptor_pool_create_info =
                             \<lparr>maxSets = 1, poolSizeCount = of_nat (length pool_sizes),
                              pPoolSizes = pool_sizes\<rparr>;
                           s6 = emit (VkCreateDescriptorPool (logical_device idevice)
                                        descriptor_pool_create_info) s5
                       in
                       if vkCreateDescriptorPool_result env \<noteq> VK_SUCCESS then
                         (CGPU_FAIL_UNABLE_TO_CREATE_DESCRIPTOR_POOL, Some p_pipeline,
                          emit (VkDestroyDescriptorSetLayout (logical_device idevice)
                                  (descriptor_set_layout ipipeline3))
                            (emit (VkDestroyPipelineLayout (logical_device idevice)
                                     (pipeline_layout ipipeline3))
                               (emit (VkDestroyPipeline (logical_device idevice)
                                        (pipeline ipipeline3))
                                  (free_pipeline p_pipeline s6))))
                       else
                         let ipipeline4 = ipipeline3\<lparr>descriptor_pool := vk_descriptor_pool env\<rparr>;
                             s7 = emit (VkAllocateDescriptorSets (logical_device idevice)
                                          (descriptor_pool ipipeline4)
                                          (descriptor_set_layout ipipeline4))
                                    (write_pipeline p_pipeline ipipeline4 s6)
                         in
                         if vkAllocateDescriptorSets_result env \<noteq> VK_SUCCESS then
                           (CGPU_FAIL_UNABLE_TO_ALLOCATE_DESCRIPTOR_SET, Some p_pipeline,
                            emit (VkDestroyDescriptorSetLayout (logical_device idevice)
                                    (descriptor_set_layout ipipeline4))
                              (emit (VkDestroyPipelineLayout (logical_device idevice)
                                       (pipeline_layout ipipeline4))
                                 (emit (VkDestroyPipeline (logical_device idevice)
                                          (pipeline ipipeline4))
                                    (emit (VkDestroyDescriptorPool (logical_device idevice)
                                             (descriptor_pool ipipeline4))
                                       (free_pipeline p_pipeline s7)))))
                         else
                           (CGPU_OK, Some p_pipeline,
                            write_pipeline p_pipeline
                              (ipipeline4\<lparr>descriptor_set := vk_descriptor_set env,
                                           shader := shader'\<rparr>) s7)))))"

section \<open>cgpu\_create\_command\_buffer and cgpu\_create\_fence\<close>

record create_command_buffer_env =
  vkAllocateCommandBuffers_result :: VkResult
  vk_command_buffer :: vk_object

definition cgpu_create_command_buffer ::
  "create_command_buffer_env \<Rightarrow> cgpu_state \<Rightarrow> handle \<Rightarrow> CgpuResult \<times> handle option \<times> cgpu_state" where
  "cgpu_create_command_buffer env s device =
     (case cgpu_resolve_device s device of
        None \<Rightarrow> (CGPU_FAIL_INVALID_HANDLE, None, s)
      | Some idevice \<Rightarrow>
          let (p_command_buffer, st) = resource_store_create_handle (icommand_buffer_store s);
              s1 = s\<lparr>icommand_buffer_store := st\<rparr>
          in (case cgpu_resolve_command_buffer s1 p_command_buffer of
                None \<Rightarrow> (CGPU_FAIL_INVALID_HANDLE, Some p_command_buffer, s1)
              | Some icommand_buffer \<Rightarrow>
                  let icommand_buffer1 = icommand_buffer\<lparr>cb_device := device,
                                                         cb_pipeline := CGPU_INVALID_HANDLE\<rparr>;
                      s2 = emit (VkAllocateCommandBuffers (logical_device idevice)
                                   (command_pool idevice))
                             (write_command_buffer p_command_buffer icommand_buffer1 s1)
                  in if vkAllocateCommandBuffers_result env \<noteq> VK_SUCCESS then
                       (CGPU_FAIL_UNABLE_TO_ALLOCATE_COMMAND_BUFFER, Some p_command_buffer, s2)
                     else
                       (CGPU_OK, Some p_command_buffer,
                        write_command_buffer p_command_buffer
                          (icommand_buffer1\<lparr>command_buffer := vk_command_buffer env\<rparr>) s2)))"

record create_fence_env =
  vkCreateFence_result :: VkResult
  vk_fence :: vk_object

definition cgpu_create_fence ::
  "create_fence_env \<Rightarrow> cgpu_state \<Rightarrow> handle \<Rightarrow> CgpuResult \<times> handle option \<times> cgpu_state" where
  "cgpu_create_fence env s device =
     (case cgpu_resolve_device s device of
        None \<Rightarrow> (CGPU_FAIL_INVALID_HANDLE, None, s)
      | Some idevice \<Rightarrow>
          let (p_fence, st) = resource_store_create_handle (ifence_store s);
              s1 = s\<lparr>ifence_store := st\<rparr>
          in (case cgpu_resolve_fence s1 p_fence of
                None \<Rightarrow> (CGPU_FAIL_INVALID_HANDLE, Some p_fence, s1)
              | Some ifence \<Rightarrow>
                  let s2 = emit (VkCreateFence (logical_device idevice) True) s1 in
                  if vkCreateFence_result env \<noteq> VK_SUCCESS then
                    (CGPU_FAIL_UNABLE_TO_CREATE_FENCE, Some p_fence, free_fence p_fence s2)
                  else
                    (CGPU_OK, Some p_fence,
                     write_fence p_fence (ifence\<lparr>fence := vk_fence env\<rparr>) s2)))"

section \<open>Undefined behaviour\<close>

text \<open>
  The C code indexes arrays of fixed length with counts that the caller or the shader
  reflection supplies, and divides by a device limit. Where an index leaves its array or
  the divisor is zero the C program has no defined meaning; the model says so instead of
  inventing a result. A loop body yields \<open>Undefined\<close>, returns early with a result code,
  or continues; an operation that may hit undefined behaviour returns \<open>None\<close> for it.
\<close>

datatype 'a step = Undefined | Return CgpuResult | Continue 'a

section \<open>cgpu\_update\_resources\<close>

text \<open>
  The caller's arrays \<^verbatim>\<open>p_buffer_resources\<close> and \<^verbatim>\<open>p_image_resources\<close> with their counts
  are lists. \<open>i\<close> is the loop index and \<open>n\<close> the value of \<^verbatim>\<open>write_desc_set_count\<close>.
\<close>

fun update_buffer_resources ::
  "cgpu_state \<Rightarrow> cgpu_idevice \<Rightarrow> cgpu_ipipeline \<Rightarrow> nat \<Rightarrow> nat
     \<Rightarrow> cgpu_shader_resource_buffer list \<Rightarrow> VkWriteDescriptorSet list step" where
  "update_buffer_resources s idevice ipipeline i n [] = Continue []"
| "update_buffer_resources s idevice ipipeline i n (shader_resource_buffer # rest) =
     (case cgpu_resolve_buffer s (sr_buffer shader_resource_buffer) of
        None \<Rightarrow> Return CGPU_FAIL_INVALID_HANDLE
      | Some ibuffer \<Rightarrow>
          if minStorageBufferOffsetAlignment (limits idevice) = 0 then Undefined
          else if sr_offset shader_resource_buffer mod minStorageBufferOffsetAlignment (limits idevice) \<noteq> 0
            then Return CGPU_FAIL_BUFFER_OFFSET_NOT_ALIGNED
          else if MAX_DESCRIPTOR_BUFFER_INFOS \<le> i \<or> MAX_WRITE_DESCRIPTOR_SETS \<le> n then Undefined
          else
            let write_descriptor_set =
                  \<lparr>dstSet = descriptor_set ipipeline,
                   dstBinding = sr_buffer_binding shader_resource_buffer,
                   dstArrayElement = 0, descriptorCount = 1,
                   descriptorType = VK_DESCRIPTOR_TYPE_STORAGE_BUFFER,
                   pInfo = BufferInfo (buffer ibuffer) (sr_offset shader_resource_buffer)
                     (if sr_size shader_resource_buffer = CGPU_WHOLE_SIZE
                      then buffer_size ibuffer - sr_offset shader_resource_buffer
                      else sr_size shader_resource_buffer)\<rparr>
            in (case update_buffer_resources s idevice ipipeline (Suc i) (Suc n) rest of
                  Continue ws \<Rightarrow> Continue (write_descriptor_set # ws)
                | Return e \<Rightarrow> Return e
                | Undefined \<Rightarrow> Undefined))"

fun update_image_resources ::
  "cgpu_state \<Rightarrow> cgpu_idevice \<Rightarrow> cgpu_ipipeline \<Rightarrow> nat \<Rightarrow> nat
     \<Rightarrow> cgpu_shader_resource_image list \<Rightarrow> VkWriteDescriptorSet list step" where
  "update_image_resources s idevice ipipeline i n [] = Continue []"
| "update_image_resources s idevice ipipeline i n (shader_resource_image # rest) =
     (case cgpu_resolve_image s (sr_image shader_resource_image) of
        None \<Rightarrow> Return CGPU_FAIL_INVALID_HANDLE
      | Some iimage \<Rightarrow>
          if MAX_DESCRIPTOR_IMAGE_INFOS \<le> i \<or> MAX_WRITE_DESCRIPTOR_SETS \<le> n then Undefined
          else
            let write_descriptor_set =
                  \<lparr>dstSet = descriptor_set ipipeline,
                   dstBinding = binding shader_resource_image,
                   dstArrayElement = 0, descriptorCount = 1,
                   descriptorType = VK_DESCRIPTOR_TYPE_STORAGE_IMAGE,
                   pInfo = ImageInfo (sampler idevice) (image_view iimage) VK_IMAGE_LAYOUT_GENERAL\<rparr>
            in (case update_image_resources s idevice ipipeline (Suc i) (Suc n) rest of
                  Continue ws \<Rightarrow> Continue (write_descriptor_set # ws)
                | Return e \<Rightarrow> Return e
                | Undefined \<Rightarrow> Undefined))"

definition cgpu_update_resources ::
  "cgpu_state \<Rightarrow> handle \<Rightarrow> handle \<Rightarrow> cgpu_shader_resource_buffer list
     \<Rightarrow> cgpu_shader_resource_image list \<Rightarrow> (CgpuResult \<times> cgpu_state) option" where
  "cgpu_update_resources s device pipeline' p_buffer_resources p_image_resources =
     (case cgpu_resolve_device s device of
        None \<Rightarrow> Some (CGPU_FAIL_INVALID_HANDLE, s)
      | Some idevice \<Rightarrow>
     (case cgpu_resolve_pipeline s pipeline' of
        None \<Rightarrow> Some (CGPU_FAIL_INVALID_HANDLE, s)
      | Some ipipeline \<Rightarrow>
     (case update_buffer_resources s idevice ipipeline 0 0 p_buffer_resources of
        Undefined \<Rightarrow> None
      | Return e \<Rightarrow> Some (e, s)
      | Continue buffer_writes \<Rightarrow>
     (case update_image_resources s idevice ipipeline 0 (length buffer_writes) p_image_resources of
        Undefined \<Rightarrow> None
      | Return e \<Rightarrow> Some (e, s)
      | Continue image_writes \<Rightarrow>
          Some (CGPU_OK,
                emit (VkUpdateDescriptorSets (logical_device idevice)
                        (buffer_writes @ image_writes)) s)))))"

section \<open>Command recording\<close>

subsection \<open>cgpu\_cmd\_copy\_buffer\_to\_image\<close>

definition cgpu_cmd_copy_buffer_to_image ::
  "cgpu_state \<Rightarrow> handle \<Rightarrow> handle \<Rightarrow> handle \<Rightarrow> CgpuResult \<times> cgpu_state" where
  "cgpu_cmd_copy_buffer_to_image s command_buffer' buffer' image' =
     (case cgpu_resolve_command_buffer s command_buffer' of
        None \<Rightarrow> (CGPU_FAIL_INVALID_HANDLE, s)
      | Some icommand_buffer \<Rightarrow>
     (case cgpu_resolve_device s (cb_device icommand_buffer) of
        None \<Rightarrow> (CGPU_FAIL_INVALID_HANDLE, s)
      | Some idevice \<Rightarrow>
     (case cgpu_resolve_buffer s buffer' of
        None \<Rightarrow> (CGPU_FAIL_INVALID_HANDLE, s)
      | Some ibuffer \<Rightarrow>
     (case cgpu_resolve_image s image' of
        None \<Rightarrow> (CGPU_FAIL_INVALID_HANDLE, s)
      | Some iimage \<Rightarrow>
          let s1 = emit (VkCmdCopyBufferToImage (command_buffer icommand_buffer) (buffer ibuffer)
                           (image_vk iimage) VK_IMAGE_LAYOUT_GENERAL (width iimage) (height iimage)) s
          in (CGPU_OK, write_image image' (iimage\<lparr>layout := VK_IMAGE_LAYOUT_GENERAL\<rparr>) s1)))))"

subsection \<open>cgpu\_transition\_image\_layouts\_for\_shader and cgpu\_cmd\_dispatch\<close>

text \<open>
  The layout a reflected resource needs: shader-read-only for a sampled image or a combined
  image sampler, general for a storage image, \<open>None\<close> for a resource that is not an image.
\<close>

definition required_layout :: "VkDescriptorType \<Rightarrow> VkImageLayout option" where
  "required_layout t =
     (if t = VK_DESCRIPTOR_TYPE_SAMPLED_IMAGE \<or> t = VK_DESCRIPTOR_TYPE_COMBINED_IMAGE_SAMPLER
        then Some VK_IMAGE_LAYOUT_SHADER_READ_ONLY_OPTIMAL
      else if t = VK_DESCRIPTOR_TYPE_STORAGE_IMAGE then Some VK_IMAGE_LAYOUT_GENERAL
      else None)"

text \<open>
  The inner loop over \<^verbatim>\<open>ipipeline->image_resources\<close>: the second argument counts the entries
  still to be visited (\<^verbatim>\<open>image_resource_count - j\<close>). The result is \<open>Some None\<close> when
  \<^verbatim>\<open>res_img\<close> stays \<^verbatim>\<open>NULL\<close>, and \<open>None\<close> when the count leads past the array.
\<close>

fun find_image_resource ::
  "cgpu_shader_resource_image list \<Rightarrow> nat \<Rightarrow> u32 \<Rightarrow> cgpu_shader_resource_image option option" where
  "find_image_resource rs 0 b = Some None"
| "find_image_resource [] (Suc n) b = None"
| "find_image_resource (r # rs) (Suc n) b =
     (if binding r = b then Some (Some r) else find_image_resource rs n b)"

definition shader_access_mask :: "cgpu_shader_reflection_resource \<Rightarrow> VkAccessFlags" where
  "shader_access_mask res_refl =
     (let a0 = 0;
          a1 = (if read_access res_refl then a0 OR VK_ACCESS_SHADER_READ_BIT else a0);
          a2 = (if write_access res_refl then a1 OR VK_ACCESS_SHADER_WRITE_BIT else a1)
      in a2)"

text \<open>
  The loop over the reflected resources. It carries the state, because the tracked layout
  and access mask of an image are written inside the loop, and the barriers collected so
  far. An early return keeps the writes made before it.
\<close>

fun transition_loop ::
  "cgpu_ipipeline \<Rightarrow> cgpu_shader_reflection_resource list \<Rightarrow> cgpu_state
     \<Rightarrow> VkImageMemoryBarrier list \<Rightarrow> (CgpuResult \<times> VkImageMemoryBarrier list \<times> cgpu_state) option" where
  "transition_loop ipipeline [] s barriers = Some (CGPU_OK, barriers, s)"
| "transition_loop ipipeline (res_refl # rest) s barriers =
     (case required_layout (descriptor_type res_refl) of
        None \<Rightarrow> transition_loop ipipeline rest s barriers
      | Some new_layout \<Rightarrow>
     (case find_image_resource (image_resources ipipeline)
             (unat (image_resource_count ipipeline)) (refl_binding res_refl) of
        None \<Rightarrow> None
      | Some None \<Rightarrow> Some (CGPU_FAIL_DESCRIPTOR_SET_BINDING_MISMATCH, barriers, s)
      | Some (Some res_img) \<Rightarrow>
     (case cgpu_resolve_image s (sr_image res_img) of
        None \<Rightarrow> Some (CGPU_FAIL_INVALID_HANDLE, barriers, s)
      | Some iimage \<Rightarrow>
          let old_layout = layout iimage in
          if new_layout = old_layout then transition_loop ipipeline rest s barriers
          else if MAX_IMAGE_MEMORY_BARRIERS \<le> length barriers then None
          else
            let barrier = \<lparr>srcAccessMask = access_mask iimage,
                           dstAccessMask = shader_access_mask res_refl,
                           oldLayout = old_layout, newLayout = new_layout,
                           barrier_image = image_vk iimage\<rparr>;
                s1 = write_image (sr_image res_img)
                       (iimage\<lparr>access_mask := shader_access_mask res_refl, layout := new_layout\<rparr>) s
            in transition_loop ipipeline rest s1 (barriers @ [barrier]))))"

definition cgpu_transition_image_layouts_for_shader ::
  "cgpu_state \<Rightarrow> cgpu_idevice \<Rightarrow> cgpu_icommand_buffer \<Rightarrow> (CgpuResult \<times> cgpu_state) option" where
  "cgpu_transition_image_layouts_for_shader s idevice icommand_buffer =
     (case cgpu_resolve_pipeline s (cb_pipeline icommand_buffer) of
        None \<Rightarrow> Some (CGPU_FAIL_INVALID_HANDLE, s)
      | Some ipipeline \<Rightarrow>
     (case cgpu_resolve_shader s (shader ipipeline) of
        None \<Rightarrow> Some (CGPU_FAIL_INVALID_HANDLE, s)
      | Some ishader \<Rightarrow>
     (case transition_loop ipipeline (resources (reflection ishader)) s [] of
        None \<Rightarrow> None
      | Some (r, barriers, s1) \<Rightarrow>
          if r \<noteq> CGPU_OK then Some (r, s1)
          else if 0 < length barriers then
            Some (CGPU_OK,
                  emit (VkCmdPipelineBarrier (command_buffer icommand_buffer)
                          VK_PIPELINE_STAGE_COMPUTE_SHADER_BIT VK_PIPELINE_STAGE_COMPUTE_SHADER_BIT
                          [] [] barriers) s1)
          else Some (CGPU_OK, s1))))"

definition cgpu_cmd_dispatch ::
  "cgpu_state \<Rightarrow> handle \<Rightarrow> u32 \<Rightarrow> u32 \<Rightarrow> u32 \<Rightarrow> (CgpuResult \<times> cgpu_state) option" where
  "cgpu_cmd_dispatch s command_buffer' dim_x dim_y dim_z =
     (case cgpu_resolve_command_buffer s command_buffer' of
        None \<Rightarrow> Some (CGPU_FAIL_INVALID_HANDLE, s)
      | Some icommand_buffer \<Rightarrow>
     (case cgpu_resolve_device s (cb_device icommand_buffer) of
        None \<Rightarrow> Some (CGPU_FAIL_INVALID_HANDLE, s)
      | Some idevice \<Rightarrow>
     (case cgpu_transition_image_layouts_for_shader s idevice icommand_buffer of
        None \<Rightarrow> None
      | Some (c_result, s1) \<Rightarrow>
          if c_result \<noteq> CGPU_OK then Some (c_result, s1)
          else Some (CGPU_OK,
                     emit (VkCmdDispatch (command_buffer icommand_buffer) dim_x dim_y dim_z) s1))))"

subsection \<open>cgpu\_cmd\_pipeline\_barrier\<close>

record cgpu_memory_barrier =
  src_access_flags :: u32
  dst_access_flags :: u32

record cgpu_buffer_memory_barrier =
  bmb_src_access_flags :: u32
  bmb_dst_access_flags :: u32
  bmb_buffer :: handle
  bmb_offset :: u64
  bmb_size :: u64

record cgpu_image_memory_barrier =
  imb_image :: handle
  imb_access_mask :: u32

fun memory_barriers_loop :: "nat \<Rightarrow> cgpu_memory_barrier list \<Rightarrow> VkMemoryBarrier list option" where
  "memory_barriers_loop i [] = Some []"
| "memory_barriers_loop i (b_cgpu # rest) =
     (if MAX_MEMORY_BARRIERS \<le> i then None
      else
        let b_vk = \<lparr>mb_srcAccessMask = cgpu_translate_access_flags (src_access_flags b_cgpu),
                    mb_dstAccessMask = cgpu_translate_access_flags (dst_access_flags b_cgpu)\<rparr>
        in (case memory_barriers_loop (Suc i) rest of
              Some bs \<Rightarrow> Some (b_vk # bs)
            | None \<Rightarrow> None))"

fun buffer_barriers_loop ::
  "cgpu_state \<Rightarrow> nat \<Rightarrow> cgpu_buffer_memory_barrier list \<Rightarrow> VkBufferMemoryBarrier list step" where
  "buffer_barriers_loop s i [] = Continue []"
| "buffer_barriers_loop s i (b_cgpu # rest) =
     (case cgpu_resolve_buffer s (bmb_buffer b_cgpu) of
        None \<Rightarrow> Return CGPU_FAIL_INVALID_HANDLE
      | Some ibuffer \<Rightarrow>
          if MAX_BUFFER_MEMORY_BARRIERS \<le> i then Undefined
          else
            let b_vk = \<lparr>bb_srcAccessMask = cgpu_translate_access_flags (bmb_src_access_flags b_cgpu),
                        bb_dstAccessMask = cgpu_translate_access_flags (bmb_dst_access_flags b_cgpu),
                        bb_buffer = buffer ibuffer, bb_offset = bmb_offset b_cgpu,
                        bb_size = (if bmb_size b_cgpu = CGPU_WHOLE_SIZE then VK_WHOLE_SIZE
                                   else bmb_size b_cgpu)\<rparr>
            in (case buffer_barriers_loop s (Suc i) rest of
                  Continue bs \<Rightarrow> Continue (b_vk # bs)
                | Return e \<Rightarrow> Return e
                | Undefined \<Rightarrow> Undefined))"

text \<open>
  The loop over the image barriers writes the tracked access mask of each image as it
  goes, so it carries the state; an early return keeps the writes made before it.
\<close>

fun image_barriers_loop ::
  "cgpu_state \<Rightarrow> nat \<Rightarrow> cgpu_image_memory_barrier list \<Rightarrow> VkImageMemoryBarrier list
     \<Rightarrow> (CgpuResult \<times> VkImageMemoryBarrier list \<times> cgpu_state) option" where
  "image_barriers_loop s i [] barriers = Some (CGPU_OK, barriers, s)"
| "image_barriers_loop s i (b_cgpu # rest) barriers =
     (case cgpu_resolve_image s (imb_image b_cgpu) of
        None \<Rightarrow> Some (CGPU_FAIL_INVALID_HANDLE, barriers, s)
      | Some iimage \<Rightarrow>
          let access_mask' = cgpu_translate_access_flags (imb_access_mask b_cgpu) in
          if MAX_IMAGE_MEMORY_BARRIERS \<le> i then None
          else
            let b_vk = \<lparr>srcAccessMask = access_mask iimage, dstAccessMask = access_mask',
                        oldLayout = layout iimage, newLayout = layout iimage,
                        barrier_image = image_vk iimage\<rparr>;
                s1 = write_image (imb_image b_cgpu) (iimage\<lparr>access_mask := access_mask'\<rparr>) s
            in image_barriers_loop s1 (Suc i) rest (barriers @ [b_vk]))"

definition cgpu_cmd_pipeline_barrier ::
  "cgpu_state \<Rightarrow> handle \<Rightarrow> cgpu_memory_barrier list \<Rightarrow> cgpu_buffer_memory_barrier list
     \<Rightarrow> cgpu_image_memory_barrier list \<Rightarrow> (CgpuResult \<times> cgpu_state) option" where
  "cgpu_cmd_pipeline_barrier s command_buffer' p_barriers p_buffer_barriers p_image_barriers =
     (case cgpu_resolve_command_buffer s command_buffer' of
        None \<Rightarrow> Some (CGPU_FAIL_INVALID_HANDLE, s)
      | Some icommand_buffer \<Rightarrow>
     (case cgpu_resolve_device s (cb_device icommand_buffer) of
        None \<Rightarrow> Some (CGPU_FAIL_INVALID_HANDLE, s)
      | Some idevice \<Rightarrow>
     (case memory_barriers_loop 0 p_barriers of
        None \<Rightarrow> None
      | Some vk_memory_barriers \<Rightarrow>
     (case buffer_barriers_loop s 0 p_buffer_barriers of
        Undefined \<Rightarrow> None
      | Return e \<Rightarrow> Some (e, s)
      | Continue vk_buffer_memory_barriers \<Rightarrow>
     (case image_barriers_loop s 0 p_image_barriers [] of
        None \<Rightarrow> None
      | Some (r, vk_image_memory_barriers, s1) \<Rightarrow>
          if r \<noteq> CGPU_OK then Some (r, s1)
          else
            Some (CGPU_OK,
                  emit (VkCmdPipelineBarrier (command_buffer icommand_buffer)
                          (VK_PIPELINE_STAGE_COMPUTE_SHADER_BIT OR VK_PIPELINE_STAGE_TRANSFER_BIT)
                          (VK_PIPELINE_STAGE_COMPUTE_SHADER_BIT OR VK_PIPELINE_STAGE_TRANSFER_BIT)
                          vk_memory_barriers vk_buffer_memory_barriers vk_image_memory_barriers)
                    s1))))))"

section \<open>Notions used in the statements\<close>

text \<open>
  \<open>map_images f\<close> rewrites the contents of every image slot and leaves everything else,
  including which image handles are live, as it is. It serves to say which part of the
  state an operation may have changed.
\<close>

definition map_images :: "(handle \<Rightarrow> cgpu_iimage \<Rightarrow> cgpu_iimage) \<Rightarrow> cgpu_state \<Rightarrow> cgpu_state" where
  "map_images f s =
     s\<lparr>iimage_store := (iimage_store s)\<lparr>slot := (\<lambda>h. f h (slot (iimage_store s) h))\<rparr>\<rparr>"

text \<open>
  The access mask that a list of image barriers leaves on image \<open>h\<close>: the translated mask
  of the last barrier of the list that names \<open>h\<close>, or the old mask \<open>a\<close> if none does.
\<close>

definition last_access :: "cgpu_image_memory_barrier list \<Rightarrow> handle \<Rightarrow> VkAccessFlags \<Rightarrow> VkAccessFlags" where
  "last_access bs h a =
     (case find (\<lambda>b. imb_image b = h) (rev bs) of
        None \<Rightarrow> a
      | Some b \<Rightarrow> cgpu_translate_access_flags (imb_access_mask b))"

text \<open>
  The image that the image table of a pipeline binds to a reflected resource, as the inner
  loop of the state tracker finds it.
\<close>

definition bound_image :: "cgpu_ipipeline \<Rightarrow> cgpu_shader_reflection_resource \<Rightarrow> handle option" where
  "bound_image ipipeline res_refl =
     (case find_image_resource (image_resources ipipeline)
             (unat (image_resource_count ipipeline)) (refl_binding res_refl) of
        Some (Some res_img) \<Rightarrow> Some (sr_image res_img)
      | _ \<Rightarrow> None)"

text \<open>The first reflected image resource of a list that is bound to image \<open>h\<close>.\<close>

definition first_bound ::
  "cgpu_ipipeline \<Rightarrow> handle \<Rightarrow> cgpu_shader_reflection_resource list
     \<Rightarrow> cgpu_shader_reflection_resource option" where
  "first_bound ipipeline h rs =
     find (\<lambda>r. required_layout (descriptor_type r) \<noteq> None \<and> bound_image ipipeline r = Some h) rs"

text \<open>
  No image is bound to two reflected image resources that need different layouts.
\<close>

definition layouts_consistent :: "cgpu_ipipeline \<Rightarrow> cgpu_shader_reflection_resource list \<Rightarrow> bool" where
  "layouts_consistent ipipeline rs =
     (\<forall>r1 \<in> set rs. \<forall>r2 \<in> set rs.
        required_layout (descriptor_type r1) \<noteq> None \<and> required_layout (descriptor_type r2) \<noteq> None
        \<and> bound_image ipipeline r1 = bound_image ipipeline r2
        \<longrightarrow> required_layout (descriptor_type r1) = required_layout (descriptor_type r2))"

text \<open>
  Every reflected image resource that is bound to an image other than \<open>h\<close> is bound to an
  image whose native image differs from the native image of \<open>h\<close>, so that a recorded
  barrier tells which of the two it is for.
\<close>

definition native_image_distinct ::
  "cgpu_state \<Rightarrow> cgpu_ipipeline \<Rightarrow> handle \<Rightarrow> cgpu_shader_reflection_resource list \<Rightarrow> bool" where
  "native_image_distinct s ipipeline h rs =
     (\<forall>r \<in> set rs. \<forall>h'.
        required_layout (descriptor_type r) \<noteq> None \<and> bound_image ipipeline r = Some h' \<and> h' \<noteq> h
        \<longrightarrow> image_vk (slot (iimage_store s) h') \<noteq> image_vk (slot (iimage_store s) h))"

text \<open>The barriers of a list that are for the native image \<open>v\<close>.\<close>

definition barriers_for :: "vk_object \<Rightarrow> VkImageMemoryBarrier list \<Rightarrow> VkImageMemoryBarrier list" where
  "barriers_for v bs = filter (\<lambda>b. barrier_image b = v) bs"

text \<open>
  What one dispatch is to do to an image \<open>h\<close> that the shader needs in layout \<open>l\<close>, given the
  tracked record \<open>img\<close> of the image: nothing, if no reflected image resource is bound to
  the image or the tracked layout is \<open>l\<close> already; otherwise one barrier from the tracked
  layout and access mask to \<open>l\<close> and to the access mask of the first resource bound to the
  image, and the tracked fields set to these values.
\<close>

definition image_transition ::
  "cgpu_ipipeline \<Rightarrow> handle \<Rightarrow> VkImageLayout \<Rightarrow> cgpu_shader_reflection_resource list
     \<Rightarrow> cgpu_iimage \<Rightarrow> cgpu_iimage \<times> VkImageMemoryBarrier list" where
  "image_transition ipipeline h l rs img =
     (case first_bound ipipeline h rs of
        None \<Rightarrow> (img, [])
      | Some r \<Rightarrow>
          if layout img = l then (img, [])
          else (img\<lparr>access_mask := shader_access_mask r, layout := l\<rparr>,
                [\<lparr>srcAccessMask = access_mask img, dstAccessMask = shader_access_mask r,
                  oldLayout = layout img, newLayout = l, barrier_image = image_vk img\<rparr>]))"

text \<open>The number of reflected resources of descriptor type \<open>t\<close>.\<close>

definition count_type :: "VkDescriptorType \<Rightarrow> cgpu_shader_reflection_resource list \<Rightarrow> nat" where
  "count_type t rs = length (filter (\<lambda>r. descriptor_type r = t) rs)"

text \<open>The push-constant ranges that a pipeline layout request hands to the native call.\<close>

definition push_constant_ranges :: "VkPipelineLayoutCreateInfo \<Rightarrow> VkPushConstantRange list" where
  "push_constant_ranges info = take (unat (pushConstantRangeCount info)) [pPushConstantRanges info]"

section \<open>Example states\<close>

text \<open>
  Concrete states on which the operations are evaluated. Every store starts with no slot
  in use; the memory of the slots holds the values given here.
\<close>

definition resource_store_create :: "'a \<Rightarrow> 'a resource_store" where
  "resource_store_create v = \<lparr>slot = (\<lambda>_. v), high_water = 0, free_list = []\<rparr>"

definition example_idevice :: cgpu_idevice where
  "example_idevice =
     \<lparr>logical_device = 11, physical_device = 12, compute_queue = 13, command_pool = 14,
      timestamp_pool = 15, sampler = 16,
      limits = \<lparr>minStorageBufferOffsetAlignment = 16\<rparr>, allocator = 17\<rparr>"

definition example_ibuffer :: cgpu_ibuffer where
  "example_ibuffer = \<lparr>buffer = 21, buffer_size = 256, allocation = 22\<rparr>"

definition example_iimage :: cgpu_iimage where
  "example_iimage =
     \<lparr>image_vk = 31, image_view = 32, image_allocation = 33, image_size = 64,
      width = 4, height = 4, layout = VK_IMAGE_LAYOUT_UNDEFINED, access_mask = 0\<rparr>"

definition example_ishader :: cgpu_ishader where
  "example_ishader = \<lparr>module = 41, reflection = \<lparr>resources = [], push_constants_size = 0\<rparr>\<rparr>"

definition example_ipipeline :: cgpu_ipipeline where
  "example_ipipeline =
     \<lparr>pipeline = 51, pipeline_layout = 52, descriptor_pool = 53, descriptor_set = 54,
      descriptor_set_layout = 55, image_resources = [], image_resource_count = 0, shader = 1\<rparr>"

definition example_icommand_buffer :: cgpu_icommand_buffer where
  "example_icommand_buffer = \<lparr>command_buffer = 61, cb_device = 1, cb_pipeline = 1\<rparr>"

text \<open>The state after initialisation: all stores are empty.\<close>

definition initial_state :: cgpu_state where
  "initial_state =
     \<lparr>idevice_store = resource_store_create example_idevice,
      ibuffer_store = resource_store_create example_ibuffer,
      iimage_store = resource_store_create example_iimage,
      ishader_store = resource_store_create example_ishader,
      ipipeline_store = resource_store_create example_ipipeline,
      ifence_store = resource_store_create \<lparr>fence = 0\<rparr>,
      icommand_buffer_store = resource_store_create example_icommand_buffer,
      isampler_store = resource_store_create \<lparr>isampler = 0\<rparr>,
      vk_trace = []\<rparr>"

text \<open>A state in which the device with handle 1 is live.\<close>

definition device_state :: cgpu_state where
  "device_state = initial_state\<lparr>idevice_store := (idevice_store initial_state)\<lparr>high_water := 1\<rparr>\<rparr>"

definition create_image_ok :: create_image_env where
  "create_image_ok =
     \<lparr>vmaCreateImage_result = VK_SUCCESS, vma_image = 31, vma_allocation = 33,
      vma_allocation_size = 64, vkCreateImageView_result = VK_SUCCESS, vk_image_view = 32\<rparr>"

text \<open>
  A state for command recording: device 1, buffers 1 and 2, images 1 and 2, shader 1,
  pipeline 1 and command buffer 1 are live. The command buffer belongs to device 1 and has
  pipeline 1 bound, whose shader is shader 1. The image table of the pipeline is empty.
\<close>

definition live_store :: "'a \<Rightarrow> nat \<Rightarrow> 'a resource_store" where
  "live_store v n = \<lparr>slot = (\<lambda>_. v), high_water = n, free_list = []\<rparr>"

definition recording_state :: cgpu_state where
  "recording_state =
     \<lparr>idevice_store = live_store example_idevice 1,
      ibuffer_store = live_store example_ibuffer 2,
      iimage_store = slot_write (live_store example_iimage 2) 2
                       (example_iimage\<lparr>image_vk := 35, image_view := 36, image_allocation := 37\<rparr>),
      ishader_store = live_store example_ishader 1,
      ipipeline_store = live_store example_ipipeline 1,
      ifence_store = resource_store_create \<lparr>fence = 0\<rparr>,
      icommand_buffer_store = live_store example_icommand_buffer 1,
      isampler_store = resource_store_create \<lparr>isampler = 0\<rparr>,
      vk_trace = []\<rparr>"

definition example_image_barrier :: cgpu_image_memory_barrier where
  "example_image_barrier = \<lparr>imb_image = 1, imb_access_mask = CGPU_MEMORY_ACCESS_FLAG_SHADER_READ\<rparr>"

text \<open>
  States for the state tracker. The shader declares a storage buffer at binding 0, a
  sampled image at binding 1 and a storage image at binding 2. In \<open>tracking_state\<close> the
  image table of the pipeline binds image 1 at binding 1 and image 2 at binding 2; in
  \<open>aliasing_state\<close> it binds image 1 at both.
\<close>

definition tracking_reflection :: cgpu_shader_reflection where
  "tracking_reflection =
     \<lparr>resources =
        [\<lparr>refl_binding = 0, descriptor_type = VK_DESCRIPTOR_TYPE_STORAGE_BUFFER,
          write_access = True, read_access = True\<rparr>,
         \<lparr>refl_binding = 1, descriptor_type = VK_DESCRIPTOR_TYPE_SAMPLED_IMAGE,
          write_access = False, read_access = True\<rparr>,
         \<lparr>refl_binding = 2, descriptor_type = VK_DESCRIPTOR_TYPE_STORAGE_IMAGE,
          write_access = True, read_access = False\<rparr>],
      push_constants_size = 16\<rparr>"

definition tracking_shader :: cgpu_ishader where
  "tracking_shader = \<lparr>module = 41, reflection = tracking_reflection\<rparr>"

definition tracking_pipeline :: cgpu_ipipeline where
  "tracking_pipeline =
     example_ipipeline\<lparr>image_resources := [\<lparr>binding = 1, sr_image = 1\<rparr>, \<lparr>binding = 2, sr_image = 2\<rparr>],
                       image_resource_count := 2\<rparr>"

definition aliasing_pipeline :: cgpu_ipipeline where
  "aliasing_pipeline =
     example_ipipeline\<lparr>image_resources := [\<lparr>binding = 1, sr_image = 1\<rparr>, \<lparr>binding = 2, sr_image = 1\<rparr>],
                       image_resource_count := 2\<rparr>"

definition tracking_state :: cgpu_state where
  "tracking_state =
     recording_state\<lparr>ishader_store := live_store tracking_shader 1,
                     ipipeline_store := live_store tracking_pipeline 1\<rparr>"

definition aliasing_state :: cgpu_state where
  "aliasing_state =
     recording_state\<lparr>ishader_store := live_store tracking_shader 1,
                     ipipeline_store := live_store aliasing_pipeline 1\<rparr>"

text \<open>The states that one dispatch, and a second one, lead to from these.\<close>

definition tracking_state_dispatched :: cgpu_state where
  "tracking_state_dispatched =
     emit (VkCmdDispatch 61 8 8 1)
       (emit (VkCmdPipelineBarrier 61 0x800 0x800 [] []
                [\<lparr>srcAccessMask = 0, dstAccessMask = 0x20,
                  oldLayout = VK_IMAGE_LAYOUT_UNDEFINED,
                  newLayout = VK_IMAGE_LAYOUT_SHADER_READ_ONLY_OPTIMAL, barrier_image = 31\<rparr>,
                 \<lparr>srcAccessMask = 0, dstAccessMask = 0x40,
                  oldLayout = VK_IMAGE_LAYOUT_UNDEFINED,
                  newLayout = VK_IMAGE_LAYOUT_GENERAL, barrier_image = 35\<rparr>])
          (write_image 2
             (example_iimage\<lparr>image_vk := 35, image_view := 36, image_allocation := 37,
                              access_mask := 0x40, layout := VK_IMAGE_LAYOUT_GENERAL\<rparr>)
             (write_image 1
                (example_iimage\<lparr>access_mask := 0x20,
                                 layout := VK_IMAGE_LAYOUT_SHADER_READ_ONLY_OPTIMAL\<rparr>)
                tracking_state)))"

definition aliasing_state_dispatched :: cgpu_state where
  "aliasing_state_dispatched =
     emit (VkCmdDispatch 61 8 8 1)
       (emit (VkCmdPipelineBarrier 61 0x800 0x800 [] []
                [\<lparr>srcAccessMask = 0, dstAccessMask = 0x20,
                  oldLayout = VK_IMAGE_LAYOUT_UNDEFINED,
                  newLayout = VK_IMAGE_LAYOUT_SHADER_READ_ONLY_OPTIMAL, barrier_image = 31\<rparr>,
                 \<lparr>srcAccessMask = 0x20, dstAccessMask = 0x40,
                  oldLayout = VK_IMAGE_LAYOUT_SHADER_READ_ONLY_OPTIMAL,
                  newLayout = VK_IMAGE_LAYOUT_GENERAL, barrier_image = 31\<rparr>])
          (write_image 1
             (example_iimage\<lparr>access_mask := 0x40, layout := VK_IMAGE_LAYOUT_GENERAL\<rparr>)
             aliasing_state))"

definition aliasing_state_dispatched_twice :: cgpu_state where
  "aliasing_state_dispatched_twice =
     emit (VkCmdDispatch 61 8 8 1)
       (emit (VkCmdPipelineBarrier 61 0x800 0x800 [] []
                [\<lparr>srcAccessMask = 0x40, dstAccessMask = 0x20,
                  oldLayout = VK_IMAGE_LAYOUT_GENERAL,
                  newLayout = VK_IMAGE_LAYOUT_SHADER_READ_ONLY_OPTIMAL, barrier_image = 31\<rparr>,
                 \<lparr>srcAccessMask = 0x20, dstAccessMask = 0x40,
                  oldLayout = VK_IMAGE_LAYOUT_SHADER_READ_ONLY_OPTIMAL,
                  newLayout = VK_IMAGE_LAYOUT_GENERAL, barrier_image = 31\<rparr>])
          (write_image 1
             (example_iimage\<lparr>access_mask := 0x40, layout := VK_IMAGE_LAYOUT_GENERAL\<rparr>)
             aliasing_state_dispatched))"

text \<open>
  The state after copying buffer 1 to image 2 in \<open>tracking_state\<close>, and the state after a
  dispatch that follows the copy.
\<close>

definition tracking_state_copied :: cgpu_state where
  "tracking_state_copied =
     write_image 2
       (example_iimage\<lparr>image_vk := 35, image_view := 36, image_allocation := 37,
                        layout := VK_IMAGE_LAYOUT_GENERAL\<rparr>)
       (emit (VkCmdCopyBufferToImage 61 21 35 VK_IMAGE_LAYOUT_GENERAL 4 4) tracking_state)"

definition tracking_state_copied_dispatched :: cgpu_state where
  "tracking_state_copied_dispatched =
     emit (VkCmdDispatch 61 8 8 1)
       (emit (VkCmdPipelineBarrier 61 0x800 0x800 [] []
                [\<lparr>srcAccessMask = 0, dstAccessMask = 0x20,
                  oldLayout = VK_IMAGE_LAYOUT_UNDEFINED,
                  newLayout = VK_IMAGE_LAYOUT_SHADER_READ_ONLY_OPTIMAL, barrier_image = 31\<rparr>])
          (write_image 1
             (example_iimage\<lparr>access_mask := 0x20,
                              layout := VK_IMAGE_LAYOUT_SHADER_READ_ONLY_OPTIMAL\<rparr>)
             tracking_state_copied))"

text \<open>
  The state after copying buffer 1 to image 1 in \<open>aliasing_state\<close>, where the image is bound
  both to the sampled-image and to the storage-image resource, and the state after a
  dispatch that follows the copy.
\<close>

definition aliasing_state_copied :: cgpu_state where
  "aliasing_state_copied =
     write_image 1 (example_iimage\<lparr>layout := VK_IMAGE_LAYOUT_GENERAL\<rparr>)
       (emit (VkCmdCopyBufferToImage 61 21 31 VK_IMAGE_LAYOUT_GENERAL 4 4) aliasing_state)"

definition aliasing_state_copied_dispatched :: cgpu_state where
  "aliasing_state_copied_dispatched =
     emit (VkCmdDispatch 61 8 8 1)
       (emit (VkCmdPipelineBarrier 61 0x800 0x800 [] []
                [\<lparr>srcAccessMask = 0, dstAccessMask = 0x20,
                  oldLayout = VK_IMAGE_LAYOUT_GENERAL,
                  newLayout = VK_IMAGE_LAYOUT_SHADER_READ_ONLY_OPTIMAL, barrier_image = 31\<rparr>,
                 \<lparr>srcAccessMask = 0x20, dstAccessMask = 0x40,
                  oldLayout = VK_IMAGE_LAYOUT_SHADER_READ_ONLY_OPTIMAL,
                  newLayout = VK_IMAGE_LAYOUT_GENERAL, barrier_image = 31\<rparr>])
          (write_image 1
             (example_iimage\<lparr>access_mask := 0x40, layout := VK_IMAGE_LAYOUT_GENERAL\<rparr>)
             aliasing_state_copied))"

text \<open>
  Environments of the creation operations in which every native call succeeds, and a
  physical device that meets the requirements of \<^verbatim>\<open>cgpu_create_device\<close>.
\<close>

definition example_physical_device :: physical_device_info where
  "example_physical_device =
     \<lparr>pd_object = 12, apiVersion = 0x401000, supportedStages = 0x3F, supportedOperations = 0xFF,
      pd_limits = \<lparr>minStorageBufferOffsetAlignment = 16\<rparr>,
      device_extensions = [''VK_KHR_swapchain'', ''VK_EXT_descriptor_indexing''],
      queue_families = [0x7]\<rparr>"

definition create_device_ok :: create_device_env where
  "create_device_ok =
     \<lparr>phys_devices = [example_physical_device], debug_build = False,
      vkCreateDevice_result = VK_SUCCESS, vk_device = 11, vk_queue = 13,
      vkCreateCommandPool_result = VK_SUCCESS, vk_command_pool = 14,
      vkCreateSampler_result = VK_SUCCESS, vk_sampler = 16,
      vkCreateQueryPool_result = VK_SUCCESS, vk_query_pool = 15,
      vmaCreateAllocator_result = VK_SUCCESS, vma_allocator = 17\<rparr>"

definition create_pipeline_ok :: create_pipeline_env where
  "create_pipeline_ok =
     \<lparr>vkCreateDescriptorSetLayout_result = VK_SUCCESS, vk_descriptor_set_layout = 55,
      vkCreatePipelineLayout_result = VK_SUCCESS, vk_pipeline_layout = 52,
      vkCreateComputePipelines_result = VK_SUCCESS, vk_pipeline = 51,
      vkCreateDescriptorPool_result = VK_SUCCESS, vk_descriptor_pool = 53,
      vkAllocateDescriptorSets_result = VK_SUCCESS, vk_descriptor_set = 54\<rparr>"

text \<open>
  States in which device 1 and shader 1 are live and no pipeline has been created. The
  shader of \<open>two_buffers_state\<close> declares two storage buffers and one storage image and has
  16 bytes of push constants; the shader of \<open>plain_state\<close> declares one storage buffer and
  has no push constants; the shader of \<open>wide_state\<close> declares 128 storage buffers.
\<close>

definition storage_buffer_at :: "u32 \<Rightarrow> cgpu_shader_reflection_resource" where
  "storage_buffer_at b =
     \<lparr>refl_binding = b, descriptor_type = VK_DESCRIPTOR_TYPE_STORAGE_BUFFER,
      write_access = True, read_access = True\<rparr>"

definition two_buffers_reflection :: cgpu_shader_reflection where
  "two_buffers_reflection =
     \<lparr>resources =
        [storage_buffer_at 0, storage_buffer_at 1,
         \<lparr>refl_binding = 2, descriptor_type = VK_DESCRIPTOR_TYPE_STORAGE_IMAGE,
          write_access = True, read_access = False\<rparr>],
      push_constants_size = 16\<rparr>"

definition shader_state :: "cgpu_shader_reflection \<Rightarrow> cgpu_state" where
  "shader_state r =
     device_state\<lparr>ishader_store := live_store \<lparr>module = 41, reflection = r\<rparr> 1\<rparr>"

definition two_buffers_state :: cgpu_state where
  "two_buffers_state = shader_state two_buffers_reflection"

definition plain_state :: cgpu_state where
  "plain_state = shader_state \<lparr>resources = [storage_buffer_at 0], push_constants_size = 0\<rparr>"

definition wide_state :: cgpu_state where
  "wide_state =
     shader_state \<lparr>resources = replicate 128 (storage_buffer_at 0), push_constants_size = 0\<rparr>"

section \<open>Evaluation lemmas\<close>

lemmas store_defs = resource_store_create_handle_def resource_store_get_def
  resource_store_free_handle_def slot_write_def resource_store_create_def

lemmas write_defs = write_device_def free_device_def write_shader_def free_shader_def
  write_buffer_def free_buffer_def write_sampler_def free_sampler_def write_pipeline_def
  free_pipeline_def write_command_buffer_def write_fence_def free_fence_def write_image_def
  free_image_def

lemmas resolve_defs = cgpu_resolve_device_def cgpu_resolve_buffer_def cgpu_resolve_image_def
  cgpu_resolve_shader_def cgpu_resolve_pipeline_def cgpu_resolve_fence_def
  cgpu_resolve_command_buffer_def cgpu_resolve_sampler_def

lemmas example_defs = initial_state_def device_state_def example_idevice_def example_ibuffer_def
  example_iimage_def example_ishader_def example_ipipeline_def example_icommand_buffer_def
  live_store_def recording_state_def tracking_reflection_def tracking_shader_def
  tracking_pipeline_def aliasing_pipeline_def tracking_state_def aliasing_state_def
  example_physical_device_def create_device_ok_def create_pipeline_ok_def
  storage_buffer_at_def two_buffers_reflection_def shader_state_def two_buffers_state_def
  plain_state_def wide_state_def

lemmas limit_defs = MAX_PHYSICAL_DEVICES_def MAX_DEVICE_EXTENSIONS_def MAX_QUEUE_FAMILIES_def
  MAX_TIMESTAMP_QUERIES_def MAX_DESCRIPTOR_SET_LAYOUT_BINDINGS_def
  MAX_DESCRIPTOR_BUFFER_INFOS_def MAX_DESCRIPTOR_IMAGE_INFOS_def MAX_WRITE_DESCRIPTOR_SETS_def
  MAX_BUFFER_MEMORY_BARRIERS_def MAX_IMAGE_MEMORY_BARRIERS_def MAX_MEMORY_BARRIERS_def

lemmas flag_defs =
  CGPU_IMAGE_USAGE_FLAG_TRANSFER_SRC_def CGPU_IMAGE_USAGE_FLAG_TRANSFER_DST_def
  CGPU_IMAGE_USAGE_FLAG_SAMPLED_def CGPU_IMAGE_USAGE_FLAG_STORAGE_def
  VK_IMAGE_USAGE_TRANSFER_SRC_BIT_def VK_IMAGE_USAGE_TRANSFER_DST_BIT_def
  VK_IMAGE_USAGE_SAMPLED_BIT_def VK_IMAGE_USAGE_STORAGE_BIT_def
  CGPU_MEMORY_PROPERTY_FLAG_DEVICE_LOCAL_def CGPU_MEMORY_PROPERTY_FLAG_HOST_VISIBLE_def
  CGPU_MEMORY_PROPERTY_FLAG_HOST_COHERENT_def CGPU_MEMORY_PROPERTY_FLAG_HOST_CACHED_def
  VK_MEMORY_PROPERTY_DEVICE_LOCAL_BIT_def VK_MEMORY_PROPERTY_HOST_VISIBLE_BIT_def
  VK_MEMORY_PROPERTY_HOST_COHERENT_BIT_def VK_MEMORY_PROPERTY_HOST_CACHED_BIT_def

lemmas access_defs =
  CGPU_MEMORY_ACCESS_FLAG_UNIFORM_READ_def CGPU_MEMORY_ACCESS_FLAG_SHADER_READ_def
  CGPU_MEMORY_ACCESS_FLAG_SHADER_WRITE_def CGPU_MEMORY_ACCESS_FLAG_TRANSFER_READ_def
  CGPU_MEMORY_ACCESS_FLAG_TRANSFER_WRITE_def CGPU_MEMORY_ACCESS_FLAG_HOST_READ_def
  CGPU_MEMORY_ACCESS_FLAG_HOST_WRITE_def CGPU_MEMORY_ACCESS_FLAG_MEMORY_READ_def
  CGPU_MEMORY_ACCESS_FLAG_MEMORY_WRITE_def
  VK_ACCESS_UNIFORM_READ_BIT_def VK_ACCESS_SHADER_READ_BIT_def VK_ACCESS_SHADER_WRITE_BIT_def
  VK_ACCESS_TRANSFER_READ_BIT_def VK_ACCESS_TRANSFER_WRITE_BIT_def VK_ACCESS_HOST_READ_BIT_def
  VK_ACCESS_HOST_WRITE_BIT_def VK_ACCESS_MEMORY_READ_BIT_def VK_ACCESS_MEMORY_WRITE_BIT_def

lemmas device_defs = MIN_VK_API_VERSION_def VK_API_VERSION_1_1_def VK_QUEUE_COMPUTE_BIT_def
  VK_QUEUE_TRANSFER_BIT_def VK_SUBGROUP_FEATURE_BASIC_BIT_def VK_SUBGROUP_FEATURE_BALLOT_BIT_def
  VK_EXT_DESCRIPTOR_INDEXING_EXTENSION_NAME_def VK_KHR_PORTABILITY_SUBSET_EXTENSION_NAME_def
  VK_KHR_SHADER_NON_SEMANTIC_INFO_EXTENSION_NAME_def

lemma result_triple: "f = (fst f, fst (snd f), snd (snd f))"
  by simp

section \<open>Rewriting image slots\<close>

lemma find_append_cases:
  "find P (xs @ ys) = (case find P xs of None \<Rightarrow> find P ys | Some x \<Rightarrow> Some x)"
  by (induction xs) auto

lemma last_access_Nil: "last_access [] h a = a"
  by (simp add: last_access_def)

lemma last_access_Cons:
  "last_access (b # bs) h a =
     last_access bs h (if imb_image b = h then cgpu_translate_access_flags (imb_access_mask b) else a)"
  by (simp add: last_access_def find_append_cases split: option.splits)

lemma map_images_id: "map_images (\<lambda>h x. x) s = s"
  by (simp add: map_images_def)

lemma map_images_comp: "map_images f (map_images g s) = map_images (\<lambda>h x. f h (g h x)) s"
  by (simp add: map_images_def)

lemma write_image_map: "write_image h v s = map_images (\<lambda>h' x. if h' = h then v else x) s"
  by (simp add: write_image_def map_images_def slot_write_def fun_upd_def)

lemma resolve_image_map_images:
  "cgpu_resolve_image (map_images f s) h = map_option (f h) (cgpu_resolve_image s h)"
  by (simp add: cgpu_resolve_image_def map_images_def resource_store_get_def)

lemma map_images_emit: "map_images f (emit c s) = emit c (map_images f s)"
  by (simp add: map_images_def emit_def)

lemma map_images_cong: "(\<And>h. f h (slot (iimage_store s) h) = g h (slot (iimage_store s) h)) \<Longrightarrow> map_images f s = map_images g s"
  by (simp add: map_images_def)

lemma resolve_image_slot:
  "cgpu_resolve_image s h = Some img \<Longrightarrow> slot (iimage_store s) h = img"
  by (auto simp: cgpu_resolve_image_def resource_store_get_def split: if_splits)

lemma new_calls_emit_map_images [simp]:
  "new_calls s (emit c (map_images f s)) = [c]"
  by (simp add: new_calls_def emit_def map_images_def)

lemma new_calls_map_images [simp]:
  "new_calls s (map_images f s) = []"
  by (simp add: new_calls_def map_images_def)

lemma resolve_image_emit [simp]: "cgpu_resolve_image (emit c s) h = cgpu_resolve_image s h"
  by (simp add: cgpu_resolve_image_def emit_def)

section \<open>The state tracker: lemmas about the loop\<close>

lemma transition_loop_Cons_ok:
  assumes "transition_loop ip (r # rest) s bs = Some (CGPU_OK, B, s1)"
  obtains
    (skip) "required_layout (descriptor_type r) = None"
           "transition_loop ip rest s bs = Some (CGPU_OK, B, s1)"
  | (same) nl h img where
           "required_layout (descriptor_type r) = Some nl" "bound_image ip r = Some h"
           "cgpu_resolve_image s h = Some img" "layout img = nl"
           "transition_loop ip rest s bs = Some (CGPU_OK, B, s1)"
  | (trans) nl h img where
           "required_layout (descriptor_type r) = Some nl" "bound_image ip r = Some h"
           "cgpu_resolve_image s h = Some img" "layout img \<noteq> nl"
           "length bs < MAX_IMAGE_MEMORY_BARRIERS"
           "transition_loop ip rest
              (write_image h (img\<lparr>access_mask := shader_access_mask r, layout := nl\<rparr>) s)
              (bs @ [\<lparr>srcAccessMask = access_mask img, dstAccessMask = shader_access_mask r,
                      oldLayout = layout img, newLayout = nl, barrier_image = image_vk img\<rparr>])
            = Some (CGPU_OK, B, s1)"
proof (cases "required_layout (descriptor_type r)")
  case None
  then show ?thesis using assms skip by simp
next
  case (Some nl)
  from assms Some obtain res where
    f: "find_image_resource (image_resources ip) (unat (image_resource_count ip)) (refl_binding r)
          = Some (Some res)"
    by (auto split: option.splits)
  then have b: "bound_image ip r = Some (sr_image res)"
    by (simp add: bound_image_def)
  from assms Some f obtain img where i: "cgpu_resolve_image s (sr_image res) = Some img"
    by (auto split: option.splits)
  show ?thesis
  proof (cases "layout img = nl")
    case True
    then show ?thesis using assms Some f i b same by (auto simp: Let_def)
  next
    case False
    then show ?thesis using assms Some f i b trans [of nl "sr_image res" img]
      by (auto simp: Let_def split: if_splits)
  qed
qed

lemma transition_loop_prefix:
  "transition_loop ip rs s bs = Some (r, B, s1) \<Longrightarrow> \<exists>B'. B = bs @ B'"
proof (induction rs arbitrary: s bs)
  case Nil
  then show ?case by simp
next
  case (Cons a rs)
  then show ?case
    by (fastforce simp: Let_def split: option.splits if_splits)
qed


lemma slot_write_image:
  "slot (iimage_store (write_image h' v s)) x = (if x = h' then v else slot (iimage_store s) x)"
  by (simp add: write_image_def slot_write_def)

lemma first_bound_Cons:
  "first_bound ip h (r # rest) =
     (if required_layout (descriptor_type r) \<noteq> None \<and> bound_image ip r = Some h then Some r
      else first_bound ip h rest)"
  by (simp add: first_bound_def)

lemma native_image_distinct_step:
  assumes "native_image_distinct s ip h (r # rest)"
      and "\<forall>x. image_vk (slot (iimage_store s') x) = image_vk (slot (iimage_store s) x)"
  shows "native_image_distinct s' ip h rest"
  using assms by (auto simp: native_image_distinct_def)

lemma transition_loop_image:
  assumes "transition_loop ip rs s bs = Some (CGPU_OK, B, s1)"
      and "\<forall>r \<in> set rs. required_layout (descriptor_type r) \<noteq> None \<and> bound_image ip r = Some h
             \<longrightarrow> required_layout (descriptor_type r) = Some l"
  shows "\<exists>B'. B = bs @ B'
           \<and> slot (iimage_store s1) h = fst (image_transition ip h l rs (slot (iimage_store s) h))
           \<and> (native_image_distinct s ip h rs \<longrightarrow>
                barriers_for (image_vk (slot (iimage_store s) h)) B'
                  = snd (image_transition ip h l rs (slot (iimage_store s) h)))"
  using assms
proof (induction rs arbitrary: s bs)
  case Nil
  then show ?case by (simp add: image_transition_def first_bound_def barriers_for_def)
next
  case (Cons r rest)
  have cons': "\<forall>r \<in> set rest. required_layout (descriptor_type r) \<noteq> None \<and> bound_image ip r = Some h
             \<longrightarrow> required_layout (descriptor_type r) = Some l"
    using Cons.prems(2) by simp
  from Cons.prems(1) show ?case
  proof (cases rule: transition_loop_Cons_ok)
    case skip
    from Cons.IH [OF skip(2) cons'] skip(1) show ?thesis
      by (auto simp: image_transition_def first_bound_Cons native_image_distinct_def)
  next
    case (same nl h' img)
    from Cons.IH [OF same(5) cons'] obtain B' where
      B: "B = bs @ B'"
      and sl: "slot (iimage_store s1) h = fst (image_transition ip h l rest (slot (iimage_store s) h))"
      and bf: "native_image_distinct s ip h rest \<longrightarrow>
                barriers_for (image_vk (slot (iimage_store s) h)) B'
                  = snd (image_transition ip h l rest (slot (iimage_store s) h))"
      by blast
    have nid: "native_image_distinct s ip h (r # rest) \<Longrightarrow> native_image_distinct s ip h rest"
      by (simp add: native_image_distinct_def)
    show ?thesis
    proof (cases "h' = h")
      case True
      with same Cons.prems(2) have "nl = l" by auto
      with same True have "layout (slot (iimage_store s) h) = l"
        using resolve_image_slot by blast
      then show ?thesis using B sl bf nid
        by (auto simp: image_transition_def first_bound_Cons split: option.splits)
    next
      case False
      then show ?thesis using B sl bf nid same(1,2)
        by (auto simp: image_transition_def first_bound_Cons split: option.splits)
    qed
  next
    case (trans nl h' img)
    let ?img' = "img\<lparr>access_mask := shader_access_mask r, layout := nl\<rparr>"
    let ?s' = "write_image h' ?img' s"
    let ?b = "\<lparr>srcAccessMask = access_mask img, dstAccessMask = shader_access_mask r,
                      oldLayout = layout img, newLayout = nl, barrier_image = image_vk img\<rparr>"
    have img: "slot (iimage_store s) h' = img"
      using trans(3) by (rule resolve_image_slot)
    from Cons.IH [OF trans(6) cons'] obtain B' where
      B: "B = (bs @ [?b]) @ B'"
      and sl: "slot (iimage_store s1) h = fst (image_transition ip h l rest (slot (iimage_store ?s') h))"
      and bf: "native_image_distinct ?s' ip h rest \<longrightarrow>
                barriers_for (image_vk (slot (iimage_store ?s') h)) B'
                  = snd (image_transition ip h l rest (slot (iimage_store ?s') h))"
      by blast
    have vk: "\<forall>x. image_vk (slot (iimage_store ?s') x) = image_vk (slot (iimage_store s) x)"
      using img by (simp add: slot_write_image)
    have nid: "native_image_distinct s ip h (r # rest) \<Longrightarrow> native_image_distinct ?s' ip h rest"
      using native_image_distinct_step [OF _ vk] by blast
    show ?thesis
    proof (cases "h' = h")
      case True
      with trans Cons.prems(2) have nl: "nl = l" by auto
      have sl': "slot (iimage_store ?s') h = ?img'" using True by (simp add: slot_write_image)
      have it: "image_transition ip h l rest ?img' = (?img', [])"
        using nl by (simp add: image_transition_def split: option.splits)
      have fb: "first_bound ip h (r # rest) = Some r"
        using trans(1,2) True by (simp add: first_bound_Cons)
      have it0: "image_transition ip h l (r # rest) img = (?img', [?b])"
        using fb trans(4) nl by (simp add: image_transition_def)
      show ?thesis
        using B sl bf nid sl' it it0 img True
        by (intro exI [of _ "?b # B'"]) (auto simp: barriers_for_def)
    next
      case False
      have sl': "slot (iimage_store ?s') h = slot (iimage_store s) h"
        using False by (simp add: slot_write_image)
      have fb: "first_bound ip h (r # rest) = first_bound ip h rest"
        using trans(2) False by (simp add: first_bound_Cons)
      have it0: "image_transition ip h l (r # rest) = image_transition ip h l rest"
        using fb by (simp add: image_transition_def fun_eq_iff)
      have ne: "native_image_distinct s ip h (r # rest) \<Longrightarrow>
                  image_vk img \<noteq> image_vk (slot (iimage_store s) h)"
        using trans(1,2) False img by (auto simp: native_image_distinct_def)
      show ?thesis
        using B sl bf nid sl' it0 ne
        by (intro exI [of _ "?b # B'"]) (auto simp: barriers_for_def)
    qed
  qed
qed


lemma transition_loop_frame:
  "transition_loop ip rs s bs = Some (r, B, s1) \<Longrightarrow> \<exists>f. s1 = map_images f s"
proof (induction rs arbitrary: s bs)
  case Nil
  then show ?case using map_images_id [of s] by (auto intro: exI [of _ "\<lambda>h x. x"])
next
  case (Cons a rs)
  have here: "\<exists>f. s = map_images f s"
    using map_images_id [of s] by (auto intro: exI [of _ "\<lambda>h x. x"])
  have step: "\<And>h v s2. \<exists>f. s2 = map_images f (write_image h v s) \<Longrightarrow> \<exists>f. s2 = map_images f s"
    by (auto simp: write_image_map map_images_comp)
  from Cons.prems show ?case
    using here
    by (auto simp: Let_def split: option.splits if_splits dest!: Cons.IH intro: step)
qed

lemma resolve_pipeline_map_images [simp]:
  "cgpu_resolve_pipeline (map_images f s) h = cgpu_resolve_pipeline s h"
  by (simp add: cgpu_resolve_pipeline_def map_images_def)

lemma resolve_shader_map_images [simp]:
  "cgpu_resolve_shader (map_images f s) h = cgpu_resolve_shader s h"
  by (simp add: cgpu_resolve_shader_def map_images_def)

lemma resolve_device_map_images [simp]:
  "cgpu_resolve_device (map_images f s) h = cgpu_resolve_device s h"
  by (simp add: cgpu_resolve_device_def map_images_def)

lemma resolve_command_buffer_map_images [simp]:
  "cgpu_resolve_command_buffer (map_images f s) h = cgpu_resolve_command_buffer s h"
  by (simp add: cgpu_resolve_command_buffer_def map_images_def)

lemma resolve_others_emit [simp]:
  "cgpu_resolve_pipeline (emit c s) h = cgpu_resolve_pipeline s h"
  "cgpu_resolve_shader (emit c s) h = cgpu_resolve_shader s h"
  "cgpu_resolve_device (emit c s) h = cgpu_resolve_device s h"
  "cgpu_resolve_command_buffer (emit c s) h = cgpu_resolve_command_buffer s h"
  "cgpu_resolve_buffer (emit c s) h = cgpu_resolve_buffer s h"
  by (simp_all add: resolve_defs emit_def)

lemma resolve_image_valid:
  "cgpu_resolve_image s h = Some img \<Longrightarrow>
     cgpu_resolve_image (map_images f s) h = Some (slot (iimage_store (map_images f s)) h)"
  by (auto simp: cgpu_resolve_image_def resource_store_get_def map_images_def split: if_splits)

lemma transition_loop_lookups:
  assumes "transition_loop ip rs s bs = Some (CGPU_OK, B, s1)"
      and "r \<in> set rs" and "required_layout (descriptor_type r) = Some l"
  shows "\<exists>h img. bound_image ip r = Some h \<and> cgpu_resolve_image s h = Some img"
  using assms
proof (induction rs arbitrary: s bs)
  case Nil
  then show ?case by simp
next
  case (Cons a rest)
  from Cons.prems(1) show ?case
  proof (cases rule: transition_loop_Cons_ok)
    case skip
    then show ?thesis using Cons.IH [OF skip(2)] Cons.prems(2,3) by auto
  next
    case (same nl h img)
    then show ?thesis using Cons.IH [OF same(5)] Cons.prems(2,3) by auto
  next
    case (trans nl h img)
    show ?thesis
    proof (cases "r = a")
      case True
      then show ?thesis using trans by auto
    next
      case False
      then have "r \<in> set rest" using Cons.prems(2) by simp
      from Cons.IH [OF trans(6) this Cons.prems(3)] obtain h' img' where
        "bound_image ip r = Some h'"
        "cgpu_resolve_image (write_image h (img\<lparr>access_mask := shader_access_mask a, layout := nl\<rparr>) s) h'
           = Some img'" by blast
      then show ?thesis
        by (auto simp: write_image_map resolve_image_map_images)
    qed
  qed
qed

lemma transition_loop_settled:
  assumes "\<forall>r \<in> set rs. \<forall>l. required_layout (descriptor_type r) = Some l \<longrightarrow>
             (\<exists>h img. bound_image ip r = Some h \<and> cgpu_resolve_image s h = Some img \<and> layout img = l)"
  shows "transition_loop ip rs s bs = Some (CGPU_OK, bs, s)"
  using assms
proof (induction rs)
  case Nil
  then show ?case by simp
next
  case (Cons r rest)
  then have ih: "transition_loop ip rest s bs = Some (CGPU_OK, bs, s)" by simp
  show ?case
  proof (cases "required_layout (descriptor_type r)")
    case None
    then show ?thesis using ih by simp
  next
    case (Some l)
    with Cons.prems obtain h img where
      "bound_image ip r = Some h" "cgpu_resolve_image s h = Some img" "layout img = l"
      by auto
    then show ?thesis using Some ih
      by (auto simp: bound_image_def Let_def split: option.splits)
  qed
qed


lemma first_bound_Nil [simp]: "first_bound ip h [] = None"
  by (simp add: first_bound_def)

lemma first_bound_Some:
  "first_bound ip h rs = Some r' \<Longrightarrow>
     r' \<in> set rs \<and> bound_image ip r' = Some h \<and> required_layout (descriptor_type r') \<noteq> None"
  by (induction rs) (auto simp: first_bound_Cons split: if_splits)

lemma first_bound_None:
  "first_bound ip h rs = None \<Longrightarrow> r \<in> set rs \<Longrightarrow> required_layout (descriptor_type r) = Some l
     \<Longrightarrow> bound_image ip r \<noteq> Some h"
  by (induction rs) (auto simp: first_bound_Cons split: if_splits)

lemma first_bound_member:
  assumes "r \<in> set rs" "required_layout (descriptor_type r) = Some l" "bound_image ip r = Some h"
  shows "\<exists>r' \<in> set rs. first_bound ip h rs = Some r' \<and> bound_image ip r' = Some h
           \<and> required_layout (descriptor_type r') \<noteq> None"
proof (cases "first_bound ip h rs")
  case None
  then show ?thesis using assms first_bound_None by blast
next
  case (Some r')
  then show ?thesis using first_bound_Some by blast
qed

lemma image_transition_cases:
  assumes "first_bound ip h rs = Some r'"
  shows "layout (fst (image_transition ip h l rs img)) = l"
    and "layout img = l \<Longrightarrow> image_transition ip h l rs img = (img, [])"
    and "layout img \<noteq> l \<Longrightarrow> image_transition ip h l rs img
           = (img\<lparr>access_mask := shader_access_mask r', layout := l\<rparr>,
              [\<lparr>srcAccessMask = access_mask img, dstAccessMask = shader_access_mask r',
                oldLayout = layout img, newLayout = l, barrier_image = image_vk img\<rparr>])"
  using assms by (auto simp: image_transition_def)

lemma consistent_for:
  assumes "layouts_consistent ip rs" "r \<in> set rs" "required_layout (descriptor_type r) = Some l"
          "bound_image ip r = Some h"
  shows "\<forall>r' \<in> set rs. required_layout (descriptor_type r') \<noteq> None \<and> bound_image ip r' = Some h
             \<longrightarrow> required_layout (descriptor_type r') = Some l"
  using assms unfolding layouts_consistent_def by (metis option.distinct(1))

lemma dispatch_unfold:
  assumes "cgpu_cmd_dispatch s cb x y z = Some (CGPU_OK, s1)"
      and "cgpu_resolve_command_buffer s cb = Some icb"
      and "cgpu_resolve_pipeline s (cb_pipeline icb) = Some ip"
      and "cgpu_resolve_shader s (shader ip) = Some ish"
  obtains B sl where
      "transition_loop ip (resources (reflection ish)) s [] = Some (CGPU_OK, B, sl)"
      "s1 = emit (VkCmdDispatch (command_buffer icb) x y z)
              (if B = [] then sl
               else emit (VkCmdPipelineBarrier (command_buffer icb)
                            VK_PIPELINE_STAGE_COMPUTE_SHADER_BIT VK_PIPELINE_STAGE_COMPUTE_SHADER_BIT
                            [] [] B) sl)"
      "cgpu_resolve_device s (cb_device icb) \<noteq> None"
  using assms
  by (auto simp: cgpu_cmd_dispatch_def cgpu_transition_image_layouts_for_shader_def
        split: option.splits if_splits)

text \<open>Evaluation of the table lookup when the count is a numeral.\<close>

lemma find_image_resource_numeral:
  "find_image_resource (r # rs) (numeral k) b =
     (if binding r = b then Some (Some r) else find_image_resource rs (pred_numeral k) b)"
  "find_image_resource [] (numeral k) b = None"
  "find_image_resource (r # rs) 1 b =
     (if binding r = b then Some (Some r) else find_image_resource rs 0 b)"
  "find_image_resource [] 1 b = None"
  by (simp_all add: numeral_eq_Suc)

section \<open>Pipeline creation: lemmas\<close>

lemma cgpu_create_pipeline_ok_calls:
  assumes "cgpu_create_pipeline env s device sh entry = (CGPU_OK, p, s')"
      and "cgpu_resolve_shader s sh = Some ishader"
  shows "\<exists>d bl li ci info dp dl counts.
           new_calls s s'
             = [VkCreateDescriptorSetLayout d bl, VkCreatePipelineLayout d li,
                VkCreateComputePipelines d ci, VkCreateDescriptorPool d info,
                VkAllocateDescriptorSets d dp dl]
         \<and> bl = map layout_binding_of (resources (reflection ishader))
         \<and> pushConstantRangeCount li
             = (if push_constants_size (reflection ishader) \<noteq> 0 then 1 else 0)
         \<and> pPushConstantRanges li
             = \<lparr>pcr_stageFlags = VK_SHADER_STAGE_COMPUTE_BIT, pcr_offset = 0,
                pcr_size = push_constants_size (reflection ishader)\<rparr>
         \<and> info = \<lparr>maxSets = 1, poolSizeCount = of_nat (length (pool_sizes_of counts)),
                    pPoolSizes = pool_sizes_of counts\<rparr>
         \<and> tally_descriptor_types (resources (reflection ishader)) no_descriptors = Some counts
         \<and> length (resources (reflection ishader)) < MAX_DESCRIPTOR_SET_LAYOUT_BINDINGS"
  using assms
  by (auto simp: cgpu_create_pipeline_def Let_def new_calls_def emit_def write_pipeline_def
        free_pipeline_def slot_write_def
        split: option.splits prod.splits if_splits)

lemma tally_descriptor_types_counts:
  "tally_descriptor_types rs c = Some c' \<Longrightarrow>
     buffer_count c' = buffer_count c + of_nat (count_type VK_DESCRIPTOR_TYPE_STORAGE_BUFFER rs)
   \<and> storage_image_count c'
       = storage_image_count c + of_nat (count_type VK_DESCRIPTOR_TYPE_STORAGE_IMAGE rs)
   \<and> sampled_image_count c'
       = sampled_image_count c + of_nat (count_type VK_DESCRIPTOR_TYPE_SAMPLED_IMAGE rs)
   \<and> combined_image_sampler_count c'
       = combined_image_sampler_count c
         + of_nat (count_type VK_DESCRIPTOR_TYPE_COMBINED_IMAGE_SAMPLER rs)
   \<and> sampler_count c' = sampler_count c + of_nat (count_type VK_DESCRIPTOR_TYPE_SAMPLER rs)
   \<and> (\<forall>r \<in> set rs. descriptor_type r \<in>
          {VK_DESCRIPTOR_TYPE_STORAGE_BUFFER, VK_DESCRIPTOR_TYPE_STORAGE_IMAGE,
           VK_DESCRIPTOR_TYPE_SAMPLED_IMAGE, VK_DESCRIPTOR_TYPE_COMBINED_IMAGE_SAMPLER,
           VK_DESCRIPTOR_TYPE_SAMPLER})"
proof (induction rs arbitrary: c)
  case Nil
  then show ?case by (simp add: count_type_def)
next
  case (Cons r rs)
  show ?case
  proof (cases "descriptor_type r")
    case VK_DESCRIPTOR_TYPE_STORAGE_BUFFER
    with Cons.prems have "tally_descriptor_types rs (c\<lparr>buffer_count := buffer_count c + 1\<rparr>) = Some c'"
      by simp
    from Cons.IH [OF this] VK_DESCRIPTOR_TYPE_STORAGE_BUFFER show ?thesis
      by (simp add: count_type_def)
  next
    case VK_DESCRIPTOR_TYPE_STORAGE_IMAGE
    with Cons.prems have
      "tally_descriptor_types rs (c\<lparr>storage_image_count := storage_image_count c + 1\<rparr>) = Some c'"
      by simp
    from Cons.IH [OF this] VK_DESCRIPTOR_TYPE_STORAGE_IMAGE show ?thesis
      by (simp add: count_type_def)
  next
    case VK_DESCRIPTOR_TYPE_SAMPLED_IMAGE
    with Cons.prems have
      "tally_descriptor_types rs (c\<lparr>sampled_image_count := sampled_image_count c + 1\<rparr>) = Some c'"
      by simp
    from Cons.IH [OF this] VK_DESCRIPTOR_TYPE_SAMPLED_IMAGE show ?thesis
      by (simp add: count_type_def)
  next
    case VK_DESCRIPTOR_TYPE_COMBINED_IMAGE_SAMPLER
    with Cons.prems have
      "tally_descriptor_types rs
         (c\<lparr>combined_image_sampler_count := combined_image_sampler_count c + 1\<rparr>) = Some c'"
      by simp
    from Cons.IH [OF this] VK_DESCRIPTOR_TYPE_COMBINED_IMAGE_SAMPLER show ?thesis
      by (simp add: count_type_def)
  next
    case VK_DESCRIPTOR_TYPE_SAMPLER
    with Cons.prems have
      "tally_descriptor_types rs (c\<lparr>sampler_count := sampler_count c + 1\<rparr>) = Some c'"
      by simp
    from Cons.IH [OF this] VK_DESCRIPTOR_TYPE_SAMPLER show ?thesis
      by (simp add: count_type_def)
  qed (use Cons.prems in simp_all)
qed

lemma pool_sizes_of_member:
  "\<lparr>ps_type = t, ps_descriptorCount = n\<rparr> \<in> set (pool_sizes_of c) \<longleftrightarrow>
     0 < n \<and> (t = VK_DESCRIPTOR_TYPE_STORAGE_BUFFER \<and> n = buffer_count c
             \<or> t = VK_DESCRIPTOR_TYPE_STORAGE_IMAGE \<and> n = storage_image_count c
             \<or> t = VK_DESCRIPTOR_TYPE_SAMPLED_IMAGE \<and> n = sampled_image_count c
             \<or> t = VK_DESCRIPTOR_TYPE_COMBINED_IMAGE_SAMPLER \<and> n = combined_image_sampler_count c
             \<or> t = VK_DESCRIPTOR_TYPE_SAMPLER \<and> n = sampler_count c)"
  by (auto simp: pool_sizes_of_def Let_def)

lemma pool_sizes_of_distinct: "distinct (map ps_type (pool_sizes_of c))"
  by (simp add: pool_sizes_of_def Let_def)

lemma count_type_le: "count_type t rs \<le> length rs"
  by (simp add: count_type_def)

lemma unat_count:
  assumes "length rs < MAX_DESCRIPTOR_SET_LAYOUT_BINDINGS"
  shows "unat (of_nat (count_type t rs) :: u32) = count_type t rs"
proof -
  have "count_type t rs < 128"
    using assms count_type_le [of t rs] by (simp add: MAX_DESCRIPTOR_SET_LAYOUT_BINDINGS_def)
  then show ?thesis by (simp add: unat_of_nat)
qed

lemma count_type_other:
  assumes "\<forall>r \<in> set rs. descriptor_type r \<in> T" "t \<notin> T"
  shows "count_type t rs = 0"
  using assms by (auto simp: count_type_def filter_empty_conv)

text \<open>
  Pipeline creation succeeds whenever the handles resolve, the new handle resolves, the
  shader declares fewer resources than the layout has room for, all of a supported
  descriptor type, and every native call succeeds; whether the shader has push constants
  plays no part.
\<close>

lemma cgpu_create_pipeline_succeeds:
  assumes "cgpu_resolve_device s device = Some idevice"
      and "cgpu_resolve_shader s sh = Some ishader"
      and "cgpu_resolve_pipeline
             (s\<lparr>ipipeline_store := snd (resource_store_create_handle (ipipeline_store s))\<rparr>)
             (fst (resource_store_create_handle (ipipeline_store s))) = Some ipipeline"
      and "length (resources (reflection ishader)) < MAX_DESCRIPTOR_SET_LAYOUT_BINDINGS"
      and "tally_descriptor_types (resources (reflection ishader)) no_descriptors = Some counts"
      and "vkCreateDescriptorSetLayout_result env = VK_SUCCESS"
      and "vkCreatePipelineLayout_result env = VK_SUCCESS"
      and "vkCreateComputePipelines_result env = VK_SUCCESS"
      and "vkCreateDescriptorPool_result env = VK_SUCCESS"
      and "vkAllocateDescriptorSets_result env = VK_SUCCESS"
  shows "fst (cgpu_create_pipeline env s device sh entry) = CGPU_OK"
  using assms
  by (auto simp: cgpu_create_pipeline_def Let_def split: prod.splits)

section \<open>The image table of a pipeline (C1)\<close>

text \<open>
  \<^verbatim>\<open>cgpu_update_resources\<close> reads the pipeline only for its descriptor set; no branch
  writes to the pipeline store, so the cached image table is the same before and after.
\<close>

lemma cgpu_update_resources_pipeline_store:
  "cgpu_update_resources s device p bs is = Some (r, s') \<Longrightarrow> ipipeline_store s' = ipipeline_store s"
  by (auto simp: cgpu_update_resources_def emit_def split: option.splits step.splits)

text \<open>
  C1 asks that after a successful call the cached image table of the pipeline equals the
  image bindings passed in. Evaluated on a pipeline whose table is empty, with one image
  binding: the call succeeds, issues the descriptor write for the binding, and the table
  still has no entry.
\<close>

theorem cgpu_update_resources_image_table_not_written:
  "map_option fst (cgpu_update_resources recording_state 1 1 [] [\<lparr>binding = 0, sr_image = 1\<rparr>])
     = Some CGPU_OK
   \<and> map_option (\<lambda>(r, s'). new_calls recording_state s')
        (cgpu_update_resources recording_state 1 1 [] [\<lparr>binding = 0, sr_image = 1\<rparr>])
     = Some [VkUpdateDescriptorSets 11
               [\<lparr>dstSet = 54, dstBinding = 0, dstArrayElement = 0, descriptorCount = 1,
                 descriptorType = VK_DESCRIPTOR_TYPE_STORAGE_IMAGE,
                 pInfo = ImageInfo 16 32 VK_IMAGE_LAYOUT_GENERAL\<rparr>]]
   \<and> map_option
        (\<lambda>(r, s'). map_option (\<lambda>ipipeline. (image_resource_count ipipeline,
                       take (unat (image_resource_count ipipeline)) (image_resources ipipeline)))
                     (cgpu_resolve_pipeline s' 1))
        (cgpu_update_resources recording_state 1 1 [] [\<lparr>binding = 0, sr_image = 1\<rparr>])
     = Some (Some (0, []))"
  by (simp add: cgpu_update_resources_def resolve_defs store_defs example_defs emit_def
        new_calls_def limit_defs)

section \<open>Handles of failed creation calls (C2)\<close>

text \<open>
  C2 asks that no failed creation call leaves its handle resolvable. Evaluated at two
  failure branches that return without freeing the handle: \<^verbatim>\<open>cgpu_create_command_buffer\<close>
  when the native allocation of the command buffer fails, and \<^verbatim>\<open>cgpu_create_pipeline\<close>
  when the shader declares 128 resources. In both the call returns its error code and
  the handle it has written to the caller still resolves.
\<close>

theorem create_failure_leaves_handle_resolvable:
  "fst (cgpu_create_command_buffer \<lparr>vkAllocateCommandBuffers_result = - 1, vk_command_buffer = 0\<rparr>
          device_state 1)
     = CGPU_FAIL_UNABLE_TO_ALLOCATE_COMMAND_BUFFER
   \<and> fst (snd (cgpu_create_command_buffer
                  \<lparr>vkAllocateCommandBuffers_result = - 1, vk_command_buffer = 0\<rparr> device_state 1))
     = Some 1
   \<and> cgpu_resolve_command_buffer
        (snd (snd (cgpu_create_command_buffer
                     \<lparr>vkAllocateCommandBuffers_result = - 1, vk_command_buffer = 0\<rparr>
                     device_state 1))) 1
     = Some \<lparr>command_buffer = 61, cb_device = 1, cb_pipeline = CGPU_INVALID_HANDLE\<rparr>
   \<and> fst (cgpu_create_pipeline create_pipeline_ok wide_state 1 1 ''main'')
     = CGPU_FAIL_UNABLE_TO_CREATE_DESCRIPTOR_LAYOUT
   \<and> fst (snd (cgpu_create_pipeline create_pipeline_ok wide_state 1 1 ''main'')) = Some 1
   \<and> cgpu_resolve_pipeline
        (snd (snd (cgpu_create_pipeline create_pipeline_ok wide_state 1 1 ''main''))) 1
     = Some example_ipipeline"
  by (simp add: cgpu_create_command_buffer_def cgpu_create_pipeline_def resolve_defs store_defs
        example_defs limit_defs VK_SUCCESS_def write_defs emit_def CGPU_INVALID_HANDLE_def
        Let_def)

section \<open>Layout tracking at dispatch (C3)\<close>

text \<open>
  C3, as the code has it. Let a dispatch succeed, and let no image be bound to two
  reflected image resources that need different layouts. Then for each image resource
  \<open>r\<close> that the reflection of the active shader declares, needing layout \<open>l\<close>: the image
  table of the pipeline binds a live image to \<open>r\<close>; the dispatch records at most one
  barrier command, before the dispatch command; after the dispatch the tracked record of
  the image is the one \<open>image_transition\<close> gives, and (native images of different bound
  images being different) the barriers recorded for the image are the ones
  \<open>image_transition\<close> gives: if the tracked layout was \<open>l\<close>, the record is unchanged and
  there is no barrier for the image; otherwise the tracked layout is \<open>l\<close>, the tracked
  access mask is that of the first resource bound to the image, and there is exactly one
  barrier for the image, from the old layout and access mask to the new ones. A dispatch
  repeated at once succeeds and records the dispatch command only.
\<close>

theorem cgpu_cmd_dispatch_layout_tracking:
  assumes d: "cgpu_cmd_dispatch s cb x y z = Some (CGPU_OK, s1)"
      and icb: "cgpu_resolve_command_buffer s cb = Some icb"
      and ip: "cgpu_resolve_pipeline s (cb_pipeline icb) = Some ip"
      and ish: "cgpu_resolve_shader s (shader ip) = Some ish"
      and cons: "layouts_consistent ip (resources (reflection ish))"
      and r: "r \<in> set (resources (reflection ish))"
      and l: "required_layout (descriptor_type r) = Some l"
  shows "\<exists>h img B.
           bound_image ip r = Some h \<and> cgpu_resolve_image s h = Some img
         \<and> new_calls s s1
             = (if B = [] then []
                else [VkCmdPipelineBarrier (command_buffer icb)
                        VK_PIPELINE_STAGE_COMPUTE_SHADER_BIT VK_PIPELINE_STAGE_COMPUTE_SHADER_BIT
                        [] [] B])
               @ [VkCmdDispatch (command_buffer icb) x y z]
         \<and> cgpu_resolve_image s1 h
             = Some (fst (image_transition ip h l (resources (reflection ish)) img))
         \<and> (native_image_distinct s ip h (resources (reflection ish)) \<longrightarrow>
              barriers_for (image_vk img) B
                = snd (image_transition ip h l (resources (reflection ish)) img))
         \<and> (layout img = l \<longrightarrow>
              image_transition ip h l (resources (reflection ish)) img = (img, []))
         \<and> (layout img \<noteq> l \<longrightarrow>
              (\<exists>r' \<in> set (resources (reflection ish)). bound_image ip r' = Some h
                 \<and> image_transition ip h l (resources (reflection ish)) img
                   = (img\<lparr>access_mask := shader_access_mask r', layout := l\<rparr>,
                      [\<lparr>srcAccessMask = access_mask img, dstAccessMask = shader_access_mask r',
                        oldLayout = layout img, newLayout = l, barrier_image = image_vk img\<rparr>])))
         \<and> cgpu_cmd_dispatch s1 cb x y z
             = Some (CGPU_OK, emit (VkCmdDispatch (command_buffer icb) x y z) s1)"
proof -
  let ?rs = "resources (reflection ish)"
  let ?D = "VkCmdDispatch (command_buffer icb) x y z"
  from d icb ip ish obtain B sl where
    loop: "transition_loop ip ?rs s [] = Some (CGPU_OK, B, sl)"
    and s1: "s1 = emit ?D
              (if B = [] then sl
               else emit (VkCmdPipelineBarrier (command_buffer icb)
                            VK_PIPELINE_STAGE_COMPUTE_SHADER_BIT VK_PIPELINE_STAGE_COMPUTE_SHADER_BIT
                            [] [] B) sl)"
    and dev: "cgpu_resolve_device s (cb_device icb) \<noteq> None"
    by (rule dispatch_unfold)
  from transition_loop_frame [OF loop] obtain f where sl: "sl = map_images f s" by blast
  have res1: "\<And>h. cgpu_resolve_image s1 h = cgpu_resolve_image sl h"
    unfolding s1 by simp
  have settled: "\<exists>h img. bound_image ip r' = Some h \<and> cgpu_resolve_image s h = Some img
           \<and> cgpu_resolve_image s1 h = Some (fst (image_transition ip h l' ?rs img))
           \<and> (native_image_distinct s ip h ?rs \<longrightarrow>
                barriers_for (image_vk img) B = snd (image_transition ip h l' ?rs img))
           \<and> (\<exists>r'' \<in> set ?rs. first_bound ip h ?rs = Some r'' \<and> bound_image ip r'' = Some h)"
    if r': "r' \<in> set ?rs" and l': "required_layout (descriptor_type r') = Some l'" for r' l'
  proof -
    from transition_loop_lookups [OF loop r' l'] obtain h img where
      b: "bound_image ip r' = Some h" and i: "cgpu_resolve_image s h = Some img" by blast
    have sl0: "slot (iimage_store s) h = img" using i by (rule resolve_image_slot)
    from transition_loop_image [OF loop consistent_for [OF cons r' l' b]] sl0 have
      t: "slot (iimage_store sl) h = fst (image_transition ip h l' ?rs img)"
      and bf: "native_image_distinct s ip h ?rs \<longrightarrow>
                barriers_for (image_vk img) B = snd (image_transition ip h l' ?rs img)"
      by auto
    have "cgpu_resolve_image s1 h = Some (fst (image_transition ip h l' ?rs img))"
      using resolve_image_valid [OF i, of f] t res1 sl by simp
    moreover from first_bound_member [OF r' l' b]
    have "\<exists>r'' \<in> set ?rs. first_bound ip h ?rs = Some r'' \<and> bound_image ip r'' = Some h"
      by blast
    ultimately show ?thesis using b i bf by blast
  qed
  have again: "transition_loop ip ?rs s1 [] = Some (CGPU_OK, [], s1)"
  proof (rule transition_loop_settled, intro ballI allI impI)
    fix r' l' assume "r' \<in> set ?rs" "required_layout (descriptor_type r') = Some l'"
    from settled [OF this] obtain h img r'' where
      "bound_image ip r' = Some h"
      "cgpu_resolve_image s1 h = Some (fst (image_transition ip h l' ?rs img))"
      "first_bound ip h ?rs = Some r''" by blast
    then show "\<exists>h img. bound_image ip r' = Some h \<and> cgpu_resolve_image s1 h = Some img
                 \<and> layout img = l'"
      using image_transition_cases(1) by blast
  qed
  have idem: "cgpu_cmd_dispatch s1 cb x y z = Some (CGPU_OK, emit ?D s1)"
    using again icb ip ish dev unfolding s1 sl
    by (auto simp: cgpu_cmd_dispatch_def cgpu_transition_image_layouts_for_shader_def)
  have calls: "new_calls s s1
             = (if B = [] then []
                else [VkCmdPipelineBarrier (command_buffer icb)
                        VK_PIPELINE_STAGE_COMPUTE_SHADER_BIT VK_PIPELINE_STAGE_COMPUTE_SHADER_BIT
                        [] [] B]) @ [?D]"
    unfolding s1 sl by (simp add: new_calls_def emit_def map_images_def)
  from settled [OF r l] obtain h img r'' where
    h: "bound_image ip r = Some h" "cgpu_resolve_image s h = Some img"
       "cgpu_resolve_image s1 h = Some (fst (image_transition ip h l ?rs img))"
       "native_image_distinct s ip h ?rs \<longrightarrow>
                barriers_for (image_vk img) B = snd (image_transition ip h l ?rs img)"
    and fb: "r'' \<in> set ?rs" "first_bound ip h ?rs = Some r''" "bound_image ip r'' = Some h"
    by blast
  show ?thesis
    using h fb calls idem image_transition_cases(2,3) [OF fb(2), of img l]
    by (intro exI [of _ h] exI [of _ img] exI [of _ B]) auto
qed

theorem cgpu_cmd_dispatch_layout_tracking_witness:
  "cgpu_cmd_dispatch tracking_state 1 8 8 1 = Some (CGPU_OK, tracking_state_dispatched)
   \<and> layouts_consistent tracking_pipeline (resources tracking_reflection)
   \<and> cgpu_cmd_dispatch tracking_state_dispatched 1 8 8 1
       = Some (CGPU_OK, emit (VkCmdDispatch 61 8 8 1) tracking_state_dispatched)"
proof -
  have d: "cgpu_cmd_dispatch tracking_state 1 8 8 1 = Some (CGPU_OK, tracking_state_dispatched)"
    by (simp add: cgpu_cmd_dispatch_def cgpu_transition_image_layouts_for_shader_def
          resolve_defs store_defs example_defs tracking_state_dispatched_def required_layout_def
          shader_access_mask_def limit_defs write_image_def emit_def find_image_resource_numeral
          VK_ACCESS_SHADER_READ_BIT_def VK_ACCESS_SHADER_WRITE_BIT_def
          VK_PIPELINE_STAGE_COMPUTE_SHADER_BIT_def)
  have icb: "cgpu_resolve_command_buffer tracking_state 1 = Some example_icommand_buffer"
    by (simp add: resolve_defs store_defs example_defs)
  have ip: "cgpu_resolve_pipeline tracking_state (cb_pipeline example_icommand_buffer)
              = Some tracking_pipeline"
    by (simp add: resolve_defs store_defs example_defs)
  have ish: "cgpu_resolve_shader tracking_state (shader tracking_pipeline) = Some tracking_shader"
    by (simp add: resolve_defs store_defs example_defs)
  have cons: "layouts_consistent tracking_pipeline (resources (reflection tracking_shader))"
    by (simp add: layouts_consistent_def bound_image_def required_layout_def example_defs
          find_image_resource_numeral)
  have r: "\<lparr>refl_binding = 1, descriptor_type = VK_DESCRIPTOR_TYPE_SAMPLED_IMAGE,
            write_access = False, read_access = True\<rparr>
             \<in> set (resources (reflection tracking_shader))"
    by (simp add: example_defs)
  have l: "required_layout (descriptor_type
             \<lparr>refl_binding = 1, descriptor_type = VK_DESCRIPTOR_TYPE_SAMPLED_IMAGE,
              write_access = False, read_access = True\<rparr>)
             = Some VK_IMAGE_LAYOUT_SHADER_READ_ONLY_OPTIMAL"
    by (simp add: required_layout_def)
  from cgpu_cmd_dispatch_layout_tracking [OF d icb ip ish cons r l]
  have "cgpu_cmd_dispatch tracking_state_dispatched 1 8 8 1
          = Some (CGPU_OK, emit (VkCmdDispatch (command_buffer example_icommand_buffer) 8 8 1)
                    tracking_state_dispatched)"
    by blast
  then show ?thesis using d cons by (simp add: example_defs)
qed

text \<open>
  The claim as written fails when one image is bound to a sampled-image resource and to a
  storage-image resource: the first dispatch records two barriers for the one image and
  leaves it in general layout, and the dispatch repeated at once records two barriers
  again.
\<close>

theorem cgpu_cmd_dispatch_layout_tracking_counterexample:
  "cgpu_cmd_dispatch aliasing_state 1 8 8 1 = Some (CGPU_OK, aliasing_state_dispatched)
   \<and> cgpu_cmd_dispatch aliasing_state_dispatched 1 8 8 1
       = Some (CGPU_OK, aliasing_state_dispatched_twice)
   \<and> new_calls aliasing_state_dispatched aliasing_state_dispatched_twice
       = [VkCmdPipelineBarrier 61 0x800 0x800 [] []
            [\<lparr>srcAccessMask = 0x40, dstAccessMask = 0x20,
              oldLayout = VK_IMAGE_LAYOUT_GENERAL,
              newLayout = VK_IMAGE_LAYOUT_SHADER_READ_ONLY_OPTIMAL, barrier_image = 31\<rparr>,
             \<lparr>srcAccessMask = 0x20, dstAccessMask = 0x40,
              oldLayout = VK_IMAGE_LAYOUT_SHADER_READ_ONLY_OPTIMAL,
              newLayout = VK_IMAGE_LAYOUT_GENERAL, barrier_image = 31\<rparr>],
          VkCmdDispatch 61 8 8 1]"
  by (simp add: cgpu_cmd_dispatch_def cgpu_transition_image_layouts_for_shader_def
        resolve_defs store_defs example_defs aliasing_state_dispatched_def
        aliasing_state_dispatched_twice_def required_layout_def
        shader_access_mask_def limit_defs write_image_def emit_def find_image_resource_numeral new_calls_def
        VK_ACCESS_SHADER_READ_BIT_def VK_ACCESS_SHADER_WRITE_BIT_def
        VK_PIPELINE_STAGE_COMPUTE_SHADER_BIT_def)

section \<open>Alignment of buffer offsets (C4)\<close>

lemma update_buffer_resources_aligned:
  assumes "\<forall>b \<in> set bs. cgpu_resolve_buffer s (sr_buffer b) \<noteq> None"
      and "minStorageBufferOffsetAlignment (limits idevice) \<noteq> 0"
      and "i + length bs \<le> MAX_DESCRIPTOR_BUFFER_INFOS"
      and "n + length bs \<le> MAX_WRITE_DESCRIPTOR_SETS"
  shows "if \<exists>b \<in> set bs. sr_offset b mod minStorageBufferOffsetAlignment (limits idevice) \<noteq> 0
         then update_buffer_resources s idevice ipipeline i n bs
                = Return CGPU_FAIL_BUFFER_OFFSET_NOT_ALIGNED
         else \<exists>ws. update_buffer_resources s idevice ipipeline i n bs = Continue ws
                \<and> length ws = length bs"
  using assms
proof (induction bs arbitrary: i n)
  case Nil
  then show ?case by simp
next
  case (Cons b bs)
  obtain ibuffer where rb: "cgpu_resolve_buffer s (sr_buffer b) = Some ibuffer"
    using Cons.prems(1) by auto
  have bounds: "\<not> MAX_DESCRIPTOR_BUFFER_INFOS \<le> i" "\<not> MAX_WRITE_DESCRIPTOR_SETS \<le> n"
    using Cons.prems(3,4) by auto
  have ih:
    "if \<exists>b \<in> set bs. sr_offset b mod minStorageBufferOffsetAlignment (limits idevice) \<noteq> 0
     then update_buffer_resources s idevice ipipeline (Suc i) (Suc n) bs
            = Return CGPU_FAIL_BUFFER_OFFSET_NOT_ALIGNED
     else \<exists>ws. update_buffer_resources s idevice ipipeline (Suc i) (Suc n) bs = Continue ws
            \<and> length ws = length bs"
    using Cons.prems by (intro Cons.IH) auto
  show ?case
  proof (cases "sr_offset b mod minStorageBufferOffsetAlignment (limits idevice) \<noteq> 0")
    case True
    then show ?thesis using rb Cons.prems(2) by simp
  next
    case False
    then show ?thesis using rb Cons.prems(2) bounds ih
      by (auto simp: Let_def split: if_splits)
  qed
qed

lemma update_image_resources_not_alignment:
  "update_image_resources s idevice ipipeline i n is \<noteq> Return CGPU_FAIL_BUFFER_OFFSET_NOT_ALIGNED"
  by (induction "is" arbitrary: i n) (auto simp: Let_def split: option.splits step.splits)

lemma cgpu_update_resources_error_state:
  "cgpu_update_resources s device p bs is = Some (r, s') \<Longrightarrow> r \<noteq> CGPU_OK \<Longrightarrow> s' = s"
  by (auto simp: cgpu_update_resources_def split: option.splits step.splits)

lemma word_pred_mod: "1 < (a::u64) \<Longrightarrow> (a - 1) mod a \<noteq> 0"
  by (metis eq_iff_diff_eq_0 linorder_le_less_linear mod_word_less
    order_less_imp_not_less sub_wrap zero_neq_one)

text \<open>
  C4, as the code has it. The check of an offset comes after the resolution of the device,
  of the pipeline and of the buffer of the same and of every earlier binding, which fail
  with the invalid-handle code. So: when the device, the pipeline and every buffer of the
  list resolve (the alignment being nonzero and the list within the 64 buffer infos),
  \<^verbatim>\<open>cgpu_update_resources\<close> fails with the alignment code exactly when some binding of the
  list has an offset that is not a multiple of the alignment; a failing call leaves the
  state as it was and issues no descriptor write; a single binding at offset
  \<open>alignment - 1\<close> fails when the alignment is greater than one, and a single binding at
  offset \<open>alignment\<close> succeeds.
\<close>

theorem cgpu_update_resources_alignment:
  assumes dev: "cgpu_resolve_device s device = Some idevice"
      and pip: "cgpu_resolve_pipeline s p = Some ipipeline"
      and bufs: "\<forall>b \<in> set bs. cgpu_resolve_buffer s (sr_buffer b) \<noteq> None"
      and al: "minStorageBufferOffsetAlignment (limits idevice) \<noteq> 0"
      and len: "length bs \<le> MAX_DESCRIPTOR_BUFFER_INFOS"
  shows "(cgpu_update_resources s device p bs is = Some (CGPU_FAIL_BUFFER_OFFSET_NOT_ALIGNED, s)
            \<longleftrightarrow> (\<exists>b \<in> set bs. sr_offset b mod minStorageBufferOffsetAlignment (limits idevice) \<noteq> 0))
       \<and> (\<forall>r s'. cgpu_update_resources s device p bs is = Some (r, s') \<longrightarrow> r \<noteq> CGPU_OK \<longrightarrow> s' = s)
       \<and> (bs = [b] \<and> 1 < minStorageBufferOffsetAlignment (limits idevice)
            \<and> sr_offset b = minStorageBufferOffsetAlignment (limits idevice) - 1
          \<longrightarrow> cgpu_update_resources s device p bs is = Some (CGPU_FAIL_BUFFER_OFFSET_NOT_ALIGNED, s))
       \<and> (bs = [b] \<and> is = [] \<and> sr_offset b = minStorageBufferOffsetAlignment (limits idevice)
          \<longrightarrow> (\<exists>s'. cgpu_update_resources s device p bs is = Some (CGPU_OK, s')))"
proof -
  let ?a = "minStorageBufferOffsetAlignment (limits idevice)"
  have loop:
    "if \<exists>b \<in> set bs. sr_offset b mod ?a \<noteq> 0
     then update_buffer_resources s idevice ipipeline 0 0 bs = Return CGPU_FAIL_BUFFER_OFFSET_NOT_ALIGNED
     else \<exists>ws. update_buffer_resources s idevice ipipeline 0 0 bs = Continue ws \<and> length ws = length bs"
    using bufs al len
    by (intro update_buffer_resources_aligned)
       (auto simp: MAX_DESCRIPTOR_BUFFER_INFOS_def MAX_WRITE_DESCRIPTOR_SETS_def)
  have iff: "cgpu_update_resources s device p bs is = Some (CGPU_FAIL_BUFFER_OFFSET_NOT_ALIGNED, s)
               \<longleftrightarrow> (\<exists>b \<in> set bs. sr_offset b mod ?a \<noteq> 0)"
  proof (cases "\<exists>b \<in> set bs. sr_offset b mod ?a \<noteq> 0")
    case True
    then show ?thesis using loop dev pip by (simp add: cgpu_update_resources_def)
  next
    case False
    then obtain ws where "update_buffer_resources s idevice ipipeline 0 0 bs = Continue ws"
      using loop by auto
    then show ?thesis
      using False dev pip update_image_resources_not_alignment [of s idevice ipipeline 0 "length ws" "is"]
      by (auto simp: cgpu_update_resources_def split: step.splits)
  qed
  have err: "\<forall>r s'. cgpu_update_resources s device p bs is = Some (r, s') \<longrightarrow> r \<noteq> CGPU_OK \<longrightarrow> s' = s"
    using cgpu_update_resources_error_state by blast
  have below: "bs = [b] \<and> 1 < ?a \<and> sr_offset b = ?a - 1
                 \<longrightarrow> cgpu_update_resources s device p bs is = Some (CGPU_FAIL_BUFFER_OFFSET_NOT_ALIGNED, s)"
    using iff word_pred_mod [of ?a] by auto
  have exact: "bs = [b] \<and> is = [] \<and> sr_offset b = ?a
                 \<longrightarrow> (\<exists>s'. cgpu_update_resources s device p bs is = Some (CGPU_OK, s'))"
    using dev pip bufs al
    by (auto simp: cgpu_update_resources_def Let_def MAX_DESCRIPTOR_BUFFER_INFOS_def
          MAX_WRITE_DESCRIPTOR_SETS_def)
  show ?thesis using iff err below exact by blast
qed

theorem cgpu_update_resources_alignment_witness:
  "cgpu_resolve_device recording_state 1 = Some example_idevice
   \<and> cgpu_resolve_pipeline recording_state 1 = Some example_ipipeline
   \<and> cgpu_resolve_buffer recording_state 1 = Some example_ibuffer
   \<and> minStorageBufferOffsetAlignment (limits example_idevice) = 16
   \<and> cgpu_update_resources recording_state 1 1
        [\<lparr>sr_buffer_binding = 0, sr_buffer = 1, sr_offset = 15, sr_size = 16\<rparr>] []
      = Some (CGPU_FAIL_BUFFER_OFFSET_NOT_ALIGNED, recording_state)"
proof -
  have dev: "cgpu_resolve_device recording_state 1 = Some example_idevice"
    by (simp add: resolve_defs store_defs example_defs)
  have pip: "cgpu_resolve_pipeline recording_state 1 = Some example_ipipeline"
    by (simp add: resolve_defs store_defs example_defs)
  have buf: "cgpu_resolve_buffer recording_state 1 = Some example_ibuffer"
    by (simp add: resolve_defs store_defs example_defs)
  have bufs: "\<forall>b \<in> set [\<lparr>sr_buffer_binding = 0, sr_buffer = 1, sr_offset = 15, sr_size = 16\<rparr>].
                cgpu_resolve_buffer recording_state (sr_buffer b) \<noteq> None"
    using buf by simp
  have al: "minStorageBufferOffsetAlignment (limits example_idevice) = 16"
    by (simp add: example_idevice_def)
  have al0: "minStorageBufferOffsetAlignment (limits example_idevice) \<noteq> 0"
    using al by simp
  have len: "length [\<lparr>sr_buffer_binding = 0, sr_buffer = 1, sr_offset = 15, sr_size = 16\<rparr>]
               \<le> MAX_DESCRIPTOR_BUFFER_INFOS"
    by (simp add: MAX_DESCRIPTOR_BUFFER_INFOS_def)
  show ?thesis
    using cgpu_update_resources_alignment [OF dev pip bufs al0 len, of "[]"] dev pip buf al
    by simp
qed

text \<open>
  The claim as written fails when a handle does not resolve: a binding whose offset 15 is
  not a multiple of the alignment 16, but whose buffer handle is the invalid handle, makes
  the call fail with the invalid-handle code and not with the alignment code.
\<close>

theorem cgpu_update_resources_alignment_counterexample:
  "cgpu_update_resources recording_state 1 1
      [\<lparr>sr_buffer_binding = 0, sr_buffer = CGPU_INVALID_HANDLE, sr_offset = 15, sr_size = 16\<rparr>] []
     = Some (CGPU_FAIL_INVALID_HANDLE, recording_state)
   \<and> cgpu_resolve_device recording_state 1 = Some example_idevice
   \<and> sr_offset \<lparr>sr_buffer_binding = 0, sr_buffer = CGPU_INVALID_HANDLE, sr_offset = 15, sr_size = 16\<rparr>
       mod minStorageBufferOffsetAlignment (limits example_idevice) = 15"
  by (simp add: cgpu_update_resources_def resolve_defs store_defs example_defs
        CGPU_INVALID_HANDLE_def)

section \<open>Sizes of the descriptor pool (C5)\<close>

text \<open>
  C5: a successful \<^verbatim>\<open>cgpu_create_pipeline\<close> issues five native requests, the fourth of
  which creates the descriptor pool. Its size table has no descriptor type twice, and it
  has an entry of type \<open>t\<close> with count \<open>n\<close> exactly when the reflection of the shader has
  \<open>n\<close> resources of type \<open>t\<close> and \<open>n\<close> is not zero. (A successful call has only resources
  of the five types that the tally loop knows.)
\<close>

theorem cgpu_create_pipeline_pool_sizes:
  assumes ok: "cgpu_create_pipeline env s device sh entry = (CGPU_OK, p, s')"
      and sh: "cgpu_resolve_shader s sh = Some ishader"
  shows "\<exists>d bl li ci info dp dl.
           new_calls s s'
             = [VkCreateDescriptorSetLayout d bl, VkCreatePipelineLayout d li,
                VkCreateComputePipelines d ci, VkCreateDescriptorPool d info,
                VkAllocateDescriptorSets d dp dl]
         \<and> poolSizeCount info = of_nat (length (pPoolSizes info))
         \<and> distinct (map ps_type (pPoolSizes info))
         \<and> (\<forall>t n. \<lparr>ps_type = t, ps_descriptorCount = n\<rparr> \<in> set (pPoolSizes info) \<longleftrightarrow>
                0 < count_type t (resources (reflection ishader))
                \<and> unat n = count_type t (resources (reflection ishader)))"
proof -
  let ?rs = "resources (reflection ishader)"
  from cgpu_create_pipeline_ok_calls [OF ok sh] obtain d bl li ci info dp dl counts where
    calls: "new_calls s s'
             = [VkCreateDescriptorSetLayout d bl, VkCreatePipelineLayout d li,
                VkCreateComputePipelines d ci, VkCreateDescriptorPool d info,
                VkAllocateDescriptorSets d dp dl]"
    and info: "info = \<lparr>maxSets = 1, poolSizeCount = of_nat (length (pool_sizes_of counts)),
                        pPoolSizes = pool_sizes_of counts\<rparr>"
    and tally: "tally_descriptor_types ?rs no_descriptors = Some counts"
    and len: "length ?rs < MAX_DESCRIPTOR_SET_LAYOUT_BINDINGS"
    by (elim exE conjE)
  from tally_descriptor_types_counts [OF tally] have
    c: "buffer_count counts = of_nat (count_type VK_DESCRIPTOR_TYPE_STORAGE_BUFFER ?rs)"
       "storage_image_count counts = of_nat (count_type VK_DESCRIPTOR_TYPE_STORAGE_IMAGE ?rs)"
       "sampled_image_count counts = of_nat (count_type VK_DESCRIPTOR_TYPE_SAMPLED_IMAGE ?rs)"
       "combined_image_sampler_count counts
          = of_nat (count_type VK_DESCRIPTOR_TYPE_COMBINED_IMAGE_SAMPLER ?rs)"
       "sampler_count counts = of_nat (count_type VK_DESCRIPTOR_TYPE_SAMPLER ?rs)"
    and five: "\<forall>r \<in> set ?rs. descriptor_type r \<in>
          {VK_DESCRIPTOR_TYPE_STORAGE_BUFFER, VK_DESCRIPTOR_TYPE_STORAGE_IMAGE,
           VK_DESCRIPTOR_TYPE_SAMPLED_IMAGE, VK_DESCRIPTOR_TYPE_COMBINED_IMAGE_SAMPLER,
           VK_DESCRIPTOR_TYPE_SAMPLER}"
    by (simp_all add: no_descriptors_def)
  have u: "\<And>t. unat (of_nat (count_type t ?rs) :: u32) = count_type t ?rs"
    using len by (rule unat_count)
  have pos: "(0 :: u32) < of_nat (count_type t ?rs) \<longleftrightarrow> 0 < count_type t ?rs" for t
    by (simp add: word_less_nat_alt u)
  have inj: "unat n = count_type t ?rs \<longleftrightarrow> n = of_nat (count_type t ?rs)" for t and n :: u32
  proof
    assume "unat n = count_type t ?rs"
    then have "of_nat (unat n) = (of_nat (count_type t ?rs) :: u32)" by simp
    then show "n = of_nat (count_type t ?rs)" by simp
  next
    assume "n = of_nat (count_type t ?rs)"
    then show "unat n = count_type t ?rs" using u by simp
  qed
  have mem: "\<lparr>ps_type = t, ps_descriptorCount = n\<rparr> \<in> set (pool_sizes_of counts) \<longleftrightarrow>
                0 < count_type t ?rs \<and> unat n = count_type t ?rs" for t n
  proof (cases "t \<in> {VK_DESCRIPTOR_TYPE_STORAGE_BUFFER, VK_DESCRIPTOR_TYPE_STORAGE_IMAGE,
           VK_DESCRIPTOR_TYPE_SAMPLED_IMAGE, VK_DESCRIPTOR_TYPE_COMBINED_IMAGE_SAMPLER,
           VK_DESCRIPTOR_TYPE_SAMPLER}")
    case True
    then show ?thesis
      unfolding pool_sizes_of_member c inj using pos by auto
  next
    case False
    then have "count_type t ?rs = 0" using count_type_other [OF five] by blast
    then show ?thesis using False unfolding pool_sizes_of_member by auto
  qed
  show ?thesis
    using calls mem pool_sizes_of_distinct [of counts] unfolding info by simp
qed

theorem cgpu_create_pipeline_pool_sizes_witness:
  "fst (cgpu_create_pipeline create_pipeline_ok two_buffers_state 1 1 ''main'') = CGPU_OK
   \<and> cgpu_resolve_shader two_buffers_state 1
       = Some \<lparr>module = 41, reflection = two_buffers_reflection\<rparr>
   \<and> new_calls two_buffers_state
        (snd (snd (cgpu_create_pipeline create_pipeline_ok two_buffers_state 1 1 ''main'')))
       = [VkCreateDescriptorSetLayout 11
            [\<lparr>lb_binding = 0, lb_descriptorType = VK_DESCRIPTOR_TYPE_STORAGE_BUFFER,
              lb_descriptorCount = 1, lb_stageFlags = 0x20\<rparr>,
             \<lparr>lb_binding = 1, lb_descriptorType = VK_DESCRIPTOR_TYPE_STORAGE_BUFFER,
              lb_descriptorCount = 1, lb_stageFlags = 0x20\<rparr>,
             \<lparr>lb_binding = 2, lb_descriptorType = VK_DESCRIPTOR_TYPE_STORAGE_IMAGE,
              lb_descriptorCount = 1, lb_stageFlags = 0x20\<rparr>],
          VkCreatePipelineLayout 11
            \<lparr>setLayoutCount = 1, pSetLayouts = 55, pushConstantRangeCount = 1,
             pPushConstantRanges = \<lparr>pcr_stageFlags = 0x20, pcr_offset = 0, pcr_size = 16\<rparr>\<rparr>,
          VkCreateComputePipelines 11 \<lparr>cp_module = 41, cp_pName = ''main'', cp_layout = 52\<rparr>,
          VkCreateDescriptorPool 11
            \<lparr>maxSets = 1, poolSizeCount = 2,
             pPoolSizes =
               [\<lparr>ps_type = VK_DESCRIPTOR_TYPE_STORAGE_BUFFER, ps_descriptorCount = 2\<rparr>,
                \<lparr>ps_type = VK_DESCRIPTOR_TYPE_STORAGE_IMAGE, ps_descriptorCount = 1\<rparr>]\<rparr>,
          VkAllocateDescriptorSets 11 53 55]"
proof -
  have ev: "cgpu_create_pipeline create_pipeline_ok two_buffers_state 1 1 ''main''
              = (CGPU_OK,
                 fst (snd (cgpu_create_pipeline create_pipeline_ok two_buffers_state 1 1 ''main'')),
                 snd (snd (cgpu_create_pipeline create_pipeline_ok two_buffers_state 1 1 ''main'')))"
    by (simp add: cgpu_create_pipeline_def resolve_defs store_defs example_defs limit_defs
          VK_SUCCESS_def no_descriptors_def Let_def)
  have sh: "cgpu_resolve_shader two_buffers_state 1
              = Some \<lparr>module = 41, reflection = two_buffers_reflection\<rparr>"
    by (simp add: resolve_defs store_defs example_defs)
  from cgpu_create_pipeline_pool_sizes [OF ev sh]
  show ?thesis
    using sh
    by (simp add: cgpu_create_pipeline_def resolve_defs store_defs example_defs limit_defs
          VK_SUCCESS_def no_descriptors_def Let_def pool_sizes_of_def layout_binding_of_def write_defs
          emit_def new_calls_def VK_SHADER_STAGE_COMPUTE_BIT_def)
qed

section \<open>Image tiling (C6)\<close>

text \<open>
  C6, as the code has it: whenever \<^verbatim>\<open>cgpu_create_image\<close> asks the allocator for an image,
  the tiling of the request is linear exactly when the usage argument is equal to the
  transfer-source flag or equal to the transfer-destination flag, and optimal for every
  other usage value; a successful call has issued such a request.
\<close>

theorem cgpu_create_image_tiling:
  assumes "cgpu_create_image env s device w h fmt usage mp = (r, p, s')"
  shows "(VmaCreateImage a info fl \<in> set (new_calls s s') \<longrightarrow>
           (tiling info = VK_IMAGE_TILING_LINEAR \<longleftrightarrow>
              usage = CGPU_IMAGE_USAGE_FLAG_TRANSFER_SRC \<or> usage = CGPU_IMAGE_USAGE_FLAG_TRANSFER_DST)
         \<and> (tiling info = VK_IMAGE_TILING_OPTIMAL \<longleftrightarrow>
              \<not> (usage = CGPU_IMAGE_USAGE_FLAG_TRANSFER_SRC \<or> usage = CGPU_IMAGE_USAGE_FLAG_TRANSFER_DST)))
       \<and> (r = CGPU_OK \<longrightarrow> (\<exists>a info fl. VmaCreateImage a info fl \<in> set (new_calls s s')))"
  using assms
  by (auto simp: cgpu_create_image_def Let_def new_calls_def emit_def write_image_def
        free_image_def image_tiling_for_def split: option.splits prod.splits if_splits)

theorem cgpu_create_image_tiling_witness:
  "fst (cgpu_create_image create_image_ok device_state 1 4 4 0
          CGPU_IMAGE_USAGE_FLAG_TRANSFER_SRC CGPU_MEMORY_PROPERTY_FLAG_DEVICE_LOCAL) = CGPU_OK
   \<and> VmaCreateImage 17
        \<lparr>ici_format = 0, extent_width = 4, extent_height = 4, extent_depth = 1,
         mipLevels = 1, arrayLayers = 1, tiling = VK_IMAGE_TILING_LINEAR,
         ici_usage = 1, initialLayout = VK_IMAGE_LAYOUT_UNDEFINED\<rparr> 1
      \<in> set (new_calls device_state
          (snd (snd (cgpu_create_image create_image_ok device_state 1 4 4 0
             CGPU_IMAGE_USAGE_FLAG_TRANSFER_SRC CGPU_MEMORY_PROPERTY_FLAG_DEVICE_LOCAL))))"
  using cgpu_create_image_tiling [where a = 17 and fl = 1 and info =
             "\<lparr>ici_format = 0, extent_width = 4, extent_height = 4, extent_depth = 1,
               mipLevels = 1, arrayLayers = 1, tiling = VK_IMAGE_TILING_LINEAR,
               ici_usage = 1, initialLayout = VK_IMAGE_LAYOUT_UNDEFINED\<rparr>",
          OF result_triple [of "cgpu_create_image create_image_ok device_state 1 4 4 0
             CGPU_IMAGE_USAGE_FLAG_TRANSFER_SRC CGPU_MEMORY_PROPERTY_FLAG_DEVICE_LOCAL"]]
  by (simp add: cgpu_create_image_def Let_def new_calls_def emit_def write_image_def
        free_image_def image_tiling_for_def image_usage_for_def resolve_defs store_defs
        example_defs create_image_ok_def VK_SUCCESS_def cgpu_translate_memory_properties_def
        flag_defs)

text \<open>
  The claim as written fails for the usage transfer-source together with
  transfer-destination: the request is made with optimal tiling.
\<close>

theorem cgpu_create_image_tiling_counterexample:
  "fst (cgpu_create_image create_image_ok device_state 1 4 4 0
          (CGPU_IMAGE_USAGE_FLAG_TRANSFER_SRC OR CGPU_IMAGE_USAGE_FLAG_TRANSFER_DST)
          CGPU_MEMORY_PROPERTY_FLAG_DEVICE_LOCAL) = CGPU_OK
   \<and> new_calls device_state
        (snd (snd (cgpu_create_image create_image_ok device_state 1 4 4 0
          (CGPU_IMAGE_USAGE_FLAG_TRANSFER_SRC OR CGPU_IMAGE_USAGE_FLAG_TRANSFER_DST)
          CGPU_MEMORY_PROPERTY_FLAG_DEVICE_LOCAL)))
     = [VmaCreateImage 17
          \<lparr>ici_format = 0, extent_width = 4, extent_height = 4, extent_depth = 1,
           mipLevels = 1, arrayLayers = 1, tiling = VK_IMAGE_TILING_OPTIMAL,
           ici_usage = 3, initialLayout = VK_IMAGE_LAYOUT_UNDEFINED\<rparr> 1,
        VkCreateImageView 11 31]"
  by (simp add: cgpu_create_image_def Let_def new_calls_def emit_def write_image_def
        free_image_def image_tiling_for_def image_usage_for_def resolve_defs store_defs
        example_defs create_image_ok_def VK_SUCCESS_def cgpu_translate_memory_properties_def
        flag_defs)
section \<open>Result codes of device creation (C7)\<close>

lemma new_calls_same: "new_calls s s = []"
  by (simp add: new_calls_def)

text \<open>
  C7 asks for a result code of its own for each native object whose creation can fail in
  \<^verbatim>\<open>cgpu_create_device\<close>. For every environment, state and device index: a call that
  tried to create the default sampler and failed there returns the code of a failed
  command pool, which is also what a call returns that failed at the command pool itself.
  A caller cannot tell the two failures apart, although the library has a code for a
  sampler that cannot be created.
\<close>

theorem cgpu_create_device_sampler_failure_code:
  assumes "cgpu_create_device env s index = (r, p, s')"
  shows "(VkCreateSampler d i \<in> set (new_calls s s') \<and> vkCreateSampler_result env \<noteq> VK_SUCCESS
            \<longrightarrow> r = CGPU_FAIL_CAN_NOT_CREATE_COMMAND_POOL)
       \<and> (VkCreateCommandPool d q \<in> set (new_calls s s')
            \<and> vkCreateCommandPool_result env \<noteq> VK_SUCCESS
            \<longrightarrow> r = CGPU_FAIL_CAN_NOT_CREATE_COMMAND_POOL)"
  using assms
  by (auto simp: cgpu_create_device_def Let_def new_calls_def emit_def write_device_def
        free_device_def new_calls_same split: option.splits prod.splits if_splits)

text \<open>
  The theorem at a physical device that meets all requirements, where only the creation of
  the default sampler fails: the call creates the logical device and the command pool,
  tries the sampler, destroys pool and device, and returns the code of a failed command
  pool.
\<close>

theorem cgpu_create_device_sampler_failure_code_witness:
  "VkCreateSampler 11 default_sampler_info
     \<in> set (new_calls initial_state
          (snd (snd (cgpu_create_device (create_device_ok\<lparr>vkCreateSampler_result := - 1\<rparr>)
                       initial_state 0))))
   \<and> vkCreateSampler_result (create_device_ok\<lparr>vkCreateSampler_result := - 1\<rparr>) \<noteq> VK_SUCCESS
   \<and> fst (cgpu_create_device (create_device_ok\<lparr>vkCreateSampler_result := - 1\<rparr>) initial_state 0)
     = CGPU_FAIL_CAN_NOT_CREATE_COMMAND_POOL
   \<and> new_calls initial_state
        (snd (snd (cgpu_create_device (create_device_ok\<lparr>vkCreateSampler_result := - 1\<rparr>)
                     initial_state 0)))
       = [VkCreateDevice 12 [''VK_EXT_descriptor_indexing''] 0, VkCreateCommandPool 11 0,
          VkCreateSampler 11 default_sampler_info, VkDestroyCommandPool 11 14, VkDestroyDevice 11]
   \<and> fst (cgpu_create_device (create_device_ok\<lparr>vkCreateCommandPool_result := - 1\<rparr>)
            initial_state 0)
     = CGPU_FAIL_CAN_NOT_CREATE_COMMAND_POOL
   \<and> new_calls initial_state
        (snd (snd (cgpu_create_device (create_device_ok\<lparr>vkCreateCommandPool_result := - 1\<rparr>)
                     initial_state 0)))
       = [VkCreateDevice 12 [''VK_EXT_descriptor_indexing''] 0, VkCreateCommandPool 11 0,
          VkDestroyDevice 11]"
  using cgpu_create_device_sampler_failure_code
    [where env = "create_device_ok\<lparr>vkCreateSampler_result := - 1\<rparr>" and s = initial_state
       and index = 0 and d = 11 and i = default_sampler_info and q = 0,
     OF result_triple [of "cgpu_create_device (create_device_ok\<lparr>vkCreateSampler_result := - 1\<rparr>)
                             initial_state 0"]]
  by (simp add: cgpu_create_device_def resolve_defs store_defs example_defs limit_defs
        VK_SUCCESS_def write_defs emit_def new_calls_def device_defs Let_def)

section \<open>Image barriers of the generic pipeline barrier (C8)\<close>

lemma image_barriers_loop_ok:
  "image_barriers_loop s i ibs acc = Some (CGPU_OK, B, s1) \<Longrightarrow>
     (\<exists>ib. B = acc @ ib \<and> length ib = length ibs
        \<and> (\<forall>k < length ibs. \<exists>img. cgpu_resolve_image s (imb_image (ibs ! k)) = Some img
              \<and> oldLayout (ib ! k) = layout img \<and> newLayout (ib ! k) = layout img
              \<and> dstAccessMask (ib ! k) = cgpu_translate_access_flags (imb_access_mask (ibs ! k))
              \<and> barrier_image (ib ! k) = image_vk img))
     \<and> s1 = map_images (\<lambda>h img. img\<lparr>access_mask := last_access ibs h (access_mask img)\<rparr>) s"
proof (induction ibs arbitrary: s i acc)
  case Nil
  then show ?case by (simp add: last_access_Nil map_images_def)
next
  case (Cons b rest)
  from Cons.prems obtain img where r: "cgpu_resolve_image s (imb_image b) = Some img"
    by (auto split: option.splits)
  let ?t = "cgpu_translate_access_flags (imb_access_mask b)"
  let ?bvk = "\<lparr>srcAccessMask = access_mask img, dstAccessMask = ?t,
                        oldLayout = layout img, newLayout = layout img,
                        barrier_image = image_vk img\<rparr>"
  let ?s' = "write_image (imb_image b) (img\<lparr>access_mask := ?t\<rparr>) s"
  from Cons.prems r have rec: "image_barriers_loop ?s' (Suc i) rest (acc @ [?bvk]) = Some (CGPU_OK, B, s1)"
    by (auto simp: Let_def split: if_splits)
  from Cons.IH [OF rec] obtain ib where
    B: "B = (acc @ [?bvk]) @ ib" and len: "length ib = length rest"
    and each: "\<forall>k < length rest. \<exists>img. cgpu_resolve_image ?s' (imb_image (rest ! k)) = Some img
              \<and> oldLayout (ib ! k) = layout img \<and> newLayout (ib ! k) = layout img
              \<and> dstAccessMask (ib ! k) = cgpu_translate_access_flags (imb_access_mask (rest ! k))
              \<and> barrier_image (ib ! k) = image_vk img"
    and s1: "s1 = map_images (\<lambda>h img. img\<lparr>access_mask := last_access rest h (access_mask img)\<rparr>) ?s'"
    by blast
  have slot_img: "slot (iimage_store s) (imb_image b) = img"
    using r by (auto simp: cgpu_resolve_image_def resource_store_get_def split: if_splits)
  have each': "\<forall>k < length (b # rest). \<exists>img. cgpu_resolve_image s (imb_image ((b # rest) ! k)) = Some img
              \<and> oldLayout ((?bvk # ib) ! k) = layout img \<and> newLayout ((?bvk # ib) ! k) = layout img
              \<and> dstAccessMask ((?bvk # ib) ! k) = cgpu_translate_access_flags (imb_access_mask ((b # rest) ! k))
              \<and> barrier_image ((?bvk # ib) ! k) = image_vk img"
  proof (intro allI impI)
    fix k assume k: "k < length (b # rest)"
    show "\<exists>img. cgpu_resolve_image s (imb_image ((b # rest) ! k)) = Some img
              \<and> oldLayout ((?bvk # ib) ! k) = layout img \<and> newLayout ((?bvk # ib) ! k) = layout img
              \<and> dstAccessMask ((?bvk # ib) ! k) = cgpu_translate_access_flags (imb_access_mask ((b # rest) ! k))
              \<and> barrier_image ((?bvk # ib) ! k) = image_vk img"
    proof (cases k)
      case 0
      then show ?thesis using r by simp
    next
      case (Suc j)
      with k have j: "j < length rest" by simp
      from each j obtain img' where
        "cgpu_resolve_image ?s' (imb_image (rest ! j)) = Some img'"
        "oldLayout (ib ! j) = layout img'" "newLayout (ib ! j) = layout img'"
        "dstAccessMask (ib ! j) = cgpu_translate_access_flags (imb_access_mask (rest ! j))"
        "barrier_image (ib ! j) = image_vk img'" by blast
      then show ?thesis using Suc r
        by (auto simp: write_image_map resolve_image_map_images split: if_splits)
    qed
  qed
  have s1': "s1 = map_images (\<lambda>h img. img\<lparr>access_mask := last_access (b # rest) h (access_mask img)\<rparr>) s"
    unfolding s1 write_image_map map_images_comp
    by (rule map_images_cong) (auto simp: last_access_Cons slot_img)
  show ?case using B len each' s1' by (intro conjI exI [of _ "?bvk # ib"]) auto
qed

lemma buffer_barriers_loop_return:
  "buffer_barriers_loop s i bs = Return e \<Longrightarrow> e = CGPU_FAIL_INVALID_HANDLE"
  by (induction bs arbitrary: i) (auto simp: Let_def split: option.splits step.splits if_splits)

text \<open>
  C8: a successful \<^verbatim>\<open>cgpu_cmd_pipeline_barrier\<close> records one native barrier command. Its
  image barriers are one per image barrier of the caller, in order; each has the tracked
  layout of its image as old and as new layout and the translated access mask of the
  caller as destination access mask. The state after the call is the state before it with
  that command recorded and with the access mask of every image replaced by the
  translated mask of the last barrier that names the image; in particular the tracked
  layout of every image, and every other field and store, are unchanged.
\<close>

theorem cgpu_cmd_pipeline_barrier_image_barriers:
  assumes "cgpu_cmd_pipeline_barrier s cb mbs bbs ibs = Some (CGPU_OK, s1)"
  shows "\<exists>c mb bb ib.
           s1 = emit (VkCmdPipelineBarrier c
                        (VK_PIPELINE_STAGE_COMPUTE_SHADER_BIT OR VK_PIPELINE_STAGE_TRANSFER_BIT)
                        (VK_PIPELINE_STAGE_COMPUTE_SHADER_BIT OR VK_PIPELINE_STAGE_TRANSFER_BIT)
                        mb bb ib)
                  (map_images (\<lambda>h img. img\<lparr>access_mask := last_access ibs h (access_mask img)\<rparr>) s)
         \<and> length ib = length ibs
         \<and> (\<forall>k < length ibs. \<exists>img.
               cgpu_resolve_image s (imb_image (ibs ! k)) = Some img
               \<and> oldLayout (ib ! k) = layout img \<and> newLayout (ib ! k) = layout img
               \<and> dstAccessMask (ib ! k) = cgpu_translate_access_flags (imb_access_mask (ibs ! k))
               \<and> barrier_image (ib ! k) = image_vk img)
         \<and> (\<forall>h img. cgpu_resolve_image s h = Some img \<longrightarrow>
               cgpu_resolve_image s1 h
                 = Some (img\<lparr>access_mask := last_access ibs h (access_mask img)\<rparr>))"
proof -
  from assms obtain icb idev mb bb ib0 s0 where
    icb: "cgpu_resolve_command_buffer s cb = Some icb"
    and loop: "image_barriers_loop s 0 ibs [] = Some (CGPU_OK, ib0, s0)"
    and s1: "s1 = emit (VkCmdPipelineBarrier (command_buffer icb)
                        (VK_PIPELINE_STAGE_COMPUTE_SHADER_BIT OR VK_PIPELINE_STAGE_TRANSFER_BIT)
                        (VK_PIPELINE_STAGE_COMPUTE_SHADER_BIT OR VK_PIPELINE_STAGE_TRANSFER_BIT)
                        mb bb ib0) s0"
    by (auto simp: cgpu_cmd_pipeline_barrier_def
          split: option.splits step.splits if_splits dest: buffer_barriers_loop_return)
  from image_barriers_loop_ok [OF loop] have
    len: "length ib0 = length ibs"
    and each: "\<forall>k < length ibs. \<exists>img.
               cgpu_resolve_image s (imb_image (ibs ! k)) = Some img
               \<and> oldLayout (ib0 ! k) = layout img \<and> newLayout (ib0 ! k) = layout img
               \<and> dstAccessMask (ib0 ! k) = cgpu_translate_access_flags (imb_access_mask (ibs ! k))
               \<and> barrier_image (ib0 ! k) = image_vk img"
    and s0: "s0 = map_images (\<lambda>h img. img\<lparr>access_mask := last_access ibs h (access_mask img)\<rparr>) s"
    by auto
  have res: "\<forall>h img. cgpu_resolve_image s h = Some img \<longrightarrow>
               cgpu_resolve_image s1 h
                 = Some (img\<lparr>access_mask := last_access ibs h (access_mask img)\<rparr>)"
    unfolding s1 s0
    by (simp add: resolve_image_map_images)
  show ?thesis
    using s1 s0 len each res by blast
qed

theorem cgpu_cmd_pipeline_barrier_image_barriers_witness:
  "cgpu_cmd_pipeline_barrier recording_state 1 [] [] [example_image_barrier]
     = Some (CGPU_OK,
         emit (VkCmdPipelineBarrier 61 0x1800 0x1800 [] []
                 [\<lparr>srcAccessMask = 0, dstAccessMask = VK_ACCESS_SHADER_READ_BIT,
                   oldLayout = VK_IMAGE_LAYOUT_UNDEFINED, newLayout = VK_IMAGE_LAYOUT_UNDEFINED,
                   barrier_image = 31\<rparr>])
           (write_image 1 (example_iimage\<lparr>access_mask := VK_ACCESS_SHADER_READ_BIT\<rparr>)
              recording_state))
   \<and> cgpu_resolve_image
         (emit (VkCmdPipelineBarrier 61 0x1800 0x1800 [] []
                 [\<lparr>srcAccessMask = 0, dstAccessMask = VK_ACCESS_SHADER_READ_BIT,
                   oldLayout = VK_IMAGE_LAYOUT_UNDEFINED, newLayout = VK_IMAGE_LAYOUT_UNDEFINED,
                   barrier_image = 31\<rparr>])
           (write_image 1 (example_iimage\<lparr>access_mask := VK_ACCESS_SHADER_READ_BIT\<rparr>)
              recording_state)) 1
     = Some (example_iimage\<lparr>access_mask := VK_ACCESS_SHADER_READ_BIT\<rparr>)"
proof -
  have ev: "cgpu_cmd_pipeline_barrier recording_state 1 [] [] [example_image_barrier]
     = Some (CGPU_OK,
         emit (VkCmdPipelineBarrier 61 0x1800 0x1800 [] []
                 [\<lparr>srcAccessMask = 0, dstAccessMask = VK_ACCESS_SHADER_READ_BIT,
                   oldLayout = VK_IMAGE_LAYOUT_UNDEFINED, newLayout = VK_IMAGE_LAYOUT_UNDEFINED,
                   barrier_image = 31\<rparr>])
           (write_image 1 (example_iimage\<lparr>access_mask := VK_ACCESS_SHADER_READ_BIT\<rparr>)
              recording_state))"
    by (simp add: cgpu_cmd_pipeline_barrier_def resolve_defs store_defs example_defs
          example_image_barrier_def limit_defs cgpu_translate_access_flags_def access_defs
          write_image_def emit_def VK_PIPELINE_STAGE_COMPUTE_SHADER_BIT_def
          VK_PIPELINE_STAGE_TRANSFER_BIT_def)
  have r: "cgpu_resolve_image recording_state 1 = Some example_iimage"
    by (simp add: resolve_defs store_defs example_defs)
  have t: "last_access [example_image_barrier] 1 (access_mask example_iimage)
             = VK_ACCESS_SHADER_READ_BIT"
    by (simp add: last_access_def example_image_barrier_def cgpu_translate_access_flags_def
          access_defs)
  from cgpu_cmd_pipeline_barrier_image_barriers [OF ev] r t
  show ?thesis using ev by auto
qed

section \<open>The push-constant range of the pipeline layout (C9)\<close>

text \<open>
  C9: a successful \<^verbatim>\<open>cgpu_create_pipeline\<close> issues five native requests, the second of
  which creates the pipeline layout. When the reflected size of the push constants is
  zero, the request has range count zero and hands over no push-constant range; otherwise
  it has range count one and hands over one range, for the compute stage, at offset zero,
  of exactly the reflected size.
\<close>

theorem cgpu_create_pipeline_push_constants:
  assumes ok: "cgpu_create_pipeline env s device sh entry = (CGPU_OK, p, s')"
      and sh: "cgpu_resolve_shader s sh = Some ishader"
  shows "\<exists>d bl li ci info dp dl.
           new_calls s s'
             = [VkCreateDescriptorSetLayout d bl, VkCreatePipelineLayout d li,
                VkCreateComputePipelines d ci, VkCreateDescriptorPool d info,
                VkAllocateDescriptorSets d dp dl]
         \<and> pushConstantRangeCount li
             = (if push_constants_size (reflection ishader) = 0 then 0 else 1)
         \<and> push_constant_ranges li
             = (if push_constants_size (reflection ishader) = 0 then []
                else [\<lparr>pcr_stageFlags = VK_SHADER_STAGE_COMPUTE_BIT, pcr_offset = 0,
                       pcr_size = push_constants_size (reflection ishader)\<rparr>])"
proof -
  from cgpu_create_pipeline_ok_calls [OF ok sh] obtain d bl li ci info dp dl where
    calls: "new_calls s s'
             = [VkCreateDescriptorSetLayout d bl, VkCreatePipelineLayout d li,
                VkCreateComputePipelines d ci, VkCreateDescriptorPool d info,
                VkAllocateDescriptorSets d dp dl]"
    and cnt: "pushConstantRangeCount li
             = (if push_constants_size (reflection ishader) \<noteq> 0 then 1 else 0)"
    and rng: "pPushConstantRanges li
             = \<lparr>pcr_stageFlags = VK_SHADER_STAGE_COMPUTE_BIT, pcr_offset = 0,
                pcr_size = push_constants_size (reflection ishader)\<rparr>"
    by (elim exE conjE)
  show ?thesis
    using calls cnt rng by (simp add: push_constant_ranges_def)
qed

text \<open>
  The theorem at two calls that succeed: for a shader with 16 bytes of push constants the
  pipeline layout is requested with one range of size 16; for a shader without push
  constants it is requested with range count zero.
\<close>

theorem cgpu_create_pipeline_push_constants_witness:
  "fst (cgpu_create_pipeline create_pipeline_ok two_buffers_state 1 1 ''main'') = CGPU_OK
   \<and> cgpu_resolve_shader two_buffers_state 1
       = Some \<lparr>module = 41, reflection = two_buffers_reflection\<rparr>
   \<and> push_constants_size two_buffers_reflection = 16
   \<and> new_calls two_buffers_state
        (snd (snd (cgpu_create_pipeline create_pipeline_ok two_buffers_state 1 1 ''main'')))
       = [VkCreateDescriptorSetLayout 11
            [\<lparr>lb_binding = 0, lb_descriptorType = VK_DESCRIPTOR_TYPE_STORAGE_BUFFER,
              lb_descriptorCount = 1, lb_stageFlags = 0x20\<rparr>,
             \<lparr>lb_binding = 1, lb_descriptorType = VK_DESCRIPTOR_TYPE_STORAGE_BUFFER,
              lb_descriptorCount = 1, lb_stageFlags = 0x20\<rparr>,
             \<lparr>lb_binding = 2, lb_descriptorType = VK_DESCRIPTOR_TYPE_STORAGE_IMAGE,
              lb_descriptorCount = 1, lb_stageFlags = 0x20\<rparr>],
          VkCreatePipelineLayout 11
            \<lparr>setLayoutCount = 1, pSetLayouts = 55, pushConstantRangeCount = 1,
             pPushConstantRanges = \<lparr>pcr_stageFlags = 0x20, pcr_offset = 0, pcr_size = 16\<rparr>\<rparr>,
          VkCreateComputePipelines 11 \<lparr>cp_module = 41, cp_pName = ''main'', cp_layout = 52\<rparr>,
          VkCreateDescriptorPool 11
            \<lparr>maxSets = 1, poolSizeCount = 2,
             pPoolSizes =
               [\<lparr>ps_type = VK_DESCRIPTOR_TYPE_STORAGE_BUFFER, ps_descriptorCount = 2\<rparr>,
                \<lparr>ps_type = VK_DESCRIPTOR_TYPE_STORAGE_IMAGE, ps_descriptorCount = 1\<rparr>]\<rparr>,
          VkAllocateDescriptorSets 11 53 55]
   \<and> push_constant_ranges
        \<lparr>setLayoutCount = 1, pSetLayouts = 55, pushConstantRangeCount = 1,
         pPushConstantRanges = \<lparr>pcr_stageFlags = 0x20, pcr_offset = 0, pcr_size = 16\<rparr>\<rparr>
       = [\<lparr>pcr_stageFlags = 0x20, pcr_offset = 0, pcr_size = 16\<rparr>]
   \<and> fst (cgpu_create_pipeline create_pipeline_ok plain_state 1 1 ''main'') = CGPU_OK
   \<and> cgpu_resolve_shader plain_state 1
       = Some \<lparr>module = 41,
                reflection = \<lparr>resources = [storage_buffer_at 0], push_constants_size = 0\<rparr>\<rparr>
   \<and> new_calls plain_state
        (snd (snd (cgpu_create_pipeline create_pipeline_ok plain_state 1 1 ''main'')))
       = [VkCreateDescriptorSetLayout 11
            [\<lparr>lb_binding = 0, lb_descriptorType = VK_DESCRIPTOR_TYPE_STORAGE_BUFFER,
              lb_descriptorCount = 1, lb_stageFlags = 0x20\<rparr>],
          VkCreatePipelineLayout 11
            \<lparr>setLayoutCount = 1, pSetLayouts = 55, pushConstantRangeCount = 0,
             pPushConstantRanges = \<lparr>pcr_stageFlags = 0x20, pcr_offset = 0, pcr_size = 0\<rparr>\<rparr>,
          VkCreateComputePipelines 11 \<lparr>cp_module = 41, cp_pName = ''main'', cp_layout = 52\<rparr>,
          VkCreateDescriptorPool 11
            \<lparr>maxSets = 1, poolSizeCount = 1,
             pPoolSizes =
               [\<lparr>ps_type = VK_DESCRIPTOR_TYPE_STORAGE_BUFFER, ps_descriptorCount = 1\<rparr>]\<rparr>,
          VkAllocateDescriptorSets 11 53 55]
   \<and> push_constant_ranges
        \<lparr>setLayoutCount = 1, pSetLayouts = 55, pushConstantRangeCount = 0,
         pPushConstantRanges = \<lparr>pcr_stageFlags = 0x20, pcr_offset = 0, pcr_size = 0\<rparr>\<rparr> = []"
proof -
  have ev: "cgpu_create_pipeline create_pipeline_ok two_buffers_state 1 1 ''main''
              = (CGPU_OK,
                 fst (snd (cgpu_create_pipeline create_pipeline_ok two_buffers_state 1 1 ''main'')),
                 snd (snd (cgpu_create_pipeline create_pipeline_ok two_buffers_state 1 1 ''main'')))"
    by (simp add: cgpu_create_pipeline_def resolve_defs store_defs example_defs limit_defs
          VK_SUCCESS_def no_descriptors_def Let_def)
  have sh: "cgpu_resolve_shader two_buffers_state 1
              = Some \<lparr>module = 41, reflection = two_buffers_reflection\<rparr>"
    by (simp add: resolve_defs store_defs example_defs)
  have ev0: "cgpu_create_pipeline create_pipeline_ok plain_state 1 1 ''main''
              = (CGPU_OK,
                 fst (snd (cgpu_create_pipeline create_pipeline_ok plain_state 1 1 ''main'')),
                 snd (snd (cgpu_create_pipeline create_pipeline_ok plain_state 1 1 ''main'')))"
    by (simp add: cgpu_create_pipeline_def resolve_defs store_defs example_defs limit_defs
          VK_SUCCESS_def no_descriptors_def Let_def)
  have sh0: "cgpu_resolve_shader plain_state 1
       = Some \<lparr>module = 41,
                reflection = \<lparr>resources = [storage_buffer_at 0], push_constants_size = 0\<rparr>\<rparr>"
    by (simp add: resolve_defs store_defs example_defs)
  from cgpu_create_pipeline_push_constants [OF ev sh]
       cgpu_create_pipeline_push_constants [OF ev0 sh0]
  show ?thesis
    using sh sh0
    by (simp add: cgpu_create_pipeline_def resolve_defs store_defs example_defs limit_defs
          VK_SUCCESS_def no_descriptors_def Let_def pool_sizes_of_def layout_binding_of_def write_defs
          emit_def new_calls_def VK_SHADER_STAGE_COMPUTE_BIT_def push_constant_ranges_def)
qed

section \<open>Copy from a buffer to an image (C10)\<close>

text \<open>
  C10, as amended: a successful \<^verbatim>\<open>cgpu_cmd_copy_buffer_to_image\<close> records exactly the copy
  command, with the image in general layout, and sets the tracked layout of the image to
  general; no barrier is recorded and the tracked access mask, like everything else in the
  state, is unchanged. If a successful dispatch follows in which every reflected image
  resource bound to the image is a storage image, so that the shader requires the image
  in general layout only (native images of different bound images being different), the
  dispatch records no barrier for the image and leaves its tracked record as it is.
\<close>

theorem cgpu_cmd_copy_buffer_to_image_layout:
  assumes c: "cgpu_cmd_copy_buffer_to_image s cb buf h = (CGPU_OK, s1)"
  shows "\<exists>icb ibuf img.
           cgpu_resolve_command_buffer s cb = Some icb \<and> cgpu_resolve_buffer s buf = Some ibuf
         \<and> cgpu_resolve_image s h = Some img
         \<and> s1 = write_image h (img\<lparr>layout := VK_IMAGE_LAYOUT_GENERAL\<rparr>)
                   (emit (VkCmdCopyBufferToImage (command_buffer icb) (buffer ibuf) (image_vk img)
                            VK_IMAGE_LAYOUT_GENERAL (width img) (height img)) s)
         \<and> new_calls s s1
              = [VkCmdCopyBufferToImage (command_buffer icb) (buffer ibuf) (image_vk img)
                   VK_IMAGE_LAYOUT_GENERAL (width img) (height img)]
         \<and> cgpu_resolve_image s1 h = Some (img\<lparr>layout := VK_IMAGE_LAYOUT_GENERAL\<rparr>)
         \<and> (cgpu_cmd_dispatch s1 cb' x y z = Some (CGPU_OK, s2)
              \<and> cgpu_resolve_command_buffer s1 cb' = Some icb'
              \<and> cgpu_resolve_pipeline s1 (cb_pipeline icb') = Some ip
              \<and> cgpu_resolve_shader s1 (shader ip) = Some ish
              \<and> (\<forall>r \<in> set (resources (reflection ish)).
                    required_layout (descriptor_type r) \<noteq> None \<and> bound_image ip r = Some h
                    \<longrightarrow> descriptor_type r = VK_DESCRIPTOR_TYPE_STORAGE_IMAGE)
              \<and> native_image_distinct s1 ip h (resources (reflection ish))
            \<longrightarrow> (\<exists>B. new_calls s1 s2
                       = (if B = [] then []
                          else [VkCmdPipelineBarrier (command_buffer icb')
                                  VK_PIPELINE_STAGE_COMPUTE_SHADER_BIT
                                  VK_PIPELINE_STAGE_COMPUTE_SHADER_BIT [] [] B])
                         @ [VkCmdDispatch (command_buffer icb') x y z]
                     \<and> barriers_for (image_vk img) B = []
                     \<and> cgpu_resolve_image s2 h = Some (img\<lparr>layout := VK_IMAGE_LAYOUT_GENERAL\<rparr>)))"
proof -
  from c obtain icb ibuf img where
    icb: "cgpu_resolve_command_buffer s cb = Some icb"
    and ibuf: "cgpu_resolve_buffer s buf = Some ibuf"
    and img: "cgpu_resolve_image s h = Some img"
    and s1: "s1 = write_image h (img\<lparr>layout := VK_IMAGE_LAYOUT_GENERAL\<rparr>)
                   (emit (VkCmdCopyBufferToImage (command_buffer icb) (buffer ibuf) (image_vk img)
                            VK_IMAGE_LAYOUT_GENERAL (width img) (height img)) s)"
    by (auto simp: cgpu_cmd_copy_buffer_to_image_def Let_def split: option.splits)
  let ?img' = "img\<lparr>layout := VK_IMAGE_LAYOUT_GENERAL\<rparr>"
  have calls: "new_calls s s1
              = [VkCmdCopyBufferToImage (command_buffer icb) (buffer ibuf) (image_vk img)
                   VK_IMAGE_LAYOUT_GENERAL (width img) (height img)]"
    unfolding s1 by (simp add: write_image_map map_images_emit)
  have r1: "cgpu_resolve_image s1 h = Some ?img'"
    unfolding s1 using img by (simp add: write_image_map resolve_image_map_images)
  have after: "\<exists>B. new_calls s1 s2
                       = (if B = [] then []
                          else [VkCmdPipelineBarrier (command_buffer icb')
                                  VK_PIPELINE_STAGE_COMPUTE_SHADER_BIT
                                  VK_PIPELINE_STAGE_COMPUTE_SHADER_BIT [] [] B])
                         @ [VkCmdDispatch (command_buffer icb') x y z]
                     \<and> barriers_for (image_vk img) B = []
                     \<and> cgpu_resolve_image s2 h = Some ?img'"
    if d: "cgpu_cmd_dispatch s1 cb' x y z = Some (CGPU_OK, s2)"
      and icb': "cgpu_resolve_command_buffer s1 cb' = Some icb'"
      and ip: "cgpu_resolve_pipeline s1 (cb_pipeline icb') = Some ip"
      and ish: "cgpu_resolve_shader s1 (shader ip) = Some ish"
      and st: "\<forall>r \<in> set (resources (reflection ish)).
                    required_layout (descriptor_type r) \<noteq> None \<and> bound_image ip r = Some h
                    \<longrightarrow> descriptor_type r = VK_DESCRIPTOR_TYPE_STORAGE_IMAGE"
      and inj: "native_image_distinct s1 ip h (resources (reflection ish))"
  proof -
    let ?rs = "resources (reflection ish)"
    from d icb' ip ish obtain B sl where
      loop: "transition_loop ip ?rs s1 [] = Some (CGPU_OK, B, sl)"
      and s2: "s2 = emit (VkCmdDispatch (command_buffer icb') x y z)
              (if B = [] then sl
               else emit (VkCmdPipelineBarrier (command_buffer icb')
                            VK_PIPELINE_STAGE_COMPUTE_SHADER_BIT VK_PIPELINE_STAGE_COMPUTE_SHADER_BIT
                            [] [] B) sl)"
      by (rule dispatch_unfold)
    from transition_loop_frame [OF loop] obtain f where sl: "sl = map_images f s1" by blast
    have cons: "\<forall>r \<in> set ?rs. required_layout (descriptor_type r) \<noteq> None \<and> bound_image ip r = Some h
             \<longrightarrow> required_layout (descriptor_type r) = Some VK_IMAGE_LAYOUT_GENERAL"
    proof (intro ballI impI)
      fix r
      assume "r \<in> set ?rs"
        and "required_layout (descriptor_type r) \<noteq> None \<and> bound_image ip r = Some h"
      then have "descriptor_type r = VK_DESCRIPTOR_TYPE_STORAGE_IMAGE" using st by blast
      then show "required_layout (descriptor_type r) = Some VK_IMAGE_LAYOUT_GENERAL"
        by (simp add: required_layout_def)
    qed
    have sl1: "slot (iimage_store s1) h = ?img'"
      using r1 by (rule resolve_image_slot)
    have it: "image_transition ip h VK_IMAGE_LAYOUT_GENERAL ?rs ?img' = (?img', [])"
      by (simp add: image_transition_def split: option.splits)
    from transition_loop_image [OF loop cons] obtain B' where
      B': "B = [] @ B'"
      and t0: "slot (iimage_store sl) h
                 = fst (image_transition ip h VK_IMAGE_LAYOUT_GENERAL ?rs (slot (iimage_store s1) h))"
      and bf0: "native_image_distinct s1 ip h ?rs \<longrightarrow>
                  barriers_for (image_vk (slot (iimage_store s1) h)) B'
                    = snd (image_transition ip h VK_IMAGE_LAYOUT_GENERAL ?rs (slot (iimage_store s1) h))"
      by blast
    have t: "slot (iimage_store sl) h = ?img'"
      using t0 unfolding sl1 it by simp
    have bf: "barriers_for (image_vk img) B = []"
      using bf0 inj B' unfolding sl1 it by simp
    have "cgpu_resolve_image s2 h = Some ?img'"
      using resolve_image_valid [OF r1, of f] t unfolding s2 sl by simp
    moreover have "new_calls s1 s2
                       = (if B = [] then []
                          else [VkCmdPipelineBarrier (command_buffer icb')
                                  VK_PIPELINE_STAGE_COMPUTE_SHADER_BIT
                                  VK_PIPELINE_STAGE_COMPUTE_SHADER_BIT [] [] B])
                         @ [VkCmdDispatch (command_buffer icb') x y z]"
      unfolding s2 sl by (simp add: new_calls_def emit_def map_images_def)
    ultimately show ?thesis using bf by blast
  qed
  have after': "cgpu_cmd_dispatch s1 cb' x y z = Some (CGPU_OK, s2)
              \<and> cgpu_resolve_command_buffer s1 cb' = Some icb'
              \<and> cgpu_resolve_pipeline s1 (cb_pipeline icb') = Some ip
              \<and> cgpu_resolve_shader s1 (shader ip) = Some ish
              \<and> (\<forall>r \<in> set (resources (reflection ish)).
                    required_layout (descriptor_type r) \<noteq> None \<and> bound_image ip r = Some h
                    \<longrightarrow> descriptor_type r = VK_DESCRIPTOR_TYPE_STORAGE_IMAGE)
              \<and> native_image_distinct s1 ip h (resources (reflection ish))
            \<longrightarrow> (\<exists>B. new_calls s1 s2
                       = (if B = [] then []
                          else [VkCmdPipelineBarrier (command_buffer icb')
                                  VK_PIPELINE_STAGE_COMPUTE_SHADER_BIT
                                  VK_PIPELINE_STAGE_COMPUTE_SHADER_BIT [] [] B])
                         @ [VkCmdDispatch (command_buffer icb') x y z]
                     \<and> barriers_for (image_vk img) B = []
                     \<and> cgpu_resolve_image s2 h = Some ?img')"
  proof (intro impI, elim conjE)
    assume "cgpu_cmd_dispatch s1 cb' x y z = Some (CGPU_OK, s2)"
      "cgpu_resolve_command_buffer s1 cb' = Some icb'"
      "cgpu_resolve_pipeline s1 (cb_pipeline icb') = Some ip"
      "cgpu_resolve_shader s1 (shader ip) = Some ish"
      "\<forall>r \<in> set (resources (reflection ish)).
                    required_layout (descriptor_type r) \<noteq> None \<and> bound_image ip r = Some h
                    \<longrightarrow> descriptor_type r = VK_DESCRIPTOR_TYPE_STORAGE_IMAGE"
      "native_image_distinct s1 ip h (resources (reflection ish))"
    then show "\<exists>B. new_calls s1 s2
                       = (if B = [] then []
                          else [VkCmdPipelineBarrier (command_buffer icb')
                                  VK_PIPELINE_STAGE_COMPUTE_SHADER_BIT
                                  VK_PIPELINE_STAGE_COMPUTE_SHADER_BIT [] [] B])
                         @ [VkCmdDispatch (command_buffer icb') x y z]
                     \<and> barriers_for (image_vk img) B = []
                     \<and> cgpu_resolve_image s2 h = Some ?img'"
      by (rule after)
  qed
  show ?thesis
    by (intro exI [of _ icb] exI [of _ ibuf] exI [of _ img] conjI icb ibuf img s1 calls r1 after')
qed

theorem cgpu_cmd_copy_buffer_to_image_layout_witness:
  "cgpu_cmd_copy_buffer_to_image tracking_state 1 1 2 = (CGPU_OK, tracking_state_copied)
   \<and> cgpu_resolve_image tracking_state_copied 2
       = Some (example_iimage\<lparr>image_vk := 35, image_view := 36, image_allocation := 37,
                               layout := VK_IMAGE_LAYOUT_GENERAL\<rparr>)
   \<and> cgpu_cmd_dispatch tracking_state_copied 1 8 8 1
       = Some (CGPU_OK, tracking_state_copied_dispatched)
   \<and> new_calls tracking_state_copied tracking_state_copied_dispatched
       = [VkCmdPipelineBarrier 61 0x800 0x800 [] []
            [\<lparr>srcAccessMask = 0, dstAccessMask = 0x20, oldLayout = VK_IMAGE_LAYOUT_UNDEFINED,
              newLayout = VK_IMAGE_LAYOUT_SHADER_READ_ONLY_OPTIMAL, barrier_image = 31\<rparr>],
          VkCmdDispatch 61 8 8 1]
   \<and> cgpu_resolve_image tracking_state_copied_dispatched 2
       = Some (example_iimage\<lparr>image_vk := 35, image_view := 36, image_allocation := 37,
                               layout := VK_IMAGE_LAYOUT_GENERAL\<rparr>)"
proof -
  let ?img = "example_iimage\<lparr>image_vk := 35, image_view := 36, image_allocation := 37\<rparr>"
  have c: "cgpu_cmd_copy_buffer_to_image tracking_state 1 1 2 = (CGPU_OK, tracking_state_copied)"
    by (simp add: cgpu_cmd_copy_buffer_to_image_def resolve_defs store_defs example_defs
          tracking_state_copied_def write_image_def emit_def)
  have img: "cgpu_resolve_image tracking_state 2 = Some ?img"
    by (simp add: resolve_defs store_defs example_defs)
  have d: "cgpu_cmd_dispatch tracking_state_copied 1 8 8 1
             = Some (CGPU_OK, tracking_state_copied_dispatched)"
    by (simp add: cgpu_cmd_dispatch_def cgpu_transition_image_layouts_for_shader_def
          resolve_defs store_defs example_defs tracking_state_copied_def
          tracking_state_copied_dispatched_def required_layout_def
          shader_access_mask_def limit_defs write_image_def emit_def find_image_resource_numeral
          VK_ACCESS_SHADER_READ_BIT_def VK_ACCESS_SHADER_WRITE_BIT_def
          VK_PIPELINE_STAGE_COMPUTE_SHADER_BIT_def)
  have icb: "cgpu_resolve_command_buffer tracking_state_copied 1 = Some example_icommand_buffer"
    by (simp add: resolve_defs store_defs example_defs tracking_state_copied_def write_image_def
          emit_def)
  have ip: "cgpu_resolve_pipeline tracking_state_copied (cb_pipeline example_icommand_buffer)
              = Some tracking_pipeline"
    by (simp add: resolve_defs store_defs example_defs tracking_state_copied_def write_image_def
          emit_def)
  have ish: "cgpu_resolve_shader tracking_state_copied (shader tracking_pipeline)
               = Some tracking_shader"
    by (simp add: resolve_defs store_defs example_defs tracking_state_copied_def write_image_def
          emit_def)
  have st: "\<forall>r \<in> set (resources (reflection tracking_shader)).
              required_layout (descriptor_type r) \<noteq> None \<and> bound_image tracking_pipeline r = Some 2
              \<longrightarrow> descriptor_type r = VK_DESCRIPTOR_TYPE_STORAGE_IMAGE"
    by (simp add: bound_image_def required_layout_def example_defs find_image_resource_numeral)
  have inj: "native_image_distinct tracking_state_copied tracking_pipeline 2
               (resources (reflection tracking_shader))"
    by (simp add: native_image_distinct_def bound_image_def required_layout_def example_defs
          find_image_resource_numeral tracking_state_copied_def write_image_def emit_def
          store_defs)
  from cgpu_cmd_copy_buffer_to_image_layout [OF c, of 1 8 8 1 tracking_state_copied_dispatched
         example_icommand_buffer tracking_pipeline tracking_shader]
       img d icb ip ish st inj
  have "cgpu_resolve_image tracking_state_copied 2 = Some (?img\<lparr>layout := VK_IMAGE_LAYOUT_GENERAL\<rparr>)"
    and "cgpu_resolve_image tracking_state_copied_dispatched 2
           = Some (?img\<lparr>layout := VK_IMAGE_LAYOUT_GENERAL\<rparr>)"
    by auto
  moreover have "new_calls tracking_state_copied tracking_state_copied_dispatched
       = [VkCmdPipelineBarrier 61 0x800 0x800 [] []
            [\<lparr>srcAccessMask = 0, dstAccessMask = 0x20, oldLayout = VK_IMAGE_LAYOUT_UNDEFINED,
              newLayout = VK_IMAGE_LAYOUT_SHADER_READ_ONLY_OPTIMAL, barrier_image = 31\<rparr>],
          VkCmdDispatch 61 8 8 1]"
    by (simp add: new_calls_def tracking_state_copied_dispatched_def emit_def write_image_def)
  ultimately show ?thesis using c d by simp
qed

text \<open>
  C10 as stated, without the restriction to storage images, fails when the image is also
  bound to a sampled-image resource. Image 1 is bound to the sampled image at binding 1 and
  to the storage image at binding 2, so the shader requires it in general layout. After
  the copy into image 1 its tracked layout is general; the dispatch that follows finds the
  sampled-image resource first, moves the image to the shader-read-only layout, then finds
  the storage-image resource and moves it back to general: two barriers are recorded for
  the image and its tracked access mask changes from 0 to shader write.
\<close>

theorem cgpu_cmd_copy_buffer_to_image_layout_counterexample:
  "cgpu_cmd_copy_buffer_to_image aliasing_state 1 1 1 = (CGPU_OK, aliasing_state_copied)
   \<and> cgpu_resolve_image aliasing_state_copied 1
       = Some (example_iimage\<lparr>layout := VK_IMAGE_LAYOUT_GENERAL\<rparr>)
   \<and> cgpu_resolve_pipeline aliasing_state_copied 1 = Some aliasing_pipeline
   \<and> bound_image aliasing_pipeline
        \<lparr>refl_binding = 2, descriptor_type = VK_DESCRIPTOR_TYPE_STORAGE_IMAGE,
         write_access = True, read_access = False\<rparr> = Some 1
   \<and> required_layout VK_DESCRIPTOR_TYPE_STORAGE_IMAGE = Some VK_IMAGE_LAYOUT_GENERAL
   \<and> native_image_distinct aliasing_state_copied aliasing_pipeline 1
        (resources (reflection tracking_shader))
   \<and> cgpu_cmd_dispatch aliasing_state_copied 1 8 8 1
       = Some (CGPU_OK, aliasing_state_copied_dispatched)
   \<and> new_calls aliasing_state_copied aliasing_state_copied_dispatched
       = [VkCmdPipelineBarrier 61 0x800 0x800 [] []
            [\<lparr>srcAccessMask = 0, dstAccessMask = 0x20,
              oldLayout = VK_IMAGE_LAYOUT_GENERAL,
              newLayout = VK_IMAGE_LAYOUT_SHADER_READ_ONLY_OPTIMAL, barrier_image = 31\<rparr>,
             \<lparr>srcAccessMask = 0x20, dstAccessMask = 0x40,
              oldLayout = VK_IMAGE_LAYOUT_SHADER_READ_ONLY_OPTIMAL,
              newLayout = VK_IMAGE_LAYOUT_GENERAL, barrier_image = 31\<rparr>],
          VkCmdDispatch 61 8 8 1]
   \<and> image_vk example_iimage = 31
   \<and> barriers_for 31
        [\<lparr>srcAccessMask = 0, dstAccessMask = 0x20,
          oldLayout = VK_IMAGE_LAYOUT_GENERAL,
          newLayout = VK_IMAGE_LAYOUT_SHADER_READ_ONLY_OPTIMAL, barrier_image = 31\<rparr>,
         \<lparr>srcAccessMask = 0x20, dstAccessMask = 0x40,
          oldLayout = VK_IMAGE_LAYOUT_SHADER_READ_ONLY_OPTIMAL,
          newLayout = VK_IMAGE_LAYOUT_GENERAL, barrier_image = 31\<rparr>]
       = [\<lparr>srcAccessMask = 0, dstAccessMask = 0x20,
           oldLayout = VK_IMAGE_LAYOUT_GENERAL,
           newLayout = VK_IMAGE_LAYOUT_SHADER_READ_ONLY_OPTIMAL, barrier_image = 31\<rparr>,
          \<lparr>srcAccessMask = 0x20, dstAccessMask = 0x40,
           oldLayout = VK_IMAGE_LAYOUT_SHADER_READ_ONLY_OPTIMAL,
           newLayout = VK_IMAGE_LAYOUT_GENERAL, barrier_image = 31\<rparr>]
   \<and> cgpu_resolve_image aliasing_state_copied_dispatched 1
       = Some (example_iimage\<lparr>access_mask := 0x40, layout := VK_IMAGE_LAYOUT_GENERAL\<rparr>)
   \<and> access_mask example_iimage = 0"
  by (simp add: cgpu_cmd_copy_buffer_to_image_def cgpu_cmd_dispatch_def
        cgpu_transition_image_layouts_for_shader_def
        resolve_defs store_defs example_defs aliasing_state_copied_def
        aliasing_state_copied_dispatched_def required_layout_def bound_image_def
        native_image_distinct_def barriers_for_def
        shader_access_mask_def limit_defs write_image_def emit_def find_image_resource_numeral new_calls_def
        VK_ACCESS_SHADER_READ_BIT_def VK_ACCESS_SHADER_WRITE_BIT_def
        VK_PIPELINE_STAGE_COMPUTE_SHADER_BIT_def)

end
